theory Spec2Isabelle
  imports Complex_Main
begin

section \<open>Lattice option pricers of QLib\<close>

text \<open>
  The notebooks price vanilla options on recombining trees with numpy. The embedding
  keeps the layout of the source: a lattice is a dense two-dimensional array, indexed
  \<open>M ! row ! column\<close>, the column is the time step. numpy's float64 is read as
  \<open>real\<close>: rounding, overflow, infinities and NaN are outside the model of the
  lattices. They are modelled for the trinomial probabilities, whose sum depends on
  them: that block is given once more in binary64 arithmetic. The step count \<open>Ntree\<close>
  is a \<open>nat\<close>: negative step counts are not modelled.
\<close>

subsection \<open>Errors and arrays\<close>

text \<open>
  \<open>ZeroDivisionError\<close> is what Python raises for \<open>T/Ntree\<close> with \<open>Ntree = 0\<close>;
  \<open>ParametersNotAllowed\<close> is \<open>Exception('parameter values not allowed')\<close>;
  \<open>OptypeNotCallOrPut\<close> is \<open>Exception('optype must be call or put')\<close>;
  \<open>ModeNotDefined\<close> is \<open>Exception('mode not defined')\<close> of the additive binomial
  pricers; \<open>OverflowError\<close> is what Python raises when \<open>x**2\<close> on a float is too
  large for a float, or an \<open>int\<close> too large to be converted to a float.
\<close>

datatype error =
  ZeroDivisionError | ParametersNotAllowed | OptypeNotCallOrPut | ModeNotDefined | OverflowError

type_synonym matrix = "real list list"

text \<open>\<open>np.zeros(shape=(nrows, ncols))\<close>\<close>

definition zeros :: "nat \<Rightarrow> nat \<Rightarrow> matrix" where
  "zeros nrows ncols = replicate nrows (replicate ncols 0)"

text \<open>\<open>M[r, c] = v\<close>\<close>

definition set_entry :: "matrix \<Rightarrow> nat \<Rightarrow> nat \<Rightarrow> real \<Rightarrow> matrix" where
  "set_entry M r c v = M[r := (M ! r)[c := v]]"

text \<open>The read \<open>M[a:b, c]\<close>, for \<open>a \<le> b \<le> len(M)\<close>.\<close>

definition col_slice :: "matrix \<Rightarrow> nat \<Rightarrow> nat \<Rightarrow> nat \<Rightarrow> real list" where
  "col_slice M a b c = map (\<lambda>r. M ! r ! c) [a..<b]"

text \<open>
  The assignment \<open>M[a:b, c] = vs\<close>: row \<open>a + k\<close> receives \<open>vs[k]\<close>. The source only
  assigns vectors of the length of the slice.
\<close>

definition set_col_slice :: "matrix \<Rightarrow> nat \<Rightarrow> nat \<Rightarrow> nat \<Rightarrow> real list \<Rightarrow> matrix" where
  "set_col_slice M a b c vs =
     map (\<lambda>r. if a \<le> r \<and> r < b then (M ! r)[c := vs ! (r - a)] else M ! r) [0..<length M]"

text \<open>\<open>M[a:, c]\<close> and \<open>M[a:, c] = vs\<close>\<close>

definition col_from :: "matrix \<Rightarrow> nat \<Rightarrow> nat \<Rightarrow> real list" where
  "col_from M a c = col_slice M a (length M) c"

definition set_col_from :: "matrix \<Rightarrow> nat \<Rightarrow> nat \<Rightarrow> real list \<Rightarrow> matrix" where
  "set_col_from M a c vs = set_col_slice M a (length M) c vs"

text \<open>\<open>np.tri(n)\<close>, \<open>np.fliplr\<close>, \<open>k * M\<close> and \<open>A - B\<close>\<close>

definition tri :: "nat \<Rightarrow> matrix" where
  "tri n = map (\<lambda>i. map (\<lambda>j. if j \<le> i then 1 else 0) [0..<n]) [0..<n]"

definition fliplr :: "matrix \<Rightarrow> matrix" where
  "fliplr M = map rev M"

definition scale :: "real \<Rightarrow> matrix \<Rightarrow> matrix" where
  "scale k M = map (map (\<lambda>x. k * x)) M"

definition msub :: "matrix \<Rightarrow> matrix \<Rightarrow> matrix" where
  "msub A B = map2 (map2 (\<lambda>x y. x - y)) A B"

text \<open>
  The option type branch, the same text in every pricer:
  \<^verbatim>\<open>
  if optype == 'call':
      Pmat[Pmat<0] = 0
      Pmat = Pmat
  elif optype == 'put':
      Pmat[Pmat>0] = 0
      Pmat = -Pmat
  else: raise Exception('optype must be call or put')
  \<close>
  Both branches act on every element of the array alike: \<open>call_branch\<close> and
  \<open>put_branch\<close> are what they do to one element, and \<open>optype_branch\<close> selects one
  of them or raises.
\<close>

definition call_branch :: "real \<Rightarrow> real" where
  "call_branch x = (if x < 0 then 0 else x)"

definition put_branch :: "real \<Rightarrow> real" where
  "put_branch x = - (if x > 0 then 0 else x)"

definition optype_branch :: "string \<Rightarrow> error + (real \<Rightarrow> real)" where
  "optype_branch optype =
     (if optype = ''call'' then Inr call_branch
      else if optype = ''put'' then Inr put_branch
      else Inl OptypeNotCallOrPut)"

text \<open>The intrinsic payoff of the glossary, at an asset price \<open>S\<close>.\<close>

definition intrinsic :: "string \<Rightarrow> real \<Rightarrow> real \<Rightarrow> real" where
  "intrinsic optype K S = (if optype = ''call'' then max (S - K) 0 else max (K - S) 0)"

subsection \<open>Multiplicative binomial model\<close>

text \<open>
  The asset prices of time step \<open>t\<close>, from the highest to the lowest:
  \<^verbatim>\<open>
  exponents = np.arange(t+1)
  S0*(u**exponents[::-1])*(d**exponents)
  \<close>
\<close>

definition BM_prices :: "real \<Rightarrow> real \<Rightarrow> real \<Rightarrow> nat \<Rightarrow> real list" where
  "BM_prices S0 u d t =
     (let exponents = [0..<t + 1]
      in map2 (\<lambda>a b. S0 * u ^ a * d ^ b) (rev exponents) exponents)"

text \<open>
  The first \<open>n\<close> rounds of
  \<^verbatim>\<open>
  for t in range (Ntree+1): # asset price
      exponents = np.arange(t+1)
      Pmat[Ntree-t:,t] = S0*(u**exponents[::-1])*(d**exponents)
  \<close>
\<close>

primrec BM_price_loop :: "real \<Rightarrow> real \<Rightarrow> real \<Rightarrow> nat \<Rightarrow> nat \<Rightarrow> matrix \<Rightarrow> matrix" where
  "BM_price_loop S0 u d N 0 Pmat = Pmat"
| "BM_price_loop S0 u d N (Suc t) Pmat =
     set_col_from (BM_price_loop S0 u d N t Pmat) (N - t) t (BM_prices S0 u d t)"

text \<open>
  The payoff matrix before the option type is looked at:
  \<^verbatim>\<open>
  Pmat = np.zeros(shape=(Ntree+1,Ntree+1))
  Pmat[Ntree, 0] = S0
  for t in range (Ntree+1): ...
  Kmat = K*np.fliplr(np.tri(Ntree+1)) # strike
  Pmat = Pmat-Kmat
  \<close>
  (The array \<open>SN\<close> computed just before is never read.)
\<close>

definition BM_Pmat :: "real \<Rightarrow> real \<Rightarrow> real \<Rightarrow> real \<Rightarrow> nat \<Rightarrow> matrix" where
  "BM_Pmat S0 K u d N =
     (let Pmat = zeros (N + 1) (N + 1);
          Pmat = set_entry Pmat N 0 S0;
          Pmat = BM_price_loop S0 u d N (N + 1) Pmat;
          Kmat = scale K (fliplr (tri (N + 1)))
      in msub Pmat Kmat)"

text \<open>
  The discounted expectation, written three times in the source with the same text:
  \<^verbatim>\<open>dfact*(p*Vmat[m:Ntree, t+1] + (1-p)*Vmat[m+1:, t+1])\<close>
\<close>

definition BM_cont :: "real \<Rightarrow> real \<Rightarrow> nat \<Rightarrow> matrix \<Rightarrow> nat \<Rightarrow> nat \<Rightarrow> real list" where
  "BM_cont dfact p N Vmat m t =
     map2 (\<lambda>a b. dfact * (p * a + (1 - p) * b))
       (col_slice Vmat m N (t + 1)) (col_from Vmat (m + 1) (t + 1))"

text \<open>
  The first \<open>n\<close> rounds of the backward loop of \<open>BM_Euro\<close>; round \<open>m\<close> has
  \<open>t = Ntree - 1 - m\<close>:
  \<^verbatim>\<open>
  for m, t in enumerate(range(Ntree-1,-1,-1)):
      Vmat[m+1:, t] = dfact*(p*Vmat[m:Ntree, t+1] + (1-p)*Vmat[m+1:, t+1])
  \<close>
\<close>

primrec BM_Euro_loop :: "real \<Rightarrow> real \<Rightarrow> nat \<Rightarrow> nat \<Rightarrow> matrix \<Rightarrow> matrix" where
  "BM_Euro_loop dfact p N 0 Vmat = Vmat"
| "BM_Euro_loop dfact p N (Suc m) Vmat =
     (let V = BM_Euro_loop dfact p N m Vmat; t = N - 1 - m
      in set_col_from V (m + 1) t (BM_cont dfact p N V m t))"

text \<open>
  \<open>BM_Euro\<close>: the value returned, or the exception raised.
\<close>

definition BM_Euro ::
  "real \<Rightarrow> real \<Rightarrow> real \<Rightarrow> real \<Rightarrow> real \<Rightarrow> real \<Rightarrow> nat \<Rightarrow> string \<Rightarrow> error + matrix" where
  "BM_Euro S0 K r u d T N optype =
     (if N = 0 then Inl ZeroDivisionError
      else
        let dt = T / real N;
            dfact = exp (- r * dt);
            p = (exp (r * dt) - d) / (u - d)
        in if \<not> (0 < d \<and> d < 1 / dfact \<and> 1 / dfact < u) then Inl ParametersNotAllowed
           else
             let Pmat = BM_Pmat S0 K u d N
             in case optype_branch optype of
                  Inl e \<Rightarrow> Inl e
                | Inr f \<Rightarrow>
                    let Pmat = map (map f) Pmat;
                        Vmat = zeros (N + 1) (N + 1);
                        Vmat = set_col_from Vmat 0 N (col_from Pmat 0 N)
                    in Inr (BM_Euro_loop dfact p N N Vmat))"

text \<open>
  The two backward loops of \<open>BM_Amer\<close>, first the one without the exercise matrix:
  \<^verbatim>\<open>
  for m, t in enumerate(range(Ntree-1,-1,-1)):
      Vmat[m+1:, t] = np.maximum(dfact*(p*Vmat[m:Ntree, t+1] + (1-p)*Vmat[m+1:, t+1]), Pmat[m+1:, t])
  \<close>
  then the one with it, which adds the line
  \<^verbatim>\<open>
      Exmat[m+1:, t] = (dfact*(p*Vmat[m:Ntree, t+1] + (1-p)*Vmat[m+1:, t+1]) - Pmat[m+1:, t])<0
  \<close>
  where \<open>Vmat\<close> is already the updated array, and a boolean is stored as 1 or 0.
\<close>

primrec BM_Amer_loop :: "real \<Rightarrow> real \<Rightarrow> nat \<Rightarrow> matrix \<Rightarrow> nat \<Rightarrow> matrix \<Rightarrow> matrix" where
  "BM_Amer_loop dfact p N Pmat 0 Vmat = Vmat"
| "BM_Amer_loop dfact p N Pmat (Suc m) Vmat =
     (let V = BM_Amer_loop dfact p N Pmat m Vmat; t = N - 1 - m
      in set_col_from V (m + 1) t (map2 max (BM_cont dfact p N V m t) (col_from Pmat (m + 1) t)))"

primrec BM_Amer_loop_ex ::
  "real \<Rightarrow> real \<Rightarrow> nat \<Rightarrow> matrix \<Rightarrow> nat \<Rightarrow> matrix \<times> matrix \<Rightarrow> matrix \<times> matrix" where
  "BM_Amer_loop_ex dfact p N Pmat 0 VE = VE"
| "BM_Amer_loop_ex dfact p N Pmat (Suc m) VE =
     (let (V, E) = BM_Amer_loop_ex dfact p N Pmat m VE;
          t = N - 1 - m;
          V = set_col_from V (m + 1) t
                (map2 max (BM_cont dfact p N V m t) (col_from Pmat (m + 1) t));
          E = set_col_from E (m + 1) t
                (map (\<lambda>x. if x < 0 then 1 else 0)
                   (map2 (\<lambda>c q. c - q) (BM_cont dfact p N V m t) (col_from Pmat (m + 1) t)))
      in (V, E))"

text \<open>
  \<open>BM_Amer\<close> returns \<open>Vmat\<close>; with \<open>exmat\<close> it also hands \<open>Exmat\<close> to
  \<open>plt.matshow\<close>. The result of the model is the pair of the returned array and of
  the array plotted, if any.
\<close>

definition BM_Amer ::
  "real \<Rightarrow> real \<Rightarrow> real \<Rightarrow> real \<Rightarrow> real \<Rightarrow> real \<Rightarrow> nat \<Rightarrow> string \<Rightarrow> bool
     \<Rightarrow> error + matrix \<times> matrix option" where
  "BM_Amer S0 K r u d T N optype exmat =
     (if N = 0 then Inl ZeroDivisionError
      else
        let dt = T / real N;
            dfact = exp (- r * dt);
            p = (exp (r * dt) - d) / (u - d)
        in if \<not> (0 < d \<and> d < 1 / dfact \<and> 1 / dfact < u) then Inl ParametersNotAllowed
           else
             let Pmat = BM_Pmat S0 K u d N
             in case optype_branch optype of
                  Inl e \<Rightarrow> Inl e
                | Inr f \<Rightarrow>
                    let Pmat = map (map f) Pmat;
                        Vmat = zeros (N + 1) (N + 1);
                        Vmat = set_col_from Vmat 0 N (col_from Pmat 0 N)
                    in if exmat then
                         let Exmat = zeros (N + 1) (N + 1);
                             (Vmat, Exmat) = BM_Amer_loop_ex dfact p N Pmat N (Vmat, Exmat)
                         in Inr (Vmat, Some Exmat)
                       else Inr (BM_Amer_loop dfact p N Pmat N Vmat, None))"

subsection \<open>Trinomial parameters\<close>

text \<open>
  The first lines of \<open>aTM_Euro\<close> and of \<open>aTM_Amer\<close> (the same text in both), after
  \<open>dt = T/Ntree\<close> (\<open>divy\<close> is the source's \<open>div\<close>):
  \<^verbatim>\<open>
  sdt = np.sqrt(dt)
  dx = np.sqrt(3)*sigma*sdt
  dfact = np.exp(-r*dt)
  nu = (r-div)-0.5*sigma**2
  sf = (sigma**2*dt + (nu*dt)**2)/dx**2
  af = nu*dt/dx
  pu = 0.5*(sf + af)
  pm = 1 - sf
  pd = 0.5*(sf - af)
  \<close>
\<close>

record tri_params =
  tp_dx :: real
  tp_dfact :: real
  tp_pu :: real
  tp_pm :: real
  tp_pd :: real

definition aTM_params :: "real \<Rightarrow> real \<Rightarrow> real \<Rightarrow> real \<Rightarrow> tri_params" where
  "aTM_params r sigma divy dt =
     (let sdt = sqrt dt;
          dx = sqrt 3 * sigma * sdt;
          dfact = exp (- r * dt);
          nu = (r - divy) - 0.5 * sigma ^ 2;
          sf = (sigma ^ 2 * dt + (nu * dt) ^ 2) / dx ^ 2;
          af = nu * dt / dx;
          pu = 0.5 * (sf + af);
          pm = 1 - sf;
          pd = 0.5 * (sf - af)
      in \<lparr>tp_dx = dx, tp_dfact = dfact, tp_pu = pu, tp_pm = pm, tp_pd = pd\<rparr>)"

subsection \<open>Trinomial model\<close>

text \<open>
  The asset prices of time step \<open>t\<close>, from the highest to the lowest:
  \<^verbatim>\<open>
  exponents = np.arange(-t, t+1)
  S0*np.exp(dx*exponents[::-1])
  \<close>
\<close>

definition aTM_prices :: "real \<Rightarrow> real \<Rightarrow> nat \<Rightarrow> real list" where
  "aTM_prices S0 dx t =
     (let exponents = [- int t..int t]
      in map (\<lambda>e. S0 * exp (dx * real_of_int e)) (rev exponents))"

text \<open>
  The first \<open>n\<close> rounds of the loop that fills \<open>Pmat\<close> and \<open>Kmat\<close>, with
  \<open>j0 = Ntree\<close>; the scalar \<open>K\<close> is broadcast over the slice:
  \<^verbatim>\<open>
  for t in range (Ntree+1): # asset price
      exponents = np.arange(-t, t+1)
      Pmat[j0-t:j0+(t+1), t] = S0*np.exp(dx*exponents[::-1])
      Kmat[j0-t:j0+(t+1), t] = K # strike
  \<close>
\<close>

primrec aTM_price_loop ::
  "real \<Rightarrow> real \<Rightarrow> real \<Rightarrow> nat \<Rightarrow> nat \<Rightarrow> matrix \<times> matrix \<Rightarrow> matrix \<times> matrix" where
  "aTM_price_loop S0 K dx j0 0 PK = PK"
| "aTM_price_loop S0 K dx j0 (Suc t) PK =
     (let (Pmat, Kmat) = aTM_price_loop S0 K dx j0 t PK;
          Pmat = set_col_slice Pmat (j0 - t) (j0 + (t + 1)) t (aTM_prices S0 dx t);
          Kmat = set_col_slice Kmat (j0 - t) (j0 + (t + 1)) t
                   (replicate (j0 + (t + 1) - (j0 - t)) K)
      in (Pmat, Kmat))"

definition aTM_Pmat :: "real \<Rightarrow> real \<Rightarrow> real \<Rightarrow> nat \<Rightarrow> matrix" where
  "aTM_Pmat S0 K dx N =
     (let j0 = N;
          Pmat = zeros (2 * N + 1) (N + 1);
          Kmat = zeros (2 * N + 1) (N + 1);
          (Pmat, Kmat) = aTM_price_loop S0 K dx j0 (N + 1) (Pmat, Kmat)
      in msub Pmat Kmat)"

text \<open>
  The discounted expectation, written three times in the source with the same text:
  \<^verbatim>\<open>
  dfact*(pu*Vmat[m:2*Ntree-(m+1), t+1] + pm*Vmat[m+1:2*Ntree-m, t+1]
         + pd*Vmat[m+2:2*Ntree-(m-1), t+1])
  \<close>
  The integer \<open>2*Ntree-(m-1)\<close> is \<open>2 * N + 1 - m\<close>, also for \<open>m = 0\<close>.
\<close>

definition aTM_cont :: "tri_params \<Rightarrow> nat \<Rightarrow> matrix \<Rightarrow> nat \<Rightarrow> nat \<Rightarrow> real list" where
  "aTM_cont P N Vmat m t =
     map (\<lambda>(a, b, c). tp_dfact P * (tp_pu P * a + tp_pm P * b + tp_pd P * c))
       (zip (col_slice Vmat m (2 * N - (m + 1)) (t + 1))
          (zip (col_slice Vmat (m + 1) (2 * N - m) (t + 1))
             (col_slice Vmat (m + 2) (2 * N + 1 - m) (t + 1))))"

text \<open>
  The backward loop of \<open>aTM_Euro\<close>, and the two of \<open>aTM_Amer\<close>:
  \<^verbatim>\<open>
  for m, t in enumerate(range(Ntree-1,-1,-1)):
      Vmat[j0-t:j0+(t+1), t] = dfact*(...)                                      # aTM_Euro
      Vmat[j0-t:j0+(t+1), t] = np.maximum(dfact*(...), Pmat[j0-t:j0+(t+1), t])  # aTM_Amer
      Exmat[j0-t:j0+(t+1), t] = (dfact*(...) - Pmat[j0-t:j0+(t+1), t])<0        # with exmat
  \<close>
\<close>

primrec aTM_Euro_loop :: "tri_params \<Rightarrow> nat \<Rightarrow> nat \<Rightarrow> matrix \<Rightarrow> matrix" where
  "aTM_Euro_loop P N 0 Vmat = Vmat"
| "aTM_Euro_loop P N (Suc m) Vmat =
     (let V = aTM_Euro_loop P N m Vmat; t = N - 1 - m; j0 = N
      in set_col_slice V (j0 - t) (j0 + (t + 1)) t (aTM_cont P N V m t))"

primrec aTM_Amer_loop :: "tri_params \<Rightarrow> nat \<Rightarrow> matrix \<Rightarrow> nat \<Rightarrow> matrix \<Rightarrow> matrix" where
  "aTM_Amer_loop P N Pmat 0 Vmat = Vmat"
| "aTM_Amer_loop P N Pmat (Suc m) Vmat =
     (let V = aTM_Amer_loop P N Pmat m Vmat; t = N - 1 - m; j0 = N
      in set_col_slice V (j0 - t) (j0 + (t + 1)) t
           (map2 max (aTM_cont P N V m t) (col_slice Pmat (j0 - t) (j0 + (t + 1)) t)))"

primrec aTM_Amer_loop_ex ::
  "tri_params \<Rightarrow> nat \<Rightarrow> matrix \<Rightarrow> nat \<Rightarrow> matrix \<times> matrix \<Rightarrow> matrix \<times> matrix" where
  "aTM_Amer_loop_ex P N Pmat 0 VE = VE"
| "aTM_Amer_loop_ex P N Pmat (Suc m) VE =
     (let (V, E) = aTM_Amer_loop_ex P N Pmat m VE;
          t = N - 1 - m;
          j0 = N;
          V = set_col_slice V (j0 - t) (j0 + (t + 1)) t
                (map2 max (aTM_cont P N V m t) (col_slice Pmat (j0 - t) (j0 + (t + 1)) t));
          E = set_col_slice E (j0 - t) (j0 + (t + 1)) t
                (map (\<lambda>x. if x < 0 then 1 else 0)
                   (map2 (\<lambda>c q. c - q) (aTM_cont P N V m t)
                      (col_slice Pmat (j0 - t) (j0 + (t + 1)) t)))
      in (V, E))"

text \<open>\<open>aTM_Euro\<close> and \<open>aTM_Amer\<close>: the value returned, or the exception raised.\<close>

definition aTM_Euro ::
  "real \<Rightarrow> real \<Rightarrow> real \<Rightarrow> real \<Rightarrow> real \<Rightarrow> real \<Rightarrow> nat \<Rightarrow> string \<Rightarrow> error + matrix" where
  "aTM_Euro S0 K r sigma divy T N optype =
     (if N = 0 then Inl ZeroDivisionError
      else
        let dt = T / real N;
            P = aTM_params r sigma divy dt
        in if \<not> (0 < r \<and> 0 < sigma) then Inl ParametersNotAllowed
           else
             let Pmat = aTM_Pmat S0 K (tp_dx P) N
             in case optype_branch optype of
                  Inl e \<Rightarrow> Inl e
                | Inr f \<Rightarrow>
                    let Pmat = map (map f) Pmat;
                        Vmat = zeros (2 * N + 1) (N + 1);
                        Vmat = set_col_from Vmat 0 N (col_from Pmat 0 N)
                    in Inr (aTM_Euro_loop P N N Vmat))"

definition aTM_Amer ::
  "real \<Rightarrow> real \<Rightarrow> real \<Rightarrow> real \<Rightarrow> real \<Rightarrow> real \<Rightarrow> nat \<Rightarrow> string \<Rightarrow> bool
     \<Rightarrow> error + matrix \<times> matrix option" where
  "aTM_Amer S0 K r sigma divy T N optype exmat =
     (if N = 0 then Inl ZeroDivisionError
      else
        let dt = T / real N;
            P = aTM_params r sigma divy dt
        in if \<not> (0 < r \<and> 0 < sigma) then Inl ParametersNotAllowed
           else
             let Pmat = aTM_Pmat S0 K (tp_dx P) N
             in case optype_branch optype of
                  Inl e \<Rightarrow> Inl e
                | Inr f \<Rightarrow>
                    let Pmat = map (map f) Pmat;
                        Vmat = zeros (2 * N + 1) (N + 1);
                        Vmat = set_col_from Vmat 0 N (col_from Pmat 0 N)
                    in if exmat then
                         let Exmat = zeros (2 * N + 1) (N + 1);
                             (Vmat, Exmat) = aTM_Amer_loop_ex P N Pmat N (Vmat, Exmat)
                         in Inr (Vmat, Some Exmat)
                       else Inr (aTM_Amer_loop P N Pmat N Vmat, None))"

subsection \<open>Monte Carlo estimator\<close>

text \<open>
  The state of numpy's global generator is the sequence of standard normal variates it
  will hand out next; \<open>np.random.standard_normal(size=(nsim,nsteps))\<close> takes the
  first \<open>nsim * nsteps\<close> of them, row by row, and leaves the rest.
\<close>

type_synonym rng = "nat \<Rightarrow> real"

definition standard_normal :: "nat \<Rightarrow> nat \<Rightarrow> rng \<Rightarrow> matrix \<times> rng" where
  "standard_normal nsim nsteps g =
     (map (\<lambda>i. map (\<lambda>j. g (i * nsteps + j)) [0..<nsteps]) [0..<nsim],
      (\<lambda>k. g (k + nsim * nsteps)))"

text \<open>\<open>np.cumsum\<close> along a row.\<close>

fun cumsum_from :: "real \<Rightarrow> real list \<Rightarrow> real list" where
  "cumsum_from acc [] = []"
| "cumsum_from acc (x # xs) = (acc + x) # cumsum_from (acc + x) xs"

text \<open>
  \<open>S1_GBM\<close>, called by \<open>MC_Euro\<close> with \<open>nsteps = Nsteps > 0\<close>:
  \<^verbatim>\<open>
  dt = T/nsteps
  dw = np.sqrt(dt)*np.random.standard_normal(size=(nsim,nsteps))
  dz = (mu-0.5*sigma**2)*dt + sigma*dw
  Sn = np.exp(np.cumsum(dz, axis=1))
  Sn = S0*np.concatenate((np.ones(shape=(nsim,1)),Sn), axis=1)
  \<close>
\<close>

definition S1_GBM ::
  "real \<Rightarrow> real \<Rightarrow> real \<Rightarrow> real \<Rightarrow> nat \<Rightarrow> nat \<Rightarrow> rng \<Rightarrow> rng \<times> (error + matrix)" where
  "S1_GBM S0 mu sigma T nsteps nsim g =
     (if nsteps = 0 then (g, Inl ZeroDivisionError)
      else
        let dt = T / real nsteps;
            (Z, g') = standard_normal nsim nsteps g;
            dw = map (map (\<lambda>z. sqrt dt * z)) Z;
            dz = map (map (\<lambda>w. (mu - 0.5 * sigma ^ 2) * dt + sigma * w)) dw;
            Sn = map (\<lambda>row. map exp (cumsum_from 0 row)) dz;
            Sn = map (\<lambda>row. map (\<lambda>x. S0 * x) (1 # row)) Sn
        in (g', Inr Sn))"

text \<open>
  \<open>MC_Euro\<close> of the notebook with the check \<open>0<=div\<close> (the other copy of the
  notebook tests \<open>0<div\<close>). \<open>MC_Euro_run\<close> returns the state in which the call
  leaves the generator beside the result. (\<open>np.mean\<close> of no path at all,
  \<open>Nsim = 0\<close>, is NaN in numpy and 0 here.)
  \<^verbatim>\<open>
  mu = r-div
  dt = T/Nsteps
  nu = (r-div)-0.5*sigma**2
  dfact = r*dt + np.zeros(Nsteps)
  if ((0<r) and (0<sigma) and (0<=div)): pass
  else: raise Exception('parameter values not allowed')
  Smat = S1_GBM(S0=S0, mu=mu, sigma=sigma, T=T, nsteps=Nsteps, nsim=Nsim)
  Sarr = Smat[:,-1] # stock price at maturity
  Parr = Sarr-K # payoff
  if optype == 'call': ...
  V0arr = np.exp(-np.sum(dfact))*Parr
  return(np.mean(V0arr))
  \<close>
\<close>

definition MC_Euro_run ::
  "real \<Rightarrow> real \<Rightarrow> real \<Rightarrow> real \<Rightarrow> real \<Rightarrow> real \<Rightarrow> nat \<Rightarrow> nat \<Rightarrow> string \<Rightarrow> rng
     \<Rightarrow> rng \<times> (error + real)" where
  "MC_Euro_run S0 K r sigma divy T Nsteps Nsim optype g =
     (if Nsteps = 0 then (g, Inl ZeroDivisionError)
      else
        let mu = r - divy;
            dt = T / real Nsteps;
            dfact = replicate Nsteps (r * dt)
        in if \<not> (0 < r \<and> 0 < sigma \<and> 0 \<le> divy) then (g, Inl ParametersNotAllowed)
           else
             case S1_GBM S0 mu sigma T Nsteps Nsim g of
               (g', Inl e) \<Rightarrow> (g', Inl e)
             | (g', Inr Smat) \<Rightarrow>
                 let Sarr = map last Smat;
                     Parr = map (\<lambda>s. s - K) Sarr
                 in case optype_branch optype of
                      Inl e \<Rightarrow> (g', Inl e)
                    | Inr f \<Rightarrow>
                        let Parr = map f Parr;
                            V0arr = map (\<lambda>x. exp (- sum_list dfact) * x) Parr
                        in (g', Inr (sum_list V0arr / real (length V0arr))))"

definition MC_Euro ::
  "real \<Rightarrow> real \<Rightarrow> real \<Rightarrow> real \<Rightarrow> real \<Rightarrow> real \<Rightarrow> nat \<Rightarrow> nat \<Rightarrow> string \<Rightarrow> rng \<Rightarrow> error + real" where
  "MC_Euro S0 K r sigma divy T Nsteps Nsim optype g =
     snd (MC_Euro_run S0 K r sigma divy T Nsteps Nsim optype g)"

subsection \<open>Antithetic paths\<close>

text \<open>
  \<open>S1AV_GBM\<close>, called by \<open>MCAV_Euro\<close> with \<open>nsteps = Nsteps > 0\<close>; it takes as many
  variates as \<open>S1_GBM\<close> and returns twice as many paths:
  \<^verbatim>\<open>
  dt = T/nsteps
  dw = np.sqrt(dt)*np.random.standard_normal(size=(nsim,nsteps))
  dz = (mu-0.5*sigma**2)*dt + sigma*dw
  dz_ =  (mu-0.5*sigma**2)*dt - sigma*dw # negatively correlated asset
  Sn = np.exp(np.cumsum(dz, axis=1))
  Sn_ = np.exp(np.cumsum(dz_, axis=1))
  Sn=np.vstack((Sn, Sn_))
  Sn = S0*np.concatenate((np.ones(shape=(2*nsim,1)),Sn), axis=1)
  \<close>
\<close>

definition S1AV_GBM ::
  "real \<Rightarrow> real \<Rightarrow> real \<Rightarrow> real \<Rightarrow> nat \<Rightarrow> nat \<Rightarrow> rng \<Rightarrow> rng \<times> (error + matrix)" where
  "S1AV_GBM S0 mu sigma T nsteps nsim g =
     (if nsteps = 0 then (g, Inl ZeroDivisionError)
      else
        let dt = T / real nsteps;
            (Z, g') = standard_normal nsim nsteps g;
            dw = map (map (\<lambda>z. sqrt dt * z)) Z;
            dz = map (map (\<lambda>w. (mu - 0.5 * sigma ^ 2) * dt + sigma * w)) dw;
            dz' = map (map (\<lambda>w. (mu - 0.5 * sigma ^ 2) * dt - sigma * w)) dw;
            Sn = map (\<lambda>row. map exp (cumsum_from 0 row)) dz;
            Sn' = map (\<lambda>row. map exp (cumsum_from 0 row)) dz';
            Sn = Sn @ Sn';
            Sn = map (\<lambda>row. map (\<lambda>x. S0 * x) (1 # row)) Sn
        in (g', Inr Sn))"

subsection \<open>Additive binomial model\<close>

text \<open>
  The parameter choices \<open>CRR\<close>, \<open>JD\<close>, \<open>EQP\<close> and \<open>TRG\<close>, each returning the list
  \<open>[u, d, p]\<close>. \<open>aBM_Euro\<close> and \<open>aBM_Amer\<close> call them after \<open>dt = T/Ntree\<close>, hence with
  \<open>nsteps > 0\<close>: their own first line \<open>dt = T/nsteps\<close> does not raise there.
  \<^verbatim>\<open>
  def CRR(r, sigma, T, nsteps):        def JD(r, sigma, T, nsteps):
      dt = T/nsteps                        dt = T/nsteps
      sdt = np.sqrt(dt)                    sdt = np.sqrt(dt)
      nu = r-0.5*sigma**2                  nu = r-0.5*sigma**2
      u = np.exp(nu*dt + sigma*sdt)        u = np.exp(sigma*sdt)
      d = np.exp(nu*dt - sigma*sdt)        d = np.exp(-sigma*sdt)
      p = 1/2                              p = 0.5*(1 + nu*sdt/sigma)
      return ([u, d, p])                   return ([u, d, p])

  def EQP(r, sigma, T, nsteps):        def TRG(r, sigma, T, nsteps):
      dt = T/nsteps                        dt = T/nsteps
      sdt = np.sqrt(dt)                    sdt = np.sqrt(dt)
      nu = r-0.5*sigma**2                  nu = r-0.5*sigma**2
      u = np.exp(0.5*nu*dt + sigma*sdt)    dx = np.sqrt(sigma**2*dt + (nu*dt)**2)
      d = np.exp(1.5*nu*dt - sigma*sdt)    u = np.exp(dx)
      p = 1/2                              d = np.exp(-dx)
      return ([u, d, p])                   p = 0.5*(1 + nu*dt/dx)
                                           return ([u, d, p])
  \<close>
\<close>

definition CRR :: "real \<Rightarrow> real \<Rightarrow> real \<Rightarrow> nat \<Rightarrow> real list" where
  "CRR r sigma T nsteps =
     (let dt = T / real nsteps;
          sdt = sqrt dt;
          nu = r - 0.5 * sigma ^ 2;
          u = exp (nu * dt + sigma * sdt);
          d = exp (nu * dt - sigma * sdt);
          p = 1 / 2
      in [u, d, p])"

definition JD :: "real \<Rightarrow> real \<Rightarrow> real \<Rightarrow> nat \<Rightarrow> real list" where
  "JD r sigma T nsteps =
     (let dt = T / real nsteps;
          sdt = sqrt dt;
          nu = r - 0.5 * sigma ^ 2;
          u = exp (sigma * sdt);
          d = exp (- sigma * sdt);
          p = 0.5 * (1 + nu * sdt / sigma)
      in [u, d, p])"

definition EQP :: "real \<Rightarrow> real \<Rightarrow> real \<Rightarrow> nat \<Rightarrow> real list" where
  "EQP r sigma T nsteps =
     (let dt = T / real nsteps;
          sdt = sqrt dt;
          nu = r - 0.5 * sigma ^ 2;
          u = exp (0.5 * nu * dt + sigma * sdt);
          d = exp (1.5 * nu * dt - sigma * sdt);
          p = 1 / 2
      in [u, d, p])"

definition TRG :: "real \<Rightarrow> real \<Rightarrow> real \<Rightarrow> nat \<Rightarrow> real list" where
  "TRG r sigma T nsteps =
     (let dt = T / real nsteps;
          sdt = sqrt dt;
          nu = r - 0.5 * sigma ^ 2;
          dx = sqrt (sigma ^ 2 * dt + (nu * dt) ^ 2);
          u = exp dx;
          d = exp (- dx);
          p = 0.5 * (1 + nu * dt / dx)
      in [u, d, p])"

text \<open>
  The argument \<open>mode\<close> of \<open>aBM_Euro\<close> and \<open>aBM_Amer\<close>: one of the four functions, or
  any other object. \<open>call_mode\<close> is \<open>mode(r=r, sigma=sigma, T=T, nsteps=Ntree)\<close>, which the
  pricers evaluate only after \<open>mode not in [CRR, JD, EQP, TRG]\<close> has been excluded.
\<close>

datatype mode = Mode_CRR | Mode_JD | Mode_EQP | Mode_TRG | Mode_other

fun call_mode :: "mode \<Rightarrow> real \<Rightarrow> real \<Rightarrow> real \<Rightarrow> nat \<Rightarrow> real list" where
  "call_mode Mode_CRR r sigma T nsteps = CRR r sigma T nsteps"
| "call_mode Mode_JD r sigma T nsteps = JD r sigma T nsteps"
| "call_mode Mode_EQP r sigma T nsteps = EQP r sigma T nsteps"
| "call_mode Mode_TRG r sigma T nsteps = TRG r sigma T nsteps"
| "call_mode Mode_other r sigma T nsteps = []"

text \<open>
  The asset prices of time step \<open>t\<close> and the payoff matrix before the option type is
  looked at, as in the multiplicative model but for
  \<^verbatim>\<open>
  Pmat[Ntree-t:,t] = S0*np.exp((lnu*exponents[::-1])+(lnd*exponents))
  \<close>
\<close>

definition aBM_prices :: "real \<Rightarrow> real \<Rightarrow> real \<Rightarrow> nat \<Rightarrow> real list" where
  "aBM_prices S0 lnu lnd t =
     (let exponents = [0..<t + 1]
      in map2 (\<lambda>a b. S0 * exp (lnu * real a + lnd * real b)) (rev exponents) exponents)"

primrec aBM_price_loop :: "real \<Rightarrow> real \<Rightarrow> real \<Rightarrow> nat \<Rightarrow> nat \<Rightarrow> matrix \<Rightarrow> matrix" where
  "aBM_price_loop S0 lnu lnd N 0 Pmat = Pmat"
| "aBM_price_loop S0 lnu lnd N (Suc t) Pmat =
     set_col_from (aBM_price_loop S0 lnu lnd N t Pmat) (N - t) t (aBM_prices S0 lnu lnd t)"

definition aBM_Pmat :: "real \<Rightarrow> real \<Rightarrow> real \<Rightarrow> real \<Rightarrow> nat \<Rightarrow> matrix" where
  "aBM_Pmat S0 K lnu lnd N =
     (let Pmat = zeros (N + 1) (N + 1);
          Pmat = set_entry Pmat N 0 S0;
          Pmat = aBM_price_loop S0 lnu lnd N (N + 1) Pmat;
          Kmat = scale K (fliplr (tri (N + 1)))
      in msub Pmat Kmat)"

subsection \<open>The pricers statement by statement\<close>

text \<open>
  To tell what a call has done by the time it raises, each pricer is given a second
  time, as the list of its statements. A state holds the local variables assigned so
  far, the state of numpy's generator and the arrays handed to \<open>plt.matshow\<close>; the
  arguments of the call are not among the local variables. A statement takes a state to
  the next one, or to the exception it raises together with the state in which it is
  raised.
\<close>

datatype pyval = Num real | Vec "real list" | Arr matrix

record state =
  locals :: "string \<rightharpoonup> pyval"
  gen :: rng
  shown :: "matrix list"

type_synonym stmt = "state \<Rightarrow> (error \<times> state) + state"

definition init :: "rng \<Rightarrow> state" where
  "init g = \<lparr>locals = Map.empty, gen = g, shown = []\<rparr>"

text \<open>Statements run in order, and the first exception ends the run.\<close>

fun exec :: "stmt list \<Rightarrow> state \<Rightarrow> (error \<times> state) + state" where
  "exec [] s = Inr s"
| "exec (c # cs) s = (case c s of Inl x \<Rightarrow> Inl x | Inr s' \<Rightarrow> exec cs s')"

text \<open>
  Reading a local variable. (The pricers assign every variable before they read it:
  the default is never returned.)
\<close>

definition num :: "state \<Rightarrow> string \<Rightarrow> real" where
  "num s x = (case locals s x of Some (Num v) \<Rightarrow> v | _ \<Rightarrow> 0)"

definition vec :: "state \<Rightarrow> string \<Rightarrow> real list" where
  "vec s x = (case locals s x of Some (Vec v) \<Rightarrow> v | _ \<Rightarrow> [])"

definition arr :: "state \<Rightarrow> string \<Rightarrow> matrix" where
  "arr s x = (case locals s x of Some (Arr M) \<Rightarrow> M | _ \<Rightarrow> [])"

text \<open>
  \<open>x = e\<close>; \<open>if c: pass\<close> \<open>else: raise e\<close>; \<open>x = a/n\<close> for a float \<open>a\<close> and an
  \<open>int\<close> \<open>n\<close>; \<open>if c:\<close> without \<open>else\<close>; \<open>plt.matshow(x, ...)\<close>.
\<close>

definition assign :: "string \<Rightarrow> (state \<Rightarrow> pyval) \<Rightarrow> stmt" where
  "assign x e s = Inr (s\<lparr>locals := (locals s)(x \<mapsto> e s)\<rparr>)"

definition raise_unless :: "(state \<Rightarrow> bool) \<Rightarrow> error \<Rightarrow> stmt" where
  "raise_unless c e s = (if c s then Inr s else Inl (e, s))"

definition true_div :: "string \<Rightarrow> real \<Rightarrow> nat \<Rightarrow> stmt" where
  "true_div x a n s =
     (if n = 0 then Inl (ZeroDivisionError, s) else assign x (\<lambda>_. Num (a / real n)) s)"

definition if_stmt :: "bool \<Rightarrow> stmt list \<Rightarrow> stmt" where
  "if_stmt c cs s = (if c then exec cs s else Inr s)"

definition matshow :: "string \<Rightarrow> stmt" where
  "matshow x s = Inr (s\<lparr>shown := shown s @ [arr s x]\<rparr>)"

text \<open>
  The option type branch, acting on the two-dimensional array \<open>x\<close> in the tree pricers
  and on the one-dimensional array \<open>x\<close> in the Monte Carlo estimators.
\<close>

definition optype_arr :: "string \<Rightarrow> string \<Rightarrow> stmt" where
  "optype_arr optype x s =
     (case optype_branch optype of
        Inl e \<Rightarrow> Inl (e, s)
      | Inr f \<Rightarrow> assign x (\<lambda>s. Arr (map (map f) (arr s x))) s)"

definition optype_vec :: "string \<Rightarrow> string \<Rightarrow> stmt" where
  "optype_vec optype x s =
     (case optype_branch optype of
        Inl e \<Rightarrow> Inl (e, s)
      | Inr f \<Rightarrow> assign x (\<lambda>s. Vec (map f (vec s x))) s)"

text \<open>
  A \<open>for\<close> loop is one statement: it leaves the array that the loop function of the
  sections above computes, and the loop variables as the last round binds them. The
  backward loops run \<open>Ntree\<close> rounds, none for \<open>Ntree = 0\<close>.
\<close>

definition BM_price_for :: "real \<Rightarrow> real \<Rightarrow> real \<Rightarrow> nat \<Rightarrow> stmt" where
  "BM_price_for S0 u d N s =
     Inr (s\<lparr>locals := (locals s)
            (''Pmat'' \<mapsto> Arr (BM_price_loop S0 u d N (N + 1) (arr s ''Pmat'')),
             ''t'' \<mapsto> Num (real N),
             ''exponents'' \<mapsto> Vec (map real [0..<N + 1]))\<rparr>)"

definition backward_for :: "nat \<Rightarrow> (state \<Rightarrow> matrix) \<Rightarrow> stmt" where
  "backward_for N loop s =
     (if N = 0 then Inr s
      else Inr (s\<lparr>locals := (locals s)
                  (''Vmat'' \<mapsto> Arr (loop s), ''m'' \<mapsto> Num (real (N - 1)), ''t'' \<mapsto> Num 0)\<rparr>))"

definition backward_for_ex :: "nat \<Rightarrow> (state \<Rightarrow> matrix \<times> matrix) \<Rightarrow> stmt" where
  "backward_for_ex N loop s =
     (if N = 0 then Inr s
      else Inr (s\<lparr>locals := (locals s)
                  (''Vmat'' \<mapsto> Arr (fst (loop s)), ''Exmat'' \<mapsto> Arr (snd (loop s)),
                   ''m'' \<mapsto> Num (real (N - 1)), ''t'' \<mapsto> Num 0)\<rparr>))"

text \<open>
  \<open>BM_Euro\<close> and \<open>BM_Amer\<close> have the same text down to \<open>Vmat[:,-1] = Pmat[:,-1]\<close>.
\<close>

definition BM_head :: "real \<Rightarrow> real \<Rightarrow> real \<Rightarrow> real \<Rightarrow> real \<Rightarrow> real \<Rightarrow> nat \<Rightarrow> string \<Rightarrow> stmt list" where
  "BM_head S0 K r u d T N optype =
     [true_div ''dt'' T N,
      assign ''dfact'' (\<lambda>s. Num (exp (- r * num s ''dt''))),
      assign ''p'' (\<lambda>s. Num ((exp (r * num s ''dt'') - d) / (u - d))),
      raise_unless (\<lambda>s. 0 < d \<and> d < 1 / num s ''dfact'' \<and> 1 / num s ''dfact'' < u)
        ParametersNotAllowed,
      assign ''exponents'' (\<lambda>s. Vec (map real [0..<N + 1])),
      assign ''SN'' (\<lambda>s. Vec (BM_prices S0 u d N)),
      assign ''Pmat'' (\<lambda>s. Arr (zeros (N + 1) (N + 1))),
      assign ''Pmat'' (\<lambda>s. Arr (set_entry (arr s ''Pmat'') N 0 S0)),
      BM_price_for S0 u d N,
      assign ''Kmat'' (\<lambda>s. Arr (scale K (fliplr (tri (N + 1))))),
      assign ''Pmat'' (\<lambda>s. Arr (msub (arr s ''Pmat'') (arr s ''Kmat''))),
      optype_arr optype ''Pmat'',
      assign ''Vmat'' (\<lambda>s. Arr (zeros (N + 1) (N + 1))),
      assign ''Vmat'' (\<lambda>s. Arr (set_col_from (arr s ''Vmat'') 0 N (col_from (arr s ''Pmat'') 0 N)))]"

definition BM_Euro_body ::
  "real \<Rightarrow> real \<Rightarrow> real \<Rightarrow> real \<Rightarrow> real \<Rightarrow> real \<Rightarrow> nat \<Rightarrow> string \<Rightarrow> stmt list" where
  "BM_Euro_body S0 K r u d T N optype =
     BM_head S0 K r u d T N optype @
     [backward_for N (\<lambda>s. BM_Euro_loop (num s ''dfact'') (num s ''p'') N N (arr s ''Vmat''))]"

definition BM_Amer_body ::
  "real \<Rightarrow> real \<Rightarrow> real \<Rightarrow> real \<Rightarrow> real \<Rightarrow> real \<Rightarrow> nat \<Rightarrow> string \<Rightarrow> bool \<Rightarrow> stmt list" where
  "BM_Amer_body S0 K r u d T N optype exmat =
     BM_head S0 K r u d T N optype @
     [if_stmt exmat
        [assign ''Exmat'' (\<lambda>s. Arr (zeros (N + 1) (N + 1))),
         backward_for_ex N (\<lambda>s. BM_Amer_loop_ex (num s ''dfact'') (num s ''p'') N (arr s ''Pmat'') N
                                   (arr s ''Vmat'', arr s ''Exmat'')),
         matshow ''Exmat''],
      if_stmt (\<not> exmat)
        [backward_for N (\<lambda>s. BM_Amer_loop (num s ''dfact'') (num s ''p'') N (arr s ''Pmat'') N
                                (arr s ''Vmat''))]]"

text \<open>
  \<open>aBM_Euro\<close> and \<open>aBM_Amer\<close>, which have the same text down to
  \<open>Vmat[:,-1] = Pmat[:,-1]\<close> and the backward loops of \<open>BM_Euro\<close> and \<open>BM_Amer\<close>:
  \<^verbatim>\<open>
  if mode not in [CRR, JD, EQP, TRG]:
      raise Exception('mode not defined')
  else:
      pass
  dt = T/Ntree
  dfact = np.exp(-r*dt) # discount factor
  params = mode(r=r, sigma=sigma, T=T, nsteps=Ntree)
  u = params[0]
  d = params[1]
  p = params[2] # risk neutral probability of up move
  lnu = np.log(u) # log change up
  lnd = np.log(d) # log change down
  if ((0<r) and (0<sigma)):
      pass
  else:
      raise Exception('parameter values not allowed')
  Pmat = np.zeros(shape=(Ntree+1,Ntree+1))
  Pmat[Ntree, 0] = S0
  for t in range (Ntree+1): # asset price
      exponents = np.arange(t+1)
      Pmat[Ntree-t:,t] = S0*np.exp((lnu*exponents[::-1])+(lnd*exponents))
  Kmat = K*np.fliplr(np.tri(Ntree+1)) # strike
  Pmat = Pmat-Kmat
  if optype == 'call': ...
  Vmat = np.zeros(shape=(Ntree+1,Ntree+1))
  Vmat[:,-1] = Pmat[:,-1]
  \<close>
\<close>

definition aBM_price_for :: "real \<Rightarrow> nat \<Rightarrow> stmt" where
  "aBM_price_for S0 N s =
     Inr (s\<lparr>locals := (locals s)
            (''Pmat'' \<mapsto> Arr (aBM_price_loop S0 (num s ''lnu'') (num s ''lnd'') N (N + 1)
                                 (arr s ''Pmat'')),
             ''t'' \<mapsto> Num (real N),
             ''exponents'' \<mapsto> Vec (map real [0..<N + 1]))\<rparr>)"

definition aBM_head ::
  "real \<Rightarrow> real \<Rightarrow> real \<Rightarrow> real \<Rightarrow> real \<Rightarrow> nat \<Rightarrow> string \<Rightarrow> mode \<Rightarrow> stmt list" where
  "aBM_head S0 K r sigma T N optype mode =
     [raise_unless (\<lambda>s. mode \<in> {Mode_CRR, Mode_JD, Mode_EQP, Mode_TRG}) ModeNotDefined,
      true_div ''dt'' T N,
      assign ''dfact'' (\<lambda>s. Num (exp (- r * num s ''dt''))),
      assign ''params'' (\<lambda>s. Vec (call_mode mode r sigma T N)),
      assign ''u'' (\<lambda>s. Num (vec s ''params'' ! 0)),
      assign ''d'' (\<lambda>s. Num (vec s ''params'' ! 1)),
      assign ''p'' (\<lambda>s. Num (vec s ''params'' ! 2)),
      assign ''lnu'' (\<lambda>s. Num (ln (num s ''u''))),
      assign ''lnd'' (\<lambda>s. Num (ln (num s ''d''))),
      raise_unless (\<lambda>s. 0 < r \<and> 0 < sigma) ParametersNotAllowed,
      assign ''Pmat'' (\<lambda>s. Arr (zeros (N + 1) (N + 1))),
      assign ''Pmat'' (\<lambda>s. Arr (set_entry (arr s ''Pmat'') N 0 S0)),
      aBM_price_for S0 N,
      assign ''Kmat'' (\<lambda>s. Arr (scale K (fliplr (tri (N + 1))))),
      assign ''Pmat'' (\<lambda>s. Arr (msub (arr s ''Pmat'') (arr s ''Kmat''))),
      optype_arr optype ''Pmat'',
      assign ''Vmat'' (\<lambda>s. Arr (zeros (N + 1) (N + 1))),
      assign ''Vmat'' (\<lambda>s. Arr (set_col_from (arr s ''Vmat'') 0 N (col_from (arr s ''Pmat'') 0 N)))]"

definition aBM_Euro_body ::
  "real \<Rightarrow> real \<Rightarrow> real \<Rightarrow> real \<Rightarrow> real \<Rightarrow> nat \<Rightarrow> string \<Rightarrow> mode \<Rightarrow> stmt list" where
  "aBM_Euro_body S0 K r sigma T N optype mode =
     aBM_head S0 K r sigma T N optype mode @
     [backward_for N (\<lambda>s. BM_Euro_loop (num s ''dfact'') (num s ''p'') N N (arr s ''Vmat''))]"

definition aBM_Amer_body ::
  "real \<Rightarrow> real \<Rightarrow> real \<Rightarrow> real \<Rightarrow> real \<Rightarrow> nat \<Rightarrow> string \<Rightarrow> mode \<Rightarrow> bool \<Rightarrow> stmt list" where
  "aBM_Amer_body S0 K r sigma T N optype mode exmat =
     aBM_head S0 K r sigma T N optype mode @
     [if_stmt exmat
        [assign ''Exmat'' (\<lambda>s. Arr (zeros (N + 1) (N + 1))),
         backward_for_ex N (\<lambda>s. BM_Amer_loop_ex (num s ''dfact'') (num s ''p'') N (arr s ''Pmat'') N
                                   (arr s ''Vmat'', arr s ''Exmat'')),
         matshow ''Exmat''],
      if_stmt (\<not> exmat)
        [backward_for N (\<lambda>s. BM_Amer_loop (num s ''dfact'') (num s ''p'') N (arr s ''Pmat'') N
                                (arr s ''Vmat''))]]"

text \<open>
  \<open>aTM_Euro\<close> and \<open>aTM_Amer\<close>, which have the same text down to
  \<open>Vmat[:,-1] = Pmat[:,-1]\<close>. The loop that fills \<open>Pmat\<close> and \<open>Kmat\<close> follows
  \<open>j0 = Ntree\<close>, and the backward loops read the parameters from the local variables.
\<close>

definition aTM_price_for :: "real \<Rightarrow> real \<Rightarrow> nat \<Rightarrow> stmt" where
  "aTM_price_for S0 K N s =
     (let PK = aTM_price_loop S0 K (num s ''dx'') N (N + 1) (arr s ''Pmat'', arr s ''Kmat'')
      in Inr (s\<lparr>locals := (locals s)
                (''Pmat'' \<mapsto> Arr (fst PK), ''Kmat'' \<mapsto> Arr (snd PK),
                 ''t'' \<mapsto> Num (real N),
                 ''exponents'' \<mapsto> Vec (map real_of_int [- int N..int N]))\<rparr>))"

definition local_params :: "state \<Rightarrow> tri_params" where
  "local_params s =
     \<lparr>tp_dx = num s ''dx'', tp_dfact = num s ''dfact'',
      tp_pu = num s ''pu'', tp_pm = num s ''pm'', tp_pd = num s ''pd''\<rparr>"

definition aTM_head ::
  "real \<Rightarrow> real \<Rightarrow> real \<Rightarrow> real \<Rightarrow> real \<Rightarrow> real \<Rightarrow> nat \<Rightarrow> string \<Rightarrow> stmt list" where
  "aTM_head S0 K r sigma divy T N optype =
     [true_div ''dt'' T N,
      assign ''sdt'' (\<lambda>s. Num (sqrt (num s ''dt''))),
      assign ''dx'' (\<lambda>s. Num (sqrt 3 * sigma * num s ''sdt'')),
      assign ''dfact'' (\<lambda>s. Num (exp (- r * num s ''dt''))),
      assign ''nu'' (\<lambda>s. Num ((r - divy) - 0.5 * sigma ^ 2)),
      assign ''sf'' (\<lambda>s. Num ((sigma ^ 2 * num s ''dt'' + (num s ''nu'' * num s ''dt'') ^ 2)
                               / num s ''dx'' ^ 2)),
      assign ''af'' (\<lambda>s. Num (num s ''nu'' * num s ''dt'' / num s ''dx'')),
      assign ''pu'' (\<lambda>s. Num (0.5 * (num s ''sf'' + num s ''af''))),
      assign ''pm'' (\<lambda>s. Num (1 - num s ''sf'')),
      assign ''pd'' (\<lambda>s. Num (0.5 * (num s ''sf'' - num s ''af''))),
      raise_unless (\<lambda>s. 0 < r \<and> 0 < sigma) ParametersNotAllowed,
      assign ''j0'' (\<lambda>s. Num (real N)),
      assign ''Pmat'' (\<lambda>s. Arr (zeros (2 * N + 1) (N + 1))),
      assign ''Kmat'' (\<lambda>s. Arr (zeros (2 * N + 1) (N + 1))),
      aTM_price_for S0 K N,
      assign ''Pmat'' (\<lambda>s. Arr (msub (arr s ''Pmat'') (arr s ''Kmat''))),
      optype_arr optype ''Pmat'',
      assign ''Vmat'' (\<lambda>s. Arr (zeros (2 * N + 1) (N + 1))),
      assign ''Vmat'' (\<lambda>s. Arr (set_col_from (arr s ''Vmat'') 0 N (col_from (arr s ''Pmat'') 0 N)))]"

definition aTM_Euro_body ::
  "real \<Rightarrow> real \<Rightarrow> real \<Rightarrow> real \<Rightarrow> real \<Rightarrow> real \<Rightarrow> nat \<Rightarrow> string \<Rightarrow> stmt list" where
  "aTM_Euro_body S0 K r sigma divy T N optype =
     aTM_head S0 K r sigma divy T N optype @
     [backward_for N (\<lambda>s. aTM_Euro_loop (local_params s) N N (arr s ''Vmat''))]"

definition aTM_Amer_body ::
  "real \<Rightarrow> real \<Rightarrow> real \<Rightarrow> real \<Rightarrow> real \<Rightarrow> real \<Rightarrow> nat \<Rightarrow> string \<Rightarrow> bool \<Rightarrow> stmt list" where
  "aTM_Amer_body S0 K r sigma divy T N optype exmat =
     aTM_head S0 K r sigma divy T N optype @
     [if_stmt exmat
        [assign ''Exmat'' (\<lambda>s. Arr (zeros (2 * N + 1) (N + 1))),
         backward_for_ex N (\<lambda>s. aTM_Amer_loop_ex (local_params s) N (arr s ''Pmat'') N
                                   (arr s ''Vmat'', arr s ''Exmat'')),
         matshow ''Exmat''],
      if_stmt (\<not> exmat)
        [backward_for N (\<lambda>s. aTM_Amer_loop (local_params s) N (arr s ''Pmat'') N (arr s ''Vmat''))]]"

text \<open>
  \<open>Smat = S1_GBM(...)\<close> and \<open>Smat = S1AV_GBM(...)\<close>: the call takes its variates from the
  generator and leaves the paths in \<open>x\<close>.
\<close>

definition call_paths :: "string \<Rightarrow> (state \<Rightarrow> rng \<Rightarrow> rng \<times> (error + matrix)) \<Rightarrow> stmt" where
  "call_paths x f s =
     (case f s (gen s) of
        (g', Inl e) \<Rightarrow> Inl (e, s\<lparr>gen := g'\<rparr>)
      | (g', Inr M) \<Rightarrow> Inr (s\<lparr>locals := (locals s)(x \<mapsto> Arr M), gen := g'\<rparr>))"

text \<open>
  \<open>MC_Euro\<close> and \<open>MCAV_Euro\<close>, the same text but for the function that simulates the
  paths. (Both are given with the check \<open>0<=div\<close>; the notebooks hold a second copy of
  each, with \<open>0<div\<close>.) They return \<open>np.mean(V0arr)\<close>.
\<close>

definition MC_Euro_body ::
  "real \<Rightarrow> real \<Rightarrow> real \<Rightarrow> real \<Rightarrow> real \<Rightarrow> real \<Rightarrow> nat \<Rightarrow> nat \<Rightarrow> string \<Rightarrow> stmt list" where
  "MC_Euro_body S0 K r sigma divy T Nsteps Nsim optype =
     [assign ''mu'' (\<lambda>s. Num (r - divy)),
      true_div ''dt'' T Nsteps,
      assign ''nu'' (\<lambda>s. Num ((r - divy) - 0.5 * sigma ^ 2)),
      assign ''dfact'' (\<lambda>s. Vec (replicate Nsteps (r * num s ''dt''))),
      raise_unless (\<lambda>s. 0 < r \<and> 0 < sigma \<and> 0 \<le> divy) ParametersNotAllowed,
      call_paths ''Smat'' (\<lambda>s. S1_GBM S0 (num s ''mu'') sigma T Nsteps Nsim),
      assign ''Sarr'' (\<lambda>s. Vec (map last (arr s ''Smat''))),
      assign ''Parr'' (\<lambda>s. Vec (map (\<lambda>x. x - K) (vec s ''Sarr''))),
      optype_vec optype ''Parr'',
      assign ''V0arr'' (\<lambda>s. Vec (map (\<lambda>x. exp (- sum_list (vec s ''dfact'')) * x) (vec s ''Parr'')))]"

definition MCAV_Euro_body ::
  "real \<Rightarrow> real \<Rightarrow> real \<Rightarrow> real \<Rightarrow> real \<Rightarrow> real \<Rightarrow> nat \<Rightarrow> nat \<Rightarrow> string \<Rightarrow> stmt list" where
  "MCAV_Euro_body S0 K r sigma divy T Nsteps Nsim optype =
     [assign ''mu'' (\<lambda>s. Num (r - divy)),
      true_div ''dt'' T Nsteps,
      assign ''nu'' (\<lambda>s. Num ((r - divy) - 0.5 * sigma ^ 2)),
      assign ''dfact'' (\<lambda>s. Vec (replicate Nsteps (r * num s ''dt''))),
      raise_unless (\<lambda>s. 0 < r \<and> 0 < sigma \<and> 0 \<le> divy) ParametersNotAllowed,
      call_paths ''Smat'' (\<lambda>s. S1AV_GBM S0 (num s ''mu'') sigma T Nsteps Nsim),
      assign ''Sarr'' (\<lambda>s. Vec (map last (arr s ''Smat''))),
      assign ''Parr'' (\<lambda>s. Vec (map (\<lambda>x. x - K) (vec s ''Sarr''))),
      optype_vec optype ''Parr'',
      assign ''V0arr'' (\<lambda>s. Vec (map (\<lambda>x. exp (- sum_list (vec s ''dfact'')) * x) (vec s ''Parr'')))]"

definition mean :: "real list \<Rightarrow> real" where
  "mean xs = sum_list xs / real (length xs)"

subsection \<open>Binary64 arithmetic of the trinomial parameters\<close>

text \<open>
  The definitions above read a float as the real number it stands for. The parameter
  block of \<open>aTM_Euro\<close> and \<open>aTM_Amer\<close> is given here a second time, as the machine
  computes it: in IEEE 754 binary64, every operation rounded to nearest, ties to even.

  \<open>round_half_even\<close> rounds a real number to the nearest integer, a tie to the even
  one.
\<close>

definition round_half_even :: "real \<Rightarrow> int" where
  "round_half_even y =
     (let f = \<lfloor>y\<rfloor>
      in if y - of_int f < 1/2 then f
         else if 1/2 < y - of_int f then f + 1
         else if even f then f else f + 1)"

text \<open>
  The binary64 numbers around \<open>x\<close> are the multiples of \<open>2 ^ fexp x\<close>: 53 significant
  bits, and no unit below \<open>2^-1074\<close>, the smallest subnormal number.
\<close>

definition fexp :: "real \<Rightarrow> int" where
  "fexp x = max (\<lfloor>log 2 \<bar>x\<bar>\<rfloor> - 52) (- 1074)"

text \<open>The binary64 number nearest to \<open>x\<close>, the exponent range unbounded above.\<close>

definition fl :: "real \<Rightarrow> real" where
  "fl x = (if x = 0 then 0
           else of_int (round_half_even (x / 2 powr of_int (fexp x))) * 2 powr of_int (fexp x))"

text \<open>
  A binary64 value: a finite number, an infinity or NaN. A zero carries no sign here:
  the sign of a zero shows only in the sign of the infinity that a division by it
  returns.
\<close>

datatype f64 = Fin real | PInf | NInf | NaN

text \<open>
  The value returned for the exact result \<open>x\<close>: the nearest binary64 number, or the
  infinity of the sign of \<open>x\<close> when that number is \<open>2^1024\<close> or more in magnitude.
\<close>

definition rnd :: "real \<Rightarrow> f64" where
  "rnd x = (if \<bar>fl x\<bar> < 2 ^ 1024 then Fin (fl x) else if 0 < x then PInf else NInf)"

text \<open>
  \<open>-\<close>, \<open>+\<close>, \<open>*\<close>, \<open>/\<close> and \<open>np.sqrt\<close> on floats. None of them raises: the divisors of
  \<open>sf\<close> and \<open>af\<close> are numpy floats, for which a division by zero and the square root of
  a negative number return an infinity or NaN (with a warning).
\<close>

fun fneg :: "f64 \<Rightarrow> f64" where
  "fneg (Fin x) = Fin (- x)"
| "fneg PInf = NInf"
| "fneg NInf = PInf"
| "fneg NaN = NaN"

fun fadd :: "f64 \<Rightarrow> f64 \<Rightarrow> f64" where
  "fadd (Fin x) (Fin y) = rnd (x + y)"
| "fadd NaN _ = NaN"
| "fadd _ NaN = NaN"
| "fadd PInf NInf = NaN"
| "fadd NInf PInf = NaN"
| "fadd PInf _ = PInf"
| "fadd _ PInf = PInf"
| "fadd NInf _ = NInf"
| "fadd _ NInf = NInf"

definition fsub :: "f64 \<Rightarrow> f64 \<Rightarrow> f64" where
  "fsub a b = fadd a (fneg b)"

fun fmul :: "f64 \<Rightarrow> f64 \<Rightarrow> f64" where
  "fmul (Fin x) (Fin y) = rnd (x * y)"
| "fmul NaN _ = NaN"
| "fmul _ NaN = NaN"
| "fmul (Fin x) PInf = (if x = 0 then NaN else if 0 < x then PInf else NInf)"
| "fmul (Fin x) NInf = (if x = 0 then NaN else if 0 < x then NInf else PInf)"
| "fmul PInf (Fin y) = (if y = 0 then NaN else if 0 < y then PInf else NInf)"
| "fmul NInf (Fin y) = (if y = 0 then NaN else if 0 < y then NInf else PInf)"
| "fmul PInf PInf = PInf"
| "fmul PInf NInf = NInf"
| "fmul NInf PInf = NInf"
| "fmul NInf NInf = PInf"

fun fdiv :: "f64 \<Rightarrow> f64 \<Rightarrow> f64" where
  "fdiv (Fin x) (Fin y) =
     (if y = 0 then (if x = 0 then NaN else if 0 < x then PInf else NInf) else rnd (x / y))"
| "fdiv NaN _ = NaN"
| "fdiv _ NaN = NaN"
| "fdiv (Fin x) _ = Fin 0"
| "fdiv PInf (Fin y) = (if 0 \<le> y then PInf else NInf)"
| "fdiv NInf (Fin y) = (if 0 \<le> y then NInf else PInf)"
| "fdiv _ _ = NaN"

fun fsqrt :: "f64 \<Rightarrow> f64" where
  "fsqrt (Fin x) = (if x < 0 then NaN else rnd (sqrt x))"
| "fsqrt PInf = PInf"
| "fsqrt NInf = NaN"
| "fsqrt NaN = NaN"

text \<open>
  \<open>x ** 2\<close> is the \<open>pow(x, 2.0)\<close> of the C library, which need not return the correctly
  rounded square; \<open>pw x\<close> stands for what it returns for a finite \<open>x\<close>, the exponent range
  unbounded above. On a Python float (\<open>sigma**2\<close>, \<open>(nu*dt)**2\<close>) a result out of range
  raises \<open>OverflowError\<close>; on a numpy float (\<open>dx**2\<close>) it is \<open>inf\<close>. \<open>square_rounded\<close> is
  the correctly rounded square.
\<close>

definition square_rounded :: "real \<Rightarrow> real" where
  "square_rounded x = fl (x * x)"

fun np_square :: "(real \<Rightarrow> real) \<Rightarrow> f64 \<Rightarrow> f64" where
  "np_square pw (Fin x) = (if \<bar>pw x\<bar> < 2 ^ 1024 then Fin (pw x) else PInf)"
| "np_square pw NaN = NaN"
| "np_square pw _ = PInf"

fun py_square :: "(real \<Rightarrow> real) \<Rightarrow> f64 \<Rightarrow> error + f64" where
  "py_square pw (Fin x) = (if \<bar>pw x\<bar> < 2 ^ 1024 then Inr (Fin (pw x)) else Inl OverflowError)"
| "py_square pw NaN = Inr NaN"
| "py_square pw _ = Inr PInf"

text \<open>
  The lines of \<open>aTM_Euro\<close> and \<open>aTM_Amer\<close> from \<open>dt = T/Ntree\<close> to \<open>pd\<close>, without \<open>dfact\<close>
  (\<open>np.exp\<close> raises nothing, and the probabilities do not depend on \<open>dfact\<close>). The
  arguments are Python floats and \<open>Ntree\<close> an \<open>int\<close>, as annotated: \<open>T/Ntree\<close> converts
  \<open>Ntree\<close> to a float, which raises \<open>OverflowError\<close> for an \<open>int\<close> out of range, and
  \<open>sigma**2\<close>, \<open>nu*dt\<close> are Python floats. \<open>np.sqrt\<close> returns numpy floats, and so do
  the operations on them. The source evaluates \<open>sigma**2\<close> twice, with the same result.
\<close>

record f64_params =
  fp_dx :: f64
  fp_sf :: f64
  fp_af :: f64
  fp_pu :: f64
  fp_pm :: f64
  fp_pd :: f64

definition aTM_params_f64 ::
  "(real \<Rightarrow> real) \<Rightarrow> real \<Rightarrow> real \<Rightarrow> real \<Rightarrow> real \<Rightarrow> nat \<Rightarrow> error + f64_params" where
  "aTM_params_f64 pw r sigma divy T N =
     (if N = 0 then Inl ZeroDivisionError
      else if 2 ^ 1024 \<le> fl (real N) then Inl OverflowError
      else
        let dt = fdiv (Fin T) (Fin (fl (real N)));
            sdt = fsqrt dt;
            dx = fmul (fmul (fsqrt (Fin 3)) (Fin sigma)) sdt
        in case py_square pw (Fin sigma) of Inl e \<Rightarrow> Inl e
           | Inr s2 \<Rightarrow>
             let nu = fsub (fsub (Fin r) (Fin divy)) (fmul (Fin (1/2)) s2)
             in case py_square pw (fmul nu dt) of Inl e \<Rightarrow> Inl e
                | Inr nd2 \<Rightarrow>
                  let sf = fdiv (fadd (fmul s2 dt) nd2) (np_square pw dx);
                      af = fdiv (fmul nu dt) dx
                  in Inr \<lparr>fp_dx = dx, fp_sf = sf, fp_af = af,
                          fp_pu = fmul (Fin (1/2)) (fadd sf af),
                          fp_pm = fsub (Fin 1) sf,
                          fp_pd = fmul (Fin (1/2)) (fsub sf af)\<rparr>)"

subsection \<open>Notions used in the proofs\<close>

text \<open>An array of \<open>nr\<close> rows and \<open>nc\<close> columns.\<close>

definition shape :: "nat \<Rightarrow> nat \<Rightarrow> matrix \<Rightarrow> bool" where
  "shape nr nc M \<longleftrightarrow> length M = nr \<and> (\<forall>r<nr. length (M ! r) = nc)"

text \<open>
  Node \<open>(i, j)\<close> of a binomial lattice, time step \<open>i\<close> with \<open>j\<close> up moves, is stored
  in row \<open>N - j\<close> of column \<open>i\<close>.
\<close>

definition BM_node :: "matrix \<Rightarrow> nat \<Rightarrow> nat \<Rightarrow> nat \<Rightarrow> real" where
  "BM_node M N i j = M ! (N - j) ! i"

text \<open>
  The backward loops of the binomial pricers differ in how the discounted expectation
  \<open>c\<close> and the payoff \<open>q\<close> of the node are combined: \<open>\<lambda>c q. c\<close> in \<open>BM_Euro\<close>,
  \<open>max\<close> in \<open>BM_Amer\<close>.
\<close>

primrec BM_gen_loop ::
  "(real \<Rightarrow> real \<Rightarrow> real) \<Rightarrow> real \<Rightarrow> real \<Rightarrow> nat \<Rightarrow> matrix \<Rightarrow> nat \<Rightarrow> matrix \<Rightarrow> matrix" where
  "BM_gen_loop g dfact p N Pmat 0 Vmat = Vmat"
| "BM_gen_loop g dfact p N Pmat (Suc m) Vmat =
     (let V = BM_gen_loop g dfact p N Pmat m Vmat; t = N - 1 - m
      in set_col_from V (m + 1) t (map2 g (BM_cont dfact p N V m t) (col_from Pmat (m + 1) t)))"

text \<open>
  Node \<open>(i, j)\<close> of a trinomial lattice, time step \<open>i\<close> and \<open>j\<close> net up moves
  (\<open>- i \<le> j \<le> i\<close>), is stored in row \<open>N - j\<close> of column \<open>i\<close>.
\<close>

definition aTM_node :: "matrix \<Rightarrow> nat \<Rightarrow> nat \<Rightarrow> int \<Rightarrow> real" where
  "aTM_node M N i j = M ! nat (int N - j) ! i"

text \<open>The finite binary64 numbers, the exponent range unbounded above.\<close>

definition is_f64 :: "real \<Rightarrow> bool" where
  "is_f64 x \<longleftrightarrow> (\<exists>m e. x = of_int m * 2 powr of_int e \<and> \<bar>m\<bar> < 2 ^ 53 \<and> - 1074 \<le> e)"

text \<open>A generator whose variates are \<open>0, 1, 2, ...\<close>\<close>

definition ramp :: rng where
  "ramp k = real k"

section \<open>Properties\<close>

subsection \<open>Shapes and entries of arrays\<close>

lemma shape_zeros: "shape nr nc (zeros nr nc)"
  by (simp add: shape_def zeros_def)

lemma nth_zeros: "r < nr \<Longrightarrow> c < nc \<Longrightarrow> zeros nr nc ! r ! c = 0"
  by (simp add: zeros_def)

lemma shape_set_entry: "shape nr nc M \<Longrightarrow> shape nr nc (set_entry M r c v)"
proof -
  assume M: "shape nr nc M"
  have "length (set_entry M r c v ! ra) = nc" if "ra < nr" for ra
    using that M by (cases "ra = r") (simp_all add: shape_def set_entry_def)
  then show ?thesis using M by (simp add: shape_def set_entry_def)
qed

lemma nth_set_entry:
  "shape nr nc M \<Longrightarrow> r' < nr \<Longrightarrow> c' < nc \<Longrightarrow>
   set_entry M r c v ! r' ! c' = (if r' = r \<and> c' = c then v else M ! r' ! c')"
  by (cases "r' = r") (simp_all add: shape_def set_entry_def nth_list_update)

lemma length_col_slice: "length (col_slice M a b c) = b - a"
  by (simp add: col_slice_def)

lemma nth_col_slice: "k < b - a \<Longrightarrow> col_slice M a b c ! k = M ! (a + k) ! c"
  by (simp add: col_slice_def)

lemma length_col_from: "shape nr nc M \<Longrightarrow> length (col_from M a c) = nr - a"
  by (simp add: col_from_def shape_def length_col_slice)

lemma nth_col_from: "shape nr nc M \<Longrightarrow> k < nr - a \<Longrightarrow> col_from M a c ! k = M ! (a + k) ! c"
  by (simp add: col_from_def shape_def nth_col_slice)

lemma shape_set_col_slice: "shape nr nc M \<Longrightarrow> shape nr nc (set_col_slice M a b c vs)"
  by (simp add: shape_def set_col_slice_def)

lemma nth_set_col_slice:
  "shape nr nc M \<Longrightarrow> r < nr \<Longrightarrow> c' < nc \<Longrightarrow>
   set_col_slice M a b c vs ! r ! c' =
     (if c' = c \<and> a \<le> r \<and> r < b then vs ! (r - a) else M ! r ! c')"
  by (auto simp add: shape_def set_col_slice_def nth_list_update)

lemma shape_set_col_from: "shape nr nc M \<Longrightarrow> shape nr nc (set_col_from M a c vs)"
  by (simp add: set_col_from_def shape_set_col_slice)

lemma nth_set_col_from:
  "shape nr nc M \<Longrightarrow> r < nr \<Longrightarrow> c' < nc \<Longrightarrow>
   set_col_from M a c vs ! r ! c' = (if c' = c \<and> a \<le> r then vs ! (r - a) else M ! r ! c')"
  using nth_set_col_slice [of nr nc M r c' a "length M" c vs]
  by (simp add: set_col_from_def shape_def)

lemma shape_map_map: "shape nr nc M \<Longrightarrow> shape nr nc (map (map f) M)"
  by (simp add: shape_def)

lemma nth_map_map: "shape nr nc M \<Longrightarrow> r < nr \<Longrightarrow> c < nc \<Longrightarrow> map (map f) M ! r ! c = f (M ! r ! c)"
  by (simp add: shape_def)

lemma shape_msub: "shape nr nc A \<Longrightarrow> shape nr nc B \<Longrightarrow> shape nr nc (msub A B)"
  by (simp add: shape_def msub_def)

lemma nth_msub:
  "shape nr nc A \<Longrightarrow> shape nr nc B \<Longrightarrow> r < nr \<Longrightarrow> c < nc \<Longrightarrow>
   msub A B ! r ! c = A ! r ! c - B ! r ! c"
  by (simp add: shape_def msub_def)

lemma shape_Kmat: "shape n n (scale K (fliplr (tri n)))"
  by (simp add: shape_def scale_def fliplr_def tri_def)

lemma nth_Kmat:
  "r < n \<Longrightarrow> c < n \<Longrightarrow> scale K (fliplr (tri n)) ! r ! c = (if n \<le> Suc (r + c) then K else 0)"
  by (auto simp add: scale_def fliplr_def tri_def rev_nth)

subsection \<open>The payoff matrix of the binomial model\<close>

lemma length_BM_prices: "length (BM_prices S0 u d t) = t + 1"
  by (simp add: BM_prices_def)

lemma nth_BM_prices: "k \<le> t \<Longrightarrow> BM_prices S0 u d t ! k = S0 * u ^ (t - k) * d ^ k"
  by (simp add: BM_prices_def Let_def rev_nth del: upt_Suc)


lemma BM_price_loop_inv:
  assumes "shape (Suc N) (Suc N) P0" and "n \<le> Suc N"
  shows "shape (Suc N) (Suc N) (BM_price_loop S0 u d N n P0) \<and>
         (\<forall>r\<le>N. \<forall>c\<le>N. BM_price_loop S0 u d N n P0 ! r ! c =
            (if c < n \<and> N \<le> r + c then S0 * u ^ (N - r) * d ^ (r + c - N) else P0 ! r ! c))"
  using assms(2)
proof (induction n)
  case 0
  then show ?case using assms(1) by simp
next
  case (Suc t)
  let ?P = "BM_price_loop S0 u d N t P0"
  from Suc have sh: "shape (Suc N) (Suc N) ?P"
    and IH: "\<And>r c. r \<le> N \<Longrightarrow> c \<le> N \<Longrightarrow> ?P ! r ! c =
            (if c < t \<and> N \<le> r + c then S0 * u ^ (N - r) * d ^ (r + c - N) else P0 ! r ! c)"
    and t: "t \<le> N" by simp_all
  have "BM_price_loop S0 u d N (Suc t) P0 ! r ! c =
          (if c < Suc t \<and> N \<le> r + c then S0 * u ^ (N - r) * d ^ (r + c - N) else P0 ! r ! c)"
    if rc: "r \<le> N" "c \<le> N" for r c
  proof (cases "c = t \<and> N - t \<le> r")
    case True
    then have k: "r - (N - t) \<le> t" and e1: "t - (r - (N - t)) = N - r"
      and e2: "r - (N - t) = r + t - N" and e3: "N \<le> r + t"
      using rc t by auto
    have "BM_prices S0 u d t ! (r - (N - t)) = S0 * u ^ (N - r) * d ^ (r - (N - t))"
      using nth_BM_prices [OF k, of S0 u d] unfolding e1 .
    moreover have "BM_price_loop S0 u d N (Suc t) P0 ! r ! c = BM_prices S0 u d t ! (r - (N - t))"
      using True rc nth_set_col_from [OF sh, of r c "N - t" t "BM_prices S0 u d t"] by simp
    ultimately show ?thesis using True e3 e2 by simp
  next
    case False
    have "BM_price_loop S0 u d N (Suc t) P0 ! r ! c = ?P ! r ! c"
      using False rc nth_set_col_from [OF sh, of r c "N - t" t "BM_prices S0 u d t"] by auto
    then show ?thesis using False rc t IH [OF rc] by auto
  qed
  then show ?case using sh by (simp add: shape_set_col_from)
qed

lemma shape_BM_Pmat: "shape (Suc N) (Suc N) (BM_Pmat S0 K u d N)"
proof -
  have "shape (Suc N) (Suc N) (set_entry (zeros (Suc N) (Suc N)) N 0 S0)"
    by (rule shape_set_entry [OF shape_zeros])
  from BM_price_loop_inv [OF this le_refl] show ?thesis
    by (simp add: BM_Pmat_def Let_def shape_msub shape_Kmat del: BM_price_loop.simps)
qed

lemma nth_BM_Pmat:
  assumes "r \<le> N" and "c \<le> N"
  shows "BM_Pmat S0 K u d N ! r ! c =
           (if N \<le> r + c then S0 * u ^ (N - r) * d ^ (r + c - N) - K else 0)"
proof -
  let ?Init = "set_entry (zeros (Suc N) (Suc N)) N 0 S0"
  let ?Loop = "BM_price_loop S0 u d N (Suc N) ?Init"
  let ?Km = "scale K (fliplr (tri (Suc N)))"
  have sh0: "shape (Suc N) (Suc N) ?Init"
    by (rule shape_set_entry [OF shape_zeros])
  note inv = BM_price_loop_inv [OF sh0 le_refl]
  have sh: "shape (Suc N) (Suc N) ?Loop" by (rule inv [THEN conjunct1])
  from inv [THEN conjunct2] assms have e: "?Loop ! r ! c =
      (if N \<le> r + c then S0 * u ^ (N - r) * d ^ (r + c - N) else ?Init ! r ! c)"
    by (simp del: BM_price_loop.simps)
  have z: "\<not> N \<le> r + c \<Longrightarrow> ?Init ! r ! c = 0"
    using assms by (simp add: nth_set_entry [OF shape_zeros] nth_zeros)
  have k: "?Km ! r ! c = (if N \<le> r + c then K else 0)"
    using assms by (simp add: nth_Kmat)
  have "BM_Pmat S0 K u d N = msub ?Loop ?Km"
    by (simp add: BM_Pmat_def Let_def del: BM_price_loop.simps)
  then have "BM_Pmat S0 K u d N ! r ! c = ?Loop ! r ! c - ?Km ! r ! c"
    using assms nth_msub [OF sh shape_Kmat, of r c K] by simp
  then show ?thesis using e z k by simp
qed

subsection \<open>The backward loops of the binomial model\<close>

lemma length_BM_cont:
  "shape (Suc N) (Suc N) V \<Longrightarrow> length (BM_cont dfact p N V m t) = N - m"
  by (simp add: BM_cont_def length_col_slice length_col_from [of "Suc N" "Suc N"])

lemma nth_BM_cont:
  assumes "shape (Suc N) (Suc N) V" and "k < N - m"
  shows "BM_cont dfact p N V m t ! k =
           dfact * (p * V ! (m + k) ! Suc t + (1 - p) * V ! Suc (m + k) ! Suc t)"
proof -
  have "col_slice V m N (Suc t) ! k = V ! (m + k) ! Suc t"
    using assms(2) by (simp add: nth_col_slice)
  moreover have "col_from V (Suc m) (Suc t) ! k = V ! Suc (m + k) ! Suc t"
    using assms nth_col_from [OF assms(1), of k "Suc m" "Suc t"] by simp
  ultimately show ?thesis
    using assms by (simp add: BM_cont_def length_col_slice length_col_from [OF assms(1)])
qed

lemma BM_gen_loop_inv:
  assumes P: "shape (Suc N) (Suc N) Pmat" and V0: "shape (Suc N) (Suc N) V0" and n: "n \<le> N"
  shows "shape (Suc N) (Suc N) (BM_gen_loop g dfact p N Pmat n V0) \<and>
         (\<forall>r\<le>N. \<forall>c\<le>N. BM_gen_loop g dfact p N Pmat n V0 ! r ! c =
            (if N - n \<le> c \<and> c < N \<and> N \<le> r + c
             then g (dfact * (p * BM_gen_loop g dfact p N Pmat n V0 ! (r - 1) ! Suc c
                              + (1 - p) * BM_gen_loop g dfact p N Pmat n V0 ! r ! Suc c))
                    (Pmat ! r ! c)
             else V0 ! r ! c))"
  using n
proof (induction n)
  case 0
  then show ?case using V0 by simp
next
  case (Suc m)
  define V where "V = BM_gen_loop g dfact p N Pmat m V0"
  define t where "t = N - 1 - m"
  define vec where "vec = map2 g (BM_cont dfact p N V m t) (col_from Pmat (m + 1) t)"
  define W where "W = set_col_from V (m + 1) t vec"
  from Suc have m: "m < N" and sh: "shape (Suc N) (Suc N) V"
    and IH: "\<And>r c. r \<le> N \<Longrightarrow> c \<le> N \<Longrightarrow> V ! r ! c =
            (if N - m \<le> c \<and> c < N \<and> N \<le> r + c
             then g (dfact * (p * V ! (r - 1) ! Suc c + (1 - p) * V ! r ! Suc c)) (Pmat ! r ! c)
             else V0 ! r ! c)"
    unfolding V_def by simp_all
  have t: "t < N" "Suc t = N - m" "N - Suc m = t" using m by (simp_all add: t_def)
  have W: "BM_gen_loop g dfact p N Pmat (Suc m) V0 = W"
    by (simp add: Let_def W_def vec_def V_def t_def)
  have shW: "shape (Suc N) (Suc N) W"
    unfolding W_def by (rule shape_set_col_from [OF sh])
  have entry: "W ! r ! c = (if c = t \<and> m + 1 \<le> r then vec ! (r - (m + 1)) else V ! r ! c)"
    if "r \<le> N" "c \<le> N" for r c
    using that nth_set_col_from [OF sh, of r c "m + 1" t vec] unfolding W_def by simp
  have vec: "vec ! (r - (m + 1)) =
      g (dfact * (p * V ! (r - 1) ! Suc t + (1 - p) * V ! r ! Suc t)) (Pmat ! r ! t)"
    if "r \<le> N" "m + 1 \<le> r" for r
  proof -
    have k: "r - (m + 1) < N - m" using that m by simp
    have e1: "m + (r - (m + 1)) = r - 1" and e2: "Suc (r - 1) = r" using that by simp_all
    have "BM_cont dfact p N V m t ! (r - (m + 1)) =
            dfact * (p * V ! (r - 1) ! Suc t + (1 - p) * V ! r ! Suc t)"
      using nth_BM_cont [OF sh k, of dfact p t] unfolding e1 e2 .
    moreover have "col_from Pmat (m + 1) t ! (r - (m + 1)) = Pmat ! r ! t"
      using nth_col_from [OF P, of "r - (m + 1)" "m + 1" t] k that by simp
    ultimately show ?thesis
      using k by (simp add: vec_def length_BM_cont [OF sh] length_col_from [OF P])
  qed
  have "W ! r ! c =
          (if N - Suc m \<le> c \<and> c < N \<and> N \<le> r + c
           then g (dfact * (p * W ! (r - 1) ! Suc c + (1 - p) * W ! r ! Suc c)) (Pmat ! r ! c)
           else V0 ! r ! c)"
    if rc: "r \<le> N" "c \<le> N" for r c
  proof -
    have nx: "W ! (r - 1) ! Suc c = V ! (r - 1) ! Suc c" "W ! r ! Suc c = V ! r ! Suc c"
      if "t \<le> c" "c < N"
      using that rc entry [of "r - 1" "Suc c"] entry [of r "Suc c"] by simp_all
    consider (new) "c = t" "m + 1 \<le> r" | (above) "c = t" "r < m + 1"
      | (old) "N - m \<le> c \<and> c < N \<and> N \<le> r + c" | (rest) "c \<noteq> t" "\<not> (N - m \<le> c \<and> c < N \<and> N \<le> r + c)"
      using t by fastforce
    then show ?thesis
    proof cases
      case new
      then have cond: "N - Suc m \<le> c \<and> c < N \<and> N \<le> r + c" using t m by auto
      have "W ! r ! c = vec ! (r - (m + 1))" using entry [OF rc] new by simp
      also have "\<dots> = g (dfact * (p * V ! (r - 1) ! Suc c + (1 - p) * V ! r ! Suc c)) (Pmat ! r ! c)"
        using vec [OF rc(1) new(2)] new(1) by simp
      also have "\<dots> = g (dfact * (p * W ! (r - 1) ! Suc c + (1 - p) * W ! r ! Suc c)) (Pmat ! r ! c)"
        using nx new(1) t(1) by simp
      finally show ?thesis using cond by auto
    next
      case above
      then have cond: "\<not> (N - Suc m \<le> c \<and> c < N \<and> N \<le> r + c)"
        and cond': "\<not> (N - m \<le> c \<and> c < N \<and> N \<le> r + c)" using t m by auto
      have "W ! r ! c = V ! r ! c" using entry [OF rc] above by simp
      also have "\<dots> = V0 ! r ! c" using IH [OF rc] cond' by simp
      finally show ?thesis using cond by auto
    next
      case old
      then have cond: "N - Suc m \<le> c \<and> c < N \<and> N \<le> r + c" and ct: "c \<noteq> t" "t \<le> c" "c < N"
        using t m by auto
      have "W ! r ! c = V ! r ! c" using entry [OF rc] ct by simp
      also have "\<dots> = g (dfact * (p * V ! (r - 1) ! Suc c + (1 - p) * V ! r ! Suc c)) (Pmat ! r ! c)"
        using IH [OF rc] old by simp
      also have "\<dots> = g (dfact * (p * W ! (r - 1) ! Suc c + (1 - p) * W ! r ! Suc c)) (Pmat ! r ! c)"
        using nx ct by simp
      finally show ?thesis using cond by auto
    next
      case rest
      then have cond: "\<not> (N - Suc m \<le> c \<and> c < N \<and> N \<le> r + c)" using t m by auto
      have "W ! r ! c = V ! r ! c" using entry [OF rc] rest by simp
      also have "\<dots> = V0 ! r ! c" using IH [OF rc] rest by simp
      finally show ?thesis using cond by auto
    qed
  qed
  then show ?case using shW unfolding W by blast
qed

subsection \<open>The binomial pricers unfolded\<close>

lemma optype_branch_valid:
  "optype = ''call'' \<or> optype = ''put'' \<Longrightarrow> \<exists>f. optype_branch optype = Inr f"
  by (auto simp add: optype_branch_def)

lemma optype_branch_invalid:
  "optype \<noteq> ''call'' \<Longrightarrow> optype \<noteq> ''put'' \<Longrightarrow> optype_branch optype = Inl OptypeNotCallOrPut"
  by (simp add: optype_branch_def)

lemma optype_branch_nonneg: "optype_branch optype = Inr f \<Longrightarrow> 0 \<le> f x"
  by (auto simp add: optype_branch_def call_branch_def put_branch_def split: if_splits)

lemma optype_branch_zero: "optype_branch optype = Inr f \<Longrightarrow> f 0 = 0"
  by (auto simp add: optype_branch_def call_branch_def put_branch_def split: if_splits)

lemma optype_branch_intrinsic: "optype_branch optype = Inr f \<Longrightarrow> f (S - K) = intrinsic optype K S"
  by (auto simp add: optype_branch_def call_branch_def put_branch_def intrinsic_def
      split: if_splits)

lemma inverse_dfact: "1 / exp (- x) = exp x" for x :: real
  by (simp add: exp_minus field_simps)

lemma terminal_column:
  assumes "shape nr (Suc N) Pmat"
  shows "shape nr (Suc N) (set_col_from (zeros nr (Suc N)) 0 N (col_from Pmat 0 N))"
    and "r < nr \<Longrightarrow> c \<le> N \<Longrightarrow>
         set_col_from (zeros nr (Suc N)) 0 N (col_from Pmat 0 N) ! r ! c =
           (if c = N then Pmat ! r ! N else 0)"
proof -
  show "shape nr (Suc N) (set_col_from (zeros nr (Suc N)) 0 N (col_from Pmat 0 N))"
    by (rule shape_set_col_from [OF shape_zeros])
  assume rc: "r < nr" "c \<le> N"
  have "col_from Pmat 0 N ! r = Pmat ! r ! N"
    using nth_col_from [OF assms, of r 0 N] rc by simp
  then show "set_col_from (zeros nr (Suc N)) 0 N (col_from Pmat 0 N) ! r ! c =
           (if c = N then Pmat ! r ! N else 0)"
    using rc nth_set_col_from [OF shape_zeros, of r nr c "Suc N" 0 N "col_from Pmat 0 N"]
    by (simp add: nth_zeros)
qed

lemma BM_Euro_ok:
  assumes "0 < N" and "0 < d" and "d < exp (r * (T / real N))" and "exp (r * (T / real N)) < u"
    and "optype_branch optype = Inr f"
  shows "BM_Euro S0 K r u d T N optype =
            Inr (BM_Euro_loop (exp (- r * (T / real N))) ((exp (r * (T / real N)) - d) / (u - d)) N N
                   (set_col_from (zeros (Suc N) (Suc N)) 0 N
                      (col_from (map (map f) (BM_Pmat S0 K u d N)) 0 N)))"
  using assms by (simp add: BM_Euro_def Let_def inverse_dfact del: BM_Euro_loop.simps)

lemma BM_Amer_ok:
  assumes "0 < N" and "0 < d" and "d < exp (r * (T / real N))" and "exp (r * (T / real N)) < u"
    and "optype_branch optype = Inr f"
  shows "BM_Amer S0 K r u d T N optype exmat =
            Inr (if exmat then
                   (fst (BM_Amer_loop_ex (exp (- r * (T / real N)))
                          ((exp (r * (T / real N)) - d) / (u - d)) N
                          (map (map f) (BM_Pmat S0 K u d N)) N
                          (set_col_from (zeros (Suc N) (Suc N)) 0 N
                             (col_from (map (map f) (BM_Pmat S0 K u d N)) 0 N),
                           zeros (Suc N) (Suc N))),
                    Some (snd (BM_Amer_loop_ex (exp (- r * (T / real N)))
                          ((exp (r * (T / real N)) - d) / (u - d)) N
                          (map (map f) (BM_Pmat S0 K u d N)) N
                          (set_col_from (zeros (Suc N) (Suc N)) 0 N
                             (col_from (map (map f) (BM_Pmat S0 K u d N)) 0 N),
                           zeros (Suc N) (Suc N)))))
                 else
                   (BM_Amer_loop (exp (- r * (T / real N)))
                      ((exp (r * (T / real N)) - d) / (u - d)) N
                      (map (map f) (BM_Pmat S0 K u d N)) N
                      (set_col_from (zeros (Suc N) (Suc N)) 0 N
                         (col_from (map (map f) (BM_Pmat S0 K u d N)) 0 N)),
                    None))"
  using assms
  by (simp add: BM_Amer_def Let_def inverse_dfact case_prod_unfold
      del: BM_Amer_loop.simps BM_Amer_loop_ex.simps)

lemma BM_Amer_loop_gen:
  "BM_Amer_loop dfact p N Pmat n V0 = BM_gen_loop max dfact p N Pmat n V0"
  by (induction n) (simp_all add: Let_def)

lemma BM_Amer_loop_ex_fst:
  "fst (BM_Amer_loop_ex dfact p N Pmat n (V0, E0)) = BM_Amer_loop dfact p N Pmat n V0"
  by (induction n) (simp_all add: Let_def case_prod_unfold)

lemma map2_first: "length xs = length ys \<Longrightarrow> map2 (\<lambda>c q. c) xs ys = xs"
  by (induction xs ys rule: list_induct2) simp_all

lemma BM_Euro_loop_gen:
  assumes "shape (Suc N) (Suc N) Pmat" and "shape (Suc N) (Suc N) V0" and "n \<le> N"
  shows "BM_Euro_loop dfact p N n V0 = BM_gen_loop (\<lambda>c q. c) dfact p N Pmat n V0"
  using assms(3)
proof (induction n)
  case 0
  show ?case by simp
next
  case (Suc m)
  then have eq: "BM_Euro_loop dfact p N m V0 = BM_gen_loop (\<lambda>c q. c) dfact p N Pmat m V0"
    and m: "m \<le> N" by simp_all
  have sh: "shape (Suc N) (Suc N) (BM_gen_loop (\<lambda>c q. c) dfact p N Pmat m V0)"
    using BM_gen_loop_inv [OF assms(1,2) m] by blast
  have "length (BM_cont dfact p N (BM_gen_loop (\<lambda>c q. c) dfact p N Pmat m V0) m (N - 1 - m))
          = length (col_from Pmat (m + 1) (N - 1 - m))"
    by (simp add: length_BM_cont [OF sh] length_col_from [OF assms(1)])
  then show ?case
    by (simp add: Let_def eq map2_first)
qed

lemma BM_payoff_entry:
  assumes "optype_branch optype = Inr f" and "r \<le> N" and "c \<le> N"
  shows "map (map f) (BM_Pmat S0 K u d N) ! r ! c =
           (if N \<le> r + c then intrinsic optype K (S0 * u ^ (N - r) * d ^ (r + c - N)) else 0)"
proof -
  have "map (map f) (BM_Pmat S0 K u d N) ! r ! c = f (BM_Pmat S0 K u d N ! r ! c)"
    using assms(2,3) nth_map_map [OF shape_BM_Pmat, of r N c] by simp
  then show ?thesis
    using assms(2,3)
    by (simp add: nth_BM_Pmat optype_branch_zero [OF assms(1)] optype_branch_intrinsic [OF assms(1)])
qed

lemma BM_lattice_entry:
  fixes S0 K u d dfact p :: real and g :: "real \<Rightarrow> real \<Rightarrow> real"
  assumes f: "optype_branch optype = Inr f" and rc: "r \<le> N" "c \<le> N"
  defines "Pmat \<equiv> map (map f) (BM_Pmat S0 K u d N)"
  defines "V \<equiv> BM_gen_loop g dfact p N Pmat N
                  (set_col_from (zeros (Suc N) (Suc N)) 0 N (col_from Pmat 0 N))"
  shows "V ! r ! c =
           (if c < N \<and> N \<le> r + c
            then g (dfact * (p * V ! (r - 1) ! Suc c + (1 - p) * V ! r ! Suc c))
                   (intrinsic optype K (S0 * u ^ (N - r) * d ^ (r + c - N)))
            else if c = N then intrinsic optype K (S0 * u ^ (N - r) * d ^ r)
            else 0)"
proof -
  have shP: "shape (Suc N) (Suc N) Pmat"
    unfolding Pmat_def by (rule shape_map_map [OF shape_BM_Pmat])
  note V0 = terminal_column [OF shP]
  have inv: "V ! r ! c =
            (if N - N \<le> c \<and> c < N \<and> N \<le> r + c
             then g (dfact * (p * V ! (r - 1) ! Suc c + (1 - p) * V ! r ! Suc c)) (Pmat ! r ! c)
             else set_col_from (zeros (Suc N) (Suc N)) 0 N (col_from Pmat 0 N) ! r ! c)"
    using BM_gen_loop_inv [OF shP V0(1) le_refl, of g dfact p] rc unfolding V_def by blast
  have P: "Pmat ! r ! c =
      (if N \<le> r + c then intrinsic optype K (S0 * u ^ (N - r) * d ^ (r + c - N)) else 0)"
    unfolding Pmat_def by (rule BM_payoff_entry [OF f rc])
  have PN: "Pmat ! r ! N = intrinsic optype K (S0 * u ^ (N - r) * d ^ r)"
    unfolding Pmat_def using BM_payoff_entry [OF f rc(1) le_refl, of S0 K u d] by simp
  have T: "set_col_from (zeros (Suc N) (Suc N)) 0 N (col_from Pmat 0 N) ! r ! c =
      (if c = N then Pmat ! r ! N else 0)"
    using V0(2) [of r c] rc by simp
  show ?thesis
    unfolding inv T PN P by auto
qed





subsection \<open>The European binomial lattice\<close>



subsection \<open>American and European binomial lattices compared\<close>

lemma BM_Euro_gen:
  assumes "0 < N" and "0 < d" and "d < exp (r * (T / real N))" and "exp (r * (T / real N)) < u"
    and f: "optype_branch optype = Inr f"
  shows "BM_Euro S0 K r u d T N optype =
           Inr (BM_gen_loop (\<lambda>c q. c) (exp (- r * (T / real N)))
                  ((exp (r * (T / real N)) - d) / (u - d)) N
                  (map (map f) (BM_Pmat S0 K u d N)) N
                  (set_col_from (zeros (Suc N) (Suc N)) 0 N
                     (col_from (map (map f) (BM_Pmat S0 K u d N)) 0 N)))"
proof -
  have shP: "shape (Suc N) (Suc N) (map (map f) (BM_Pmat S0 K u d N))"
    by (rule shape_map_map [OF shape_BM_Pmat])
  show ?thesis
    unfolding BM_Euro_ok [OF assms]
      BM_Euro_loop_gen [OF shP terminal_column(1) [OF shP] le_refl]
    by simp
qed

lemma BM_Amer_gen:
  assumes "0 < N" and "0 < d" and "d < exp (r * (T / real N))" and "exp (r * (T / real N)) < u"
    and f: "optype_branch optype = Inr f"
  shows "\<exists>X. BM_Amer S0 K r u d T N optype exmat =
           Inr (BM_gen_loop max (exp (- r * (T / real N)))
                  ((exp (r * (T / real N)) - d) / (u - d)) N
                  (map (map f) (BM_Pmat S0 K u d N)) N
                  (set_col_from (zeros (Suc N) (Suc N)) 0 N
                     (col_from (map (map f) (BM_Pmat S0 K u d N)) 0 N)), X)"
  unfolding BM_Amer_ok [OF assms] BM_Amer_loop_ex_fst BM_Amer_loop_gen
  by (cases exmat) simp_all








subsection \<open>Parameter checks of the binomial pricers\<close>

lemma BM_Euro_rejected:
  assumes "0 < N" and "\<not> (0 < d \<and> d < exp (r * (T / real N)) \<and> exp (r * (T / real N)) < u)"
  shows "BM_Euro S0 K r u d T N optype = Inl ParametersNotAllowed"
  using assms by (auto simp add: BM_Euro_def Let_def inverse_dfact)

lemma BM_Amer_rejected:
  assumes "0 < N" and "\<not> (0 < d \<and> d < exp (r * (T / real N)) \<and> exp (r * (T / real N)) < u)"
  shows "BM_Amer S0 K r u d T N optype exmat = Inl ParametersNotAllowed"
  using assms by (auto simp add: BM_Amer_def Let_def inverse_dfact)

lemma BM_gen_node_step:
  fixes S0 K u d dfact p :: real and g :: "real \<Rightarrow> real \<Rightarrow> real"
  assumes f: "optype_branch optype = Inr f" and ij: "i < N" "j \<le> i"
  defines "Pmat \<equiv> map (map f) (BM_Pmat S0 K u d N)"
  defines "V \<equiv> BM_gen_loop g dfact p N Pmat N
                  (set_col_from (zeros (Suc N) (Suc N)) 0 N (col_from Pmat 0 N))"
  shows "BM_node V N i j =
           g (dfact * (p * BM_node V N (i + 1) (j + 1) + (1 - p) * BM_node V N (i + 1) j))
             (intrinsic optype K (S0 * u ^ j * d ^ (i - j)))"
proof -
  have le: "N - j \<le> N" "i \<le> N" and cond: "i < N \<and> N \<le> N - j + i"
    and e: "N - j - 1 = N - (j + 1)" "N - (N - j) = j" "N - j + i - N = i - j"
    using ij by simp_all
  show ?thesis
    using BM_lattice_entry [OF f le, of g dfact p S0 K u d, folded Pmat_def, folded V_def,
        unfolded if_P [OF cond] e]
    by (simp add: BM_node_def e(1))
qed

text \<open>
  Claim C7, as the code has it. With an option kind among call and put: for \<open>N = 0\<close>
  \<open>BM_Euro\<close> and \<open>BM_Amer\<close> raise \<open>ZeroDivisionError\<close> whatever \<open>u\<close> and \<open>d\<close> are; for
  \<open>N \<ge> 1\<close> they raise the parameter exception if and only if
  \<open>0 < d < exp (r * dt) < u\<close> fails, \<open>dt = T / N\<close>, and when it holds they return
  lattices whose interior nodes are computed with the discount factor \<open>exp (- r * dt)\<close>
  and the probability \<open>p = (exp (r * dt) - d) / (u - d)\<close>: the discounted expectation
  in \<open>BM_Euro\<close>, its maximum with the intrinsic payoff in \<open>BM_Amer\<close>.
\<close>

theorem BM_bracket_decides_exception:
  assumes "optype = ''call'' \<or> optype = ''put''"
  shows "(N = 0 \<longrightarrow>
            BM_Euro S0 K r u d T N optype = Inl ZeroDivisionError \<and>
            BM_Amer S0 K r u d T N optype exmat = Inl ZeroDivisionError) \<and>
         (1 \<le> N \<longrightarrow>
            (BM_Euro S0 K r u d T N optype = Inl ParametersNotAllowed
               \<longleftrightarrow> \<not> (0 < d \<and> d < exp (r * (T / real N)) \<and> exp (r * (T / real N)) < u)) \<and>
            (BM_Amer S0 K r u d T N optype exmat = Inl ParametersNotAllowed
               \<longleftrightarrow> \<not> (0 < d \<and> d < exp (r * (T / real N)) \<and> exp (r * (T / real N)) < u)) \<and>
            (0 < d \<and> d < exp (r * (T / real N)) \<and> exp (r * (T / real N)) < u \<longrightarrow>
               (\<exists>VE VA X.
                  BM_Euro S0 K r u d T N optype = Inr VE \<and>
                  BM_Amer S0 K r u d T N optype exmat = Inr (VA, X) \<and>
                  (\<forall>i<N. \<forall>j\<le>i.
                     BM_node VE N i j =
                       exp (- r * (T / real N)) *
                         ((exp (r * (T / real N)) - d) / (u - d) * BM_node VE N (i + 1) (j + 1)
                          + (1 - (exp (r * (T / real N)) - d) / (u - d)) * BM_node VE N (i + 1) j) \<and>
                     BM_node VA N i j =
                       max (exp (- r * (T / real N)) *
                              ((exp (r * (T / real N)) - d) / (u - d) * BM_node VA N (i + 1) (j + 1)
                               + (1 - (exp (r * (T / real N)) - d) / (u - d)) * BM_node VA N (i + 1) j))
                           (intrinsic optype K (S0 * u ^ j * d ^ (i - j)))))))"
proof (intro conjI impI)
  assume "N = 0"
  then show "BM_Euro S0 K r u d T N optype = Inl ZeroDivisionError"
    and "BM_Amer S0 K r u d T N optype exmat = Inl ZeroDivisionError"
    by (simp_all add: BM_Euro_def BM_Amer_def)
next
  assume "1 \<le> N"
  then have N: "0 < N" by simp
  from assms obtain f where f: "optype_branch optype = Inr f"
    using optype_branch_valid by blast
  show "BM_Euro S0 K r u d T N optype = Inl ParametersNotAllowed
          \<longleftrightarrow> \<not> (0 < d \<and> d < exp (r * (T / real N)) \<and> exp (r * (T / real N)) < u)"
  proof (cases "0 < d \<and> d < exp (r * (T / real N)) \<and> exp (r * (T / real N)) < u")
    case True
    then have b: "0 < d" "d < exp (r * (T / real N))" "exp (r * (T / real N)) < u" by simp_all
    show ?thesis using True by (simp add: BM_Euro_ok [OF N b f])
  next
    case False
    then show ?thesis by (simp add: BM_Euro_rejected [OF N False])
  qed
  show "BM_Amer S0 K r u d T N optype exmat = Inl ParametersNotAllowed
          \<longleftrightarrow> \<not> (0 < d \<and> d < exp (r * (T / real N)) \<and> exp (r * (T / real N)) < u)"
  proof (cases "0 < d \<and> d < exp (r * (T / real N)) \<and> exp (r * (T / real N)) < u")
    case True
    then have b: "0 < d" "d < exp (r * (T / real N))" "exp (r * (T / real N)) < u" by simp_all
    show ?thesis using True by (simp add: BM_Amer_ok [OF N b f])
  next
    case False
    then show ?thesis by (simp add: BM_Amer_rejected [OF N False])
  qed
  assume "0 < d \<and> d < exp (r * (T / real N)) \<and> exp (r * (T / real N)) < u"
  then have b: "0 < d" "d < exp (r * (T / real N))" "exp (r * (T / real N)) < u" by simp_all
  define Pmat where "Pmat = map (map f) (BM_Pmat S0 K u d N)"
  define V0 where "V0 = set_col_from (zeros (Suc N) (Suc N)) 0 N (col_from Pmat 0 N)"
  define VE where "VE = BM_gen_loop (\<lambda>c q. c) (exp (- r * (T / real N)))
                  ((exp (r * (T / real N)) - d) / (u - d)) N Pmat N V0"
  define VA where "VA = BM_gen_loop max (exp (- r * (T / real N)))
                  ((exp (r * (T / real N)) - d) / (u - d)) N Pmat N V0"
  have E: "BM_Euro S0 K r u d T N optype = Inr VE"
    unfolding VE_def V0_def Pmat_def by (rule BM_Euro_gen [OF N b f])
  obtain X where A: "BM_Amer S0 K r u d T N optype exmat = Inr (VA, X)"
    unfolding VA_def V0_def Pmat_def using BM_Amer_gen [OF N b f] by blast
  have sE: "BM_node VE N i j =
                       exp (- r * (T / real N)) *
                         ((exp (r * (T / real N)) - d) / (u - d) * BM_node VE N (i + 1) (j + 1)
                          + (1 - (exp (r * (T / real N)) - d) / (u - d)) * BM_node VE N (i + 1) j)"
    if "i < N" "j \<le> i" for i j
    unfolding VE_def V0_def Pmat_def by (rule BM_gen_node_step [OF f that])
  have sA: "BM_node VA N i j =
                       max (exp (- r * (T / real N)) *
                              ((exp (r * (T / real N)) - d) / (u - d) * BM_node VA N (i + 1) (j + 1)
                               + (1 - (exp (r * (T / real N)) - d) / (u - d)) * BM_node VA N (i + 1) j))
                           (intrinsic optype K (S0 * u ^ j * d ^ (i - j)))"
    if "i < N" "j \<le> i" for i j
    unfolding VA_def V0_def Pmat_def by (rule BM_gen_node_step [OF f that])
  show "\<exists>VE VA X.
                  BM_Euro S0 K r u d T N optype = Inr VE \<and>
                  BM_Amer S0 K r u d T N optype exmat = Inr (VA, X) \<and>
                  (\<forall>i<N. \<forall>j\<le>i.
                     BM_node VE N i j =
                       exp (- r * (T / real N)) *
                         ((exp (r * (T / real N)) - d) / (u - d) * BM_node VE N (i + 1) (j + 1)
                          + (1 - (exp (r * (T / real N)) - d) / (u - d)) * BM_node VE N (i + 1) j) \<and>
                     BM_node VA N i j =
                       max (exp (- r * (T / real N)) *
                              ((exp (r * (T / real N)) - d) / (u - d) * BM_node VA N (i + 1) (j + 1)
                               + (1 - (exp (r * (T / real N)) - d) / (u - d)) * BM_node VA N (i + 1) j))
                           (intrinsic optype K (S0 * u ^ j * d ^ (i - j))))"
    using E A sE sA by blast
qed

theorem BM_bracket_decides_exception_witness:
  "BM_Euro 100 100 0 2 (1/2) 1 0 ''put'' = Inl ZeroDivisionError \<and>
   BM_Amer 100 100 0 2 (1/2) 1 0 ''put'' True = Inl ZeroDivisionError \<and>
   BM_Euro 100 100 0 (1/2) 2 1 3 ''put'' = Inl ParametersNotAllowed \<and>
   BM_Amer 100 100 0 (1/2) 2 1 3 ''put'' True = Inl ParametersNotAllowed \<and>
   BM_Euro 100 100 0 2 (1/2) 1 3 ''put'' \<noteq> Inl ParametersNotAllowed \<and>
   BM_Amer 100 100 0 2 (1/2) 1 3 ''put'' True \<noteq> Inl ParametersNotAllowed \<and>
   BM_node (projr (BM_Euro 100 100 0 2 (1/2) 1 3 ''put'')) 3 2 1 =
     exp (- 0 * (1 / real (3::nat))) *
       ((exp (0 * (1 / real (3::nat))) - 1/2) / (2 - 1/2)
          * BM_node (projr (BM_Euro 100 100 0 2 (1/2) 1 3 ''put'')) 3 (2 + 1) (1 + 1)
        + (1 - (exp (0 * (1 / real (3::nat))) - 1/2) / (2 - 1/2))
          * BM_node (projr (BM_Euro 100 100 0 2 (1/2) 1 3 ''put'')) 3 (2 + 1) 1) \<and>
   BM_node (fst (projr (BM_Amer 100 100 0 2 (1/2) 1 3 ''put'' True))) 3 2 1 =
     max (exp (- 0 * (1 / real (3::nat))) *
            ((exp (0 * (1 / real (3::nat))) - 1/2) / (2 - 1/2)
               * BM_node (fst (projr (BM_Amer 100 100 0 2 (1/2) 1 3 ''put'' True))) 3 (2 + 1) (1 + 1)
             + (1 - (exp (0 * (1 / real (3::nat))) - 1/2) / (2 - 1/2))
               * BM_node (fst (projr (BM_Amer 100 100 0 2 (1/2) 1 3 ''put'' True))) 3 (2 + 1) 1))
         (intrinsic ''put'' 100 (100 * 2 ^ 1 * (1/2) ^ (2 - 1)))"
proof -
  have o: "''put'' = ''call'' \<or> ''put'' = ''put''" and N: "(1::nat) \<le> 3" by simp_all
  note bad = BM_bracket_decides_exception [OF o, of 3 100 100 0 "1/2" 2 1 True,
      THEN conjunct2, rule_format, OF N]
  note good = BM_bracket_decides_exception [OF o, of 3 100 100 0 2 "1/2" 1 True,
      THEN conjunct2, rule_format, OF N]
  have z: "BM_Euro 100 100 0 2 (1/2) 1 0 ''put'' = Inl ZeroDivisionError"
    "BM_Amer 100 100 0 2 (1/2) 1 0 ''put'' True = Inl ZeroDivisionError"
    using BM_bracket_decides_exception [OF o, of 0 100 100 0 2 "1/2" 1 True] by simp_all
  have nb: "\<not> ((0::real) < 2 \<and> 2 < exp (0 * (1 / real (3::nat))) \<and> exp (0 * (1 / real (3::nat))) < 1/2)"
    by simp
  have gb: "(0::real) < 1/2 \<and> 1/2 < exp (0 * (1 / real (3::nat))) \<and> exp (0 * (1 / real (3::nat))) < 2"
    by simp
  have b1: "BM_Euro 100 100 0 (1/2) 2 1 3 ''put'' = Inl ParametersNotAllowed"
    using bad [THEN conjunct1] nb by blast
  have b2: "BM_Amer 100 100 0 (1/2) 2 1 3 ''put'' True = Inl ParametersNotAllowed"
    using bad [THEN conjunct2, THEN conjunct1] nb by blast
  have g1: "BM_Euro 100 100 0 2 (1/2) 1 3 ''put'' \<noteq> Inl ParametersNotAllowed"
    using good [THEN conjunct1] gb by blast
  have g2: "BM_Amer 100 100 0 2 (1/2) 1 3 ''put'' True \<noteq> Inl ParametersNotAllowed"
    using good [THEN conjunct2, THEN conjunct1] gb by blast
  from good [THEN conjunct2, THEN conjunct2, rule_format, OF gb] obtain VE VA X
    where E: "BM_Euro 100 100 0 2 (1/2) 1 3 ''put'' = Inr VE"
      and A: "BM_Amer 100 100 0 2 (1/2) 1 3 ''put'' True = Inr (VA, X)"
      and st: "\<And>i j. i < 3 \<Longrightarrow> j \<le> i \<Longrightarrow>
                     BM_node VE 3 i j =
                       exp (- 0 * (1 / real (3::nat))) *
                         ((exp (0 * (1 / real (3::nat))) - 1/2) / (2 - 1/2) * BM_node VE 3 (i + 1) (j + 1)
                          + (1 - (exp (0 * (1 / real (3::nat))) - 1/2) / (2 - 1/2)) * BM_node VE 3 (i + 1) j) \<and>
                     BM_node VA 3 i j =
                       max (exp (- 0 * (1 / real (3::nat))) *
                              ((exp (0 * (1 / real (3::nat))) - 1/2) / (2 - 1/2) * BM_node VA 3 (i + 1) (j + 1)
                               + (1 - (exp (0 * (1 / real (3::nat))) - 1/2) / (2 - 1/2)) * BM_node VA 3 (i + 1) j))
                           (intrinsic ''put'' 100 (100 * 2 ^ j * (1/2) ^ (i - j)))"
    by blast
  have i: "(2::nat) < 3" and j: "(1::nat) \<le> 2" by simp_all
  from st [OF i j] have g3: "BM_node (projr (BM_Euro 100 100 0 2 (1/2) 1 3 ''put'')) 3 2 1 =
     exp (- 0 * (1 / real (3::nat))) *
       ((exp (0 * (1 / real (3::nat))) - 1/2) / (2 - 1/2)
          * BM_node (projr (BM_Euro 100 100 0 2 (1/2) 1 3 ''put'')) 3 (2 + 1) (1 + 1)
        + (1 - (exp (0 * (1 / real (3::nat))) - 1/2) / (2 - 1/2))
          * BM_node (projr (BM_Euro 100 100 0 2 (1/2) 1 3 ''put'')) 3 (2 + 1) 1)"
    and g4: "BM_node (fst (projr (BM_Amer 100 100 0 2 (1/2) 1 3 ''put'' True))) 3 2 1 =
     max (exp (- 0 * (1 / real (3::nat))) *
            ((exp (0 * (1 / real (3::nat))) - 1/2) / (2 - 1/2)
               * BM_node (fst (projr (BM_Amer 100 100 0 2 (1/2) 1 3 ''put'' True))) 3 (2 + 1) (1 + 1)
             + (1 - (exp (0 * (1 / real (3::nat))) - 1/2) / (2 - 1/2))
               * BM_node (fst (projr (BM_Amer 100 100 0 2 (1/2) 1 3 ''put'' True))) 3 (2 + 1) 1))
         (intrinsic ''put'' 100 (100 * 2 ^ 1 * (1/2) ^ (2 - 1)))"
    unfolding E A sum.sel fst_conv by blast+
  from z b1 b2 g1 g2 g3 g4 show ?thesis by blast
qed

theorem BM_bracket_counterexample:
  "\<not> ((0::real) < 2 \<and> 2 < exp (6/100 * (1 / real (0::nat))) \<and> exp (6/100 * (1 / real (0::nat))) < 1/2) \<and>
   BM_Euro 100 100 (6/100) (1/2) 2 1 0 ''call'' \<noteq> Inl ParametersNotAllowed \<and>
   BM_Euro 100 100 (6/100) (1/2) 2 1 0 ''call'' = Inl ZeroDivisionError \<and>
   BM_Amer 100 100 (6/100) (1/2) 2 1 0 ''call'' False = Inl ZeroDivisionError"
  by (simp add: BM_Euro_def BM_Amer_def)

text \<open>
  Claim C6, as the code has it. With \<open>Ntree = 0\<close> every lattice pricer stops at its
  first line, \<open>dt = T/Ntree\<close>, with \<open>ZeroDivisionError\<close>: nothing is returned, and the
  exception is raised in the state in which the call began, before any local variable
  is assigned, so that no lattice is built.
\<close>

theorem zero_steps_raise:
  "BM_Euro S0 K r u d T 0 optype = Inl ZeroDivisionError \<and>
   BM_Amer S0 K r u d T 0 optype exmat = Inl ZeroDivisionError \<and>
   aTM_Euro S0 K r sigma divy T 0 optype = Inl ZeroDivisionError \<and>
   aTM_Amer S0 K r sigma divy T 0 optype exmat = Inl ZeroDivisionError \<and>
   exec (BM_Euro_body S0 K r u d T 0 optype) (init g) = Inl (ZeroDivisionError, init g) \<and>
   exec (BM_Amer_body S0 K r u d T 0 optype exmat) (init g) = Inl (ZeroDivisionError, init g) \<and>
   exec (aTM_Euro_body S0 K r sigma divy T 0 optype) (init g) = Inl (ZeroDivisionError, init g) \<and>
   exec (aTM_Amer_body S0 K r sigma divy T 0 optype exmat) (init g)
     = Inl (ZeroDivisionError, init g)"
  by (simp add: BM_Euro_def BM_Amer_def aTM_Euro_def aTM_Amer_def
      BM_Euro_body_def BM_Amer_body_def aTM_Euro_body_def aTM_Amer_body_def BM_head_def aTM_head_def
      true_div_def)

theorem zero_steps_counterexample:
  "BM_Euro 100 100 (6/100) (11/10) (9091/10000) 1 0 ''call'' = Inl ZeroDivisionError \<and>
   aTM_Euro 100 100 (6/100) (2/10) (3/100) 1 0 ''call'' = Inl ZeroDivisionError"
  by (simp add: BM_Euro_def aTM_Euro_def)

subsection \<open>The exercise matrix does not change the lattice\<close>

lemma aTM_Amer_loop_ex_fst:
  "fst (aTM_Amer_loop_ex P N Pmat n (V0, E0)) = aTM_Amer_loop P N Pmat n V0"
  by (induction n) (simp_all add: Let_def case_prod_unfold)

lemma BM_Amer_exmat_irrelevant:
  "map_sum id fst (BM_Amer S0 K r u d T N optype True)
     = map_sum id fst (BM_Amer S0 K r u d T N optype False)"
  by (simp add: BM_Amer_def Let_def case_prod_unfold BM_Amer_loop_ex_fst
      del: BM_Amer_loop.simps BM_Amer_loop_ex.simps split: sum.splits)

lemma aTM_Amer_exmat_irrelevant:
  "map_sum id fst (aTM_Amer S0 K r sigma divy T N optype True)
     = map_sum id fst (aTM_Amer S0 K r sigma divy T N optype False)"
  by (simp add: aTM_Amer_def Let_def case_prod_unfold aTM_Amer_loop_ex_fst
      del: aTM_Amer_loop.simps aTM_Amer_loop_ex.simps split: sum.splits)

text \<open>
  Claim C9. \<open>BM_Amer\<close> returns the same value lattice, or raises the same exception,
  with \<open>exmat = True\<close> as with \<open>exmat = False\<close>, and so does \<open>aTM_Amer\<close>: the loop
  that also records the exercise matrix updates \<open>Vmat\<close> exactly as the other one.
\<close>

theorem Amer_lattice_independent_of_exmat:
  "map_sum id fst (BM_Amer S0 K r u d T N optype True)
     = map_sum id fst (BM_Amer S0 K r u d T N optype False) \<and>
   map_sum id fst (aTM_Amer S0 K r sigma divy T N optype True)
     = map_sum id fst (aTM_Amer S0 K r sigma divy T N optype False)"
  using BM_Amer_exmat_irrelevant aTM_Amer_exmat_irrelevant by blast

subsection \<open>The exercise matrix of the binomial model\<close>

lemma shape_BM_Amer_loop:
  "shape (Suc N) (Suc N) V0 \<Longrightarrow> shape (Suc N) (Suc N) (BM_Amer_loop dfact p N Pmat n V0)"
  by (induction n) (simp_all add: Let_def shape_set_col_from)

lemma BM_Amer_loop_ex_flags:
  assumes P: "shape (Suc N) (Suc N) Pmat" and V0: "shape (Suc N) (Suc N) V0"
    and E0: "shape (Suc N) (Suc N) E0" and n: "n \<le> N"
  shows "shape (Suc N) (Suc N) (snd (BM_Amer_loop_ex dfact p N Pmat n (V0, E0))) \<and>
         (\<forall>r\<le>N. \<forall>c\<le>N. snd (BM_Amer_loop_ex dfact p N Pmat n (V0, E0)) ! r ! c =
            (if N - n \<le> c \<and> c < N \<and> N \<le> r + c
             then (if dfact * (p * BM_Amer_loop dfact p N Pmat n V0 ! (r - 1) ! Suc c
                               + (1 - p) * BM_Amer_loop dfact p N Pmat n V0 ! r ! Suc c)
                      - Pmat ! r ! c < 0 then 1 else 0)
             else E0 ! r ! c))"
  using n
proof (induction n)
  case 0
  then show ?case using E0 by simp
next
  case (Suc m)
  define V where "V = BM_Amer_loop dfact p N Pmat m V0"
  define E where "E = snd (BM_Amer_loop_ex dfact p N Pmat m (V0, E0))"
  define t where "t = N - 1 - m"
  define W where "W = BM_Amer_loop dfact p N Pmat (Suc m) V0"
  define vec :: "real list" where "vec = map (\<lambda>x. if x < 0 then 1 else 0)
                   (map2 (\<lambda>c q. c - q) (BM_cont dfact p N W m t) (col_from Pmat (m + 1) t))"
  define F where "F = set_col_from E (m + 1) t vec"
  from Suc have m: "m < N" and shE: "shape (Suc N) (Suc N) E"
    and IH: "\<And>r c. r \<le> N \<Longrightarrow> c \<le> N \<Longrightarrow> E ! r ! c =
            (if N - m \<le> c \<and> c < N \<and> N \<le> r + c
             then (if dfact * (p * V ! (r - 1) ! Suc c + (1 - p) * V ! r ! Suc c) - Pmat ! r ! c < 0
                   then 1 else 0)
             else E0 ! r ! c)"
    unfolding V_def E_def by simp_all
  have t: "t < N" "Suc t = N - m" "N - Suc m = t" using m by (simp_all add: t_def)
  have shV: "shape (Suc N) (Suc N) V" unfolding V_def by (rule shape_BM_Amer_loop [OF V0])
  have shW: "shape (Suc N) (Suc N) W" unfolding W_def by (rule shape_BM_Amer_loop [OF V0])
  have W: "W = set_col_from V (m + 1) t
                 (map2 max (BM_cont dfact p N V m t) (col_from Pmat (m + 1) t))"
    by (simp add: W_def V_def t_def Let_def)
  have F: "snd (BM_Amer_loop_ex dfact p N Pmat (Suc m) (V0, E0)) = F"
    using BM_Amer_loop_ex_fst [of dfact p N Pmat m V0 E0]
    by (simp add: F_def vec_def E_def W Let_def case_prod_unfold V_def t_def)
  have shF: "shape (Suc N) (Suc N) F"
    unfolding F_def by (rule shape_set_col_from [OF shE])
  have keep: "W ! r ! Suc c = V ! r ! Suc c" if "r \<le> N" "t \<le> c" "c < N" for r c
    using that nth_set_col_from [OF shV, of r "Suc c" "m + 1" t] unfolding W by simp
  have entry: "F ! r ! c = (if c = t \<and> m + 1 \<le> r then vec ! (r - (m + 1)) else E ! r ! c)"
    if "r \<le> N" "c \<le> N" for r c
    using that nth_set_col_from [OF shE, of r c "m + 1" t vec] unfolding F_def by simp
  have vec: "vec ! (r - (m + 1)) =
      (if dfact * (p * W ! (r - 1) ! Suc t + (1 - p) * W ! r ! Suc t) - Pmat ! r ! t < 0
       then 1 else 0)"
    if "r \<le> N" "m + 1 \<le> r" for r
  proof -
    have k: "r - (m + 1) < N - m" using that m by simp
    have e1: "m + (r - (m + 1)) = r - 1" and e2: "Suc (r - 1) = r" using that by simp_all
    have "BM_cont dfact p N W m t ! (r - (m + 1)) =
            dfact * (p * W ! (r - 1) ! Suc t + (1 - p) * W ! r ! Suc t)"
      using nth_BM_cont [OF shW k, of dfact p t] unfolding e1 e2 .
    moreover have "col_from Pmat (m + 1) t ! (r - (m + 1)) = Pmat ! r ! t"
      using nth_col_from [OF P, of "r - (m + 1)" "m + 1" t] k that by simp
    ultimately show ?thesis
      using k by (simp add: vec_def length_BM_cont [OF shW] length_col_from [OF P])
  qed
  have "F ! r ! c =
          (if N - Suc m \<le> c \<and> c < N \<and> N \<le> r + c
           then (if dfact * (p * W ! (r - 1) ! Suc c + (1 - p) * W ! r ! Suc c) - Pmat ! r ! c < 0
                 then 1 else 0)
           else E0 ! r ! c)"
    if rc: "r \<le> N" "c \<le> N" for r c
  proof -
    consider (new) "c = t" "m + 1 \<le> r" | (above) "c = t" "r < m + 1"
      | (old) "N - m \<le> c \<and> c < N \<and> N \<le> r + c" | (rest) "c \<noteq> t" "\<not> (N - m \<le> c \<and> c < N \<and> N \<le> r + c)"
      using t by fastforce
    then show ?thesis
    proof cases
      case new
      then have cond: "N - Suc m \<le> c \<and> c < N \<and> N \<le> r + c" using t m by auto
      have "F ! r ! c = vec ! (r - (m + 1))" using entry [OF rc] new by simp
      also have "\<dots> = (if dfact * (p * W ! (r - 1) ! Suc c + (1 - p) * W ! r ! Suc c) - Pmat ! r ! c < 0
                 then 1 else 0)"
        using vec [OF rc(1) new(2)] new(1) by simp
      finally show ?thesis using cond by auto
    next
      case above
      then have cond: "\<not> (N - Suc m \<le> c \<and> c < N \<and> N \<le> r + c)"
        and cond': "\<not> (N - m \<le> c \<and> c < N \<and> N \<le> r + c)" using t m by auto
      have "F ! r ! c = E ! r ! c" using entry [OF rc] above by simp
      also have "\<dots> = E0 ! r ! c" using IH [OF rc] cond' by simp
      finally show ?thesis using cond by auto
    next
      case old
      then have cond: "N - Suc m \<le> c \<and> c < N \<and> N \<le> r + c" and ct: "c \<noteq> t" "t \<le> c" "c < N"
        using t m by auto
      have r1: "r - 1 \<le> N" using rc by simp
      have "F ! r ! c = E ! r ! c" using entry [OF rc] ct by simp
      also have "\<dots> = (if dfact * (p * V ! (r - 1) ! Suc c + (1 - p) * V ! r ! Suc c) - Pmat ! r ! c < 0
                 then 1 else 0)"
        using IH [OF rc] old by simp
      also have "\<dots> = (if dfact * (p * W ! (r - 1) ! Suc c + (1 - p) * W ! r ! Suc c) - Pmat ! r ! c < 0
                 then 1 else 0)"
        unfolding keep [OF r1 ct(2,3)] keep [OF rc(1) ct(2,3)] ..
      finally show ?thesis using cond by auto
    next
      case rest
      then have cond: "\<not> (N - Suc m \<le> c \<and> c < N \<and> N \<le> r + c)" using t m by auto
      have "F ! r ! c = E ! r ! c" using entry [OF rc] rest by simp
      also have "\<dots> = E0 ! r ! c" using IH [OF rc] rest by simp
      finally show ?thesis using cond by auto
    qed
  qed
  then show ?case using shF unfolding F W_def by blast
qed

subsection \<open>The payoff matrix of the trinomial model\<close>

lemma length_aTM_prices: "length (aTM_prices S0 dx t) = 2 * t + 1"
  by (simp add: aTM_prices_def)

lemma nth_aTM_prices:
  assumes "k \<le> 2 * t"
  shows "aTM_prices S0 dx t ! k = S0 * exp (dx * real_of_int (int t - int k))"
proof -
  have len: "length [- int t..int t] = 2 * t + 1" by simp
  have "rev [- int t..int t] ! k = [- int t..int t] ! (2 * t - k)"
    using assms by (simp add: rev_nth)
  also have "\<dots> = - int t + int (2 * t - k)"
    using assms by (intro nth_upto) simp
  also have "\<dots> = int t - int k" using assms by simp
  finally show ?thesis using assms by (simp add: aTM_prices_def)
qed

lemma aTM_price_loop_inv:
  assumes "shape (Suc (2 * N)) (Suc N) P0" and "shape (Suc (2 * N)) (Suc N) K0" and "n \<le> Suc N"
  shows "shape (Suc (2 * N)) (Suc N) (fst (aTM_price_loop S0 K dx N n (P0, K0))) \<and>
         shape (Suc (2 * N)) (Suc N) (snd (aTM_price_loop S0 K dx N n (P0, K0))) \<and>
         (\<forall>r\<le>2 * N. \<forall>c\<le>N.
            fst (aTM_price_loop S0 K dx N n (P0, K0)) ! r ! c =
              (if c < n \<and> N - c \<le> r \<and> r \<le> N + c
               then S0 * exp (dx * real_of_int (int N - int r)) else P0 ! r ! c) \<and>
            snd (aTM_price_loop S0 K dx N n (P0, K0)) ! r ! c =
              (if c < n \<and> N - c \<le> r \<and> r \<le> N + c then K else K0 ! r ! c))"
  using assms(3)
proof (induction n)
  case 0
  then show ?case using assms(1,2) by simp
next
  case (Suc t)
  define P where "P = fst (aTM_price_loop S0 K dx N t (P0, K0))"
  define Km where "Km = snd (aTM_price_loop S0 K dx N t (P0, K0))"
  define P' where "P' = set_col_slice P (N - t) (N + (t + 1)) t (aTM_prices S0 dx t)"
  define Km' where "Km' = set_col_slice Km (N - t) (N + (t + 1)) t
                            (replicate (N + (t + 1) - (N - t)) K)"
  from Suc have t: "t \<le> N" and shP: "shape (Suc (2 * N)) (Suc N) P"
    and shK: "shape (Suc (2 * N)) (Suc N) Km"
    and IHP: "\<And>r c. r \<le> 2 * N \<Longrightarrow> c \<le> N \<Longrightarrow> P ! r ! c =
              (if c < t \<and> N - c \<le> r \<and> r \<le> N + c
               then S0 * exp (dx * real_of_int (int N - int r)) else P0 ! r ! c)"
    and IHK: "\<And>r c. r \<le> 2 * N \<Longrightarrow> c \<le> N \<Longrightarrow> Km ! r ! c =
              (if c < t \<and> N - c \<le> r \<and> r \<le> N + c then K else K0 ! r ! c)"
    unfolding P_def Km_def by simp_all
  have nxt: "aTM_price_loop S0 K dx N (Suc t) (P0, K0) = (P', Km')"
    by (simp add: P'_def Km'_def P_def Km_def Let_def case_prod_unfold)
  have shP': "shape (Suc (2 * N)) (Suc N) P'" unfolding P'_def by (rule shape_set_col_slice [OF shP])
  have shK': "shape (Suc (2 * N)) (Suc N) Km'" unfolding Km'_def by (rule shape_set_col_slice [OF shK])
  have eP: "P' ! r ! c = (if c < Suc t \<and> N - c \<le> r \<and> r \<le> N + c
               then S0 * exp (dx * real_of_int (int N - int r)) else P0 ! r ! c)"
    and eK: "Km' ! r ! c = (if c < Suc t \<and> N - c \<le> r \<and> r \<le> N + c then K else K0 ! r ! c)"
    if rc: "r \<le> 2 * N" "c \<le> N" for r c
  proof -
    have sP: "P' ! r ! c = (if c = t \<and> N - t \<le> r \<and> r < N + (t + 1)
                then aTM_prices S0 dx t ! (r - (N - t)) else P ! r ! c)"
      unfolding P'_def using rc nth_set_col_slice [OF shP, of r c] by simp
    have sK: "Km' ! r ! c = (if c = t \<and> N - t \<le> r \<and> r < N + (t + 1)
                then replicate (N + (t + 1) - (N - t)) K ! (r - (N - t)) else Km ! r ! c)"
      unfolding Km'_def using rc nth_set_col_slice [OF shK, of r c] by simp
    show "P' ! r ! c = (if c < Suc t \<and> N - c \<le> r \<and> r \<le> N + c
               then S0 * exp (dx * real_of_int (int N - int r)) else P0 ! r ! c)"
    proof (cases "c = t \<and> N - t \<le> r \<and> r < N + (t + 1)")
      case True
      then have k: "r - (N - t) \<le> 2 * t" and e: "int t - int (r - (N - t)) = int N - int r"
        and cond: "c < Suc t \<and> N - c \<le> r \<and> r \<le> N + c"
        using t by auto
      show ?thesis
        unfolding sP if_P [OF True] if_P [OF cond] nth_aTM_prices [OF k] e ..
    next
      case False
      show ?thesis
        unfolding sP if_not_P [OF False] IHP [OF rc] using False by auto
    qed
    show "Km' ! r ! c = (if c < Suc t \<and> N - c \<le> r \<and> r \<le> N + c then K else K0 ! r ! c)"
    proof (cases "c = t \<and> N - t \<le> r \<and> r < N + (t + 1)")
      case True
      then have k: "r - (N - t) < N + (t + 1) - (N - t)"
        and cond: "c < Suc t \<and> N - c \<le> r \<and> r \<le> N + c"
        using t by auto
      show ?thesis
        unfolding sK if_P [OF True] if_P [OF cond] nth_replicate [OF k] ..
    next
      case False
      show ?thesis
        unfolding sK if_not_P [OF False] IHK [OF rc] using False by auto
    qed
  qed
  show ?case
    unfolding nxt fst_conv snd_conv using shP' shK' eP eK by blast
qed

lemma aTM_Pmat_shape_entry:
  shows shape_aTM_Pmat: "shape (Suc (2 * N)) (Suc N) (aTM_Pmat S0 K dx N)"
    and nth_aTM_Pmat: "r \<le> 2 * N \<Longrightarrow> c \<le> N \<Longrightarrow> aTM_Pmat S0 K dx N ! r ! c =
           (if N - c \<le> r \<and> r \<le> N + c
            then S0 * exp (dx * real_of_int (int N - int r)) - K else 0)"
proof -
  define PK where "PK = aTM_price_loop S0 K dx N (Suc N)
                          (zeros (Suc (2 * N)) (Suc N), zeros (Suc (2 * N)) (Suc N))"
  note inv = aTM_price_loop_inv [OF shape_zeros shape_zeros le_refl, of N S0 K dx, folded PK_def]
  have shP: "shape (Suc (2 * N)) (Suc N) (fst PK)" and shK: "shape (Suc (2 * N)) (Suc N) (snd PK)"
    using inv by blast+
  have eq: "aTM_Pmat S0 K dx N = msub (fst PK) (snd PK)"
    by (simp add: aTM_Pmat_def PK_def Let_def case_prod_unfold del: aTM_price_loop.simps)
  show "shape (Suc (2 * N)) (Suc N) (aTM_Pmat S0 K dx N)"
    unfolding eq by (rule shape_msub [OF shP shK])
  assume rc: "r \<le> 2 * N" "c \<le> N"
  have "fst PK ! r ! c = (if N - c \<le> r \<and> r \<le> N + c
               then S0 * exp (dx * real_of_int (int N - int r)) else 0)"
    and "snd PK ! r ! c = (if N - c \<le> r \<and> r \<le> N + c then K else 0)"
    using inv rc by (simp_all add: nth_zeros)
  then show "aTM_Pmat S0 K dx N ! r ! c =
           (if N - c \<le> r \<and> r \<le> N + c
            then S0 * exp (dx * real_of_int (int N - int r)) - K else 0)"
    unfolding eq using rc nth_msub [OF shP shK, of r c] by simp
qed

subsection \<open>The exercise matrix of the trinomial model\<close>

lemma length_aTM_cont:
  "m < N \<Longrightarrow> length (aTM_cont P N V m t) = 2 * N - (m + 1) - m"
  by (simp add: aTM_cont_def length_col_slice)

lemma nth_aTM_cont:
  assumes "m < N" and "k < 2 * N - (m + 1) - m"
  shows "aTM_cont P N V m t ! k =
           tp_dfact P * (tp_pu P * V ! (m + k) ! Suc t + tp_pm P * V ! Suc (m + k) ! Suc t
                         + tp_pd P * V ! Suc (Suc (m + k)) ! Suc t)"
  using assms by (simp add: aTM_cont_def length_col_slice nth_col_slice)

lemma shape_aTM_Amer_loop:
  "shape nr nc V0 \<Longrightarrow> shape nr nc (aTM_Amer_loop P N Pmat n V0)"
  by (induction n) (simp_all add: Let_def shape_set_col_slice)

lemma aTM_Amer_loop_ex_flags:
  assumes V0: "shape (Suc (2 * N)) (Suc N) V0"
    and E0: "shape (Suc (2 * N)) (Suc N) E0" and n: "n \<le> N"
  shows "shape (Suc (2 * N)) (Suc N) (snd (aTM_Amer_loop_ex P N Pmat n (V0, E0))) \<and>
         (\<forall>r\<le>2 * N. \<forall>c\<le>N. snd (aTM_Amer_loop_ex P N Pmat n (V0, E0)) ! r ! c =
            (if N - n \<le> c \<and> c < N \<and> N - c \<le> r \<and> r \<le> N + c
             then (if tp_dfact P *
                       (tp_pu P * aTM_Amer_loop P N Pmat n V0 ! (r - 1) ! Suc c
                        + tp_pm P * aTM_Amer_loop P N Pmat n V0 ! r ! Suc c
                        + tp_pd P * aTM_Amer_loop P N Pmat n V0 ! Suc r ! Suc c)
                      - Pmat ! r ! c < 0 then 1 else 0)
             else E0 ! r ! c))"
  using n
proof (induction n)
  case 0
  then show ?case using E0 by simp
next
  case (Suc m)
  define V where "V = aTM_Amer_loop P N Pmat m V0"
  define E where "E = snd (aTM_Amer_loop_ex P N Pmat m (V0, E0))"
  define t where "t = N - 1 - m"
  define W where "W = aTM_Amer_loop P N Pmat (Suc m) V0"
  define vec :: "real list" where "vec = map (\<lambda>x. if x < 0 then 1 else 0)
                   (map2 (\<lambda>c q. c - q) (aTM_cont P N W m t) (col_slice Pmat (N - t) (N + (t + 1)) t))"
  define F where "F = set_col_slice E (N - t) (N + (t + 1)) t vec"
  from Suc have m: "m < N" and shE: "shape (Suc (2 * N)) (Suc N) E"
    and IH: "\<And>r c. r \<le> 2 * N \<Longrightarrow> c \<le> N \<Longrightarrow> E ! r ! c =
            (if N - m \<le> c \<and> c < N \<and> N - c \<le> r \<and> r \<le> N + c
             then (if tp_dfact P * (tp_pu P * V ! (r - 1) ! Suc c + tp_pm P * V ! r ! Suc c
                                    + tp_pd P * V ! Suc r ! Suc c) - Pmat ! r ! c < 0
                   then 1 else 0)
             else E0 ! r ! c)"
    unfolding V_def E_def by simp_all
  have t: "t < N" "Suc t = N - m" "N - Suc m = t" "N - t = m + 1" "N + (t + 1) = 2 * N - m"
    using m by (simp_all add: t_def)
  have shV: "shape (Suc (2 * N)) (Suc N) V" unfolding V_def by (rule shape_aTM_Amer_loop [OF V0])
  have W: "W = set_col_slice V (N - t) (N + (t + 1)) t
                 (map2 max (aTM_cont P N V m t) (col_slice Pmat (N - t) (N + (t + 1)) t))"
    by (simp add: W_def V_def t_def Let_def)
  have F: "snd (aTM_Amer_loop_ex P N Pmat (Suc m) (V0, E0)) = F"
    using aTM_Amer_loop_ex_fst [of P N Pmat m V0 E0]
    by (simp add: F_def vec_def E_def W Let_def case_prod_unfold V_def t_def)
  have shF: "shape (Suc (2 * N)) (Suc N) F"
    unfolding F_def by (rule shape_set_col_slice [OF shE])
  have keep: "W ! r ! Suc c = V ! r ! Suc c" if "r \<le> 2 * N" "t \<le> c" "c < N" for r c
    using that nth_set_col_slice [OF shV, of r "Suc c" "N - t" "N + (t + 1)" t] unfolding W by simp
  have entry: "F ! r ! c = (if c = t \<and> m + 1 \<le> r \<and> r < 2 * N - m then vec ! (r - (m + 1)) else E ! r ! c)"
    if "r \<le> 2 * N" "c \<le> N" for r c
    using that nth_set_col_slice [OF shE, of r c "N - t" "N + (t + 1)" t vec]
    unfolding F_def t(4,5) by simp
  have vec: "vec ! (r - (m + 1)) =
      (if tp_dfact P * (tp_pu P * W ! (r - 1) ! Suc t + tp_pm P * W ! r ! Suc t
                        + tp_pd P * W ! Suc r ! Suc t) - Pmat ! r ! t < 0
       then 1 else 0)"
    if "m + 1 \<le> r" "r < 2 * N - m" for r
  proof -
    have k: "r - (m + 1) < 2 * N - (m + 1) - m" and k': "r - (m + 1) < 2 * N - m - (m + 1)"
      using that m by simp_all
    have e1: "m + (r - (m + 1)) = r - 1" and e2: "Suc (r - 1) = r"
      and e3: "m + 1 + (r - (m + 1)) = r" using that by simp_all
    have "aTM_cont P N W m t ! (r - (m + 1)) =
            tp_dfact P * (tp_pu P * W ! (r - 1) ! Suc t + tp_pm P * W ! r ! Suc t
                          + tp_pd P * W ! Suc r ! Suc t)"
      using nth_aTM_cont [OF m k, of P W t] unfolding e1 e2 .
    moreover have "col_slice Pmat (N - t) (N + (t + 1)) t ! (r - (m + 1)) = Pmat ! r ! t"
      unfolding t(4,5) using nth_col_slice [OF k', of Pmat t] unfolding e3 .
    ultimately show ?thesis
      using k k' unfolding vec_def t(4,5)
      by (simp add: length_aTM_cont [OF m] length_col_slice)
  qed
  have "F ! r ! c =
          (if N - Suc m \<le> c \<and> c < N \<and> N - c \<le> r \<and> r \<le> N + c
           then (if tp_dfact P * (tp_pu P * W ! (r - 1) ! Suc c + tp_pm P * W ! r ! Suc c
                                  + tp_pd P * W ! Suc r ! Suc c) - Pmat ! r ! c < 0
                 then 1 else 0)
           else E0 ! r ! c)"
    if rc: "r \<le> 2 * N" "c \<le> N" for r c
  proof -
    consider (new) "c = t" "m + 1 \<le> r" "r < 2 * N - m" | (outside) "c = t" "\<not> (m + 1 \<le> r \<and> r < 2 * N - m)"
      | (old) "N - m \<le> c \<and> c < N \<and> N - c \<le> r \<and> r \<le> N + c"
      | (rest) "c \<noteq> t" "\<not> (N - m \<le> c \<and> c < N \<and> N - c \<le> r \<and> r \<le> N + c)"
      using t by fastforce
    then show ?thesis
    proof cases
      case new
      then have cond: "N - Suc m \<le> c \<and> c < N \<and> N - c \<le> r \<and> r \<le> N + c" using t m by auto
      have "F ! r ! c = vec ! (r - (m + 1))" using entry [OF rc] new by simp
      also have "\<dots> = (if tp_dfact P * (tp_pu P * W ! (r - 1) ! Suc c + tp_pm P * W ! r ! Suc c
                                  + tp_pd P * W ! Suc r ! Suc c) - Pmat ! r ! c < 0
                 then 1 else 0)"
        using vec [OF new(2,3)] new(1) by simp
      finally show ?thesis using cond by auto
    next
      case outside
      then have cond: "\<not> (N - Suc m \<le> c \<and> c < N \<and> N - c \<le> r \<and> r \<le> N + c)"
        and cond': "\<not> (N - m \<le> c \<and> c < N \<and> N - c \<le> r \<and> r \<le> N + c)" using t m by auto
      have "F ! r ! c = E ! r ! c" using entry [OF rc] outside by auto
      also have "\<dots> = E0 ! r ! c" using IH [OF rc] cond' by simp
      finally show ?thesis using cond by auto
    next
      case old
      then have cond: "N - Suc m \<le> c \<and> c < N \<and> N - c \<le> r \<and> r \<le> N + c"
        and ct: "c \<noteq> t" "t \<le> c" "c < N"
        using t m by auto
      have r1: "r - 1 \<le> 2 * N" and r2: "Suc r \<le> 2 * N" using rc old by auto
      have "F ! r ! c = E ! r ! c" using entry [OF rc] ct by simp
      also have "\<dots> = (if tp_dfact P * (tp_pu P * V ! (r - 1) ! Suc c + tp_pm P * V ! r ! Suc c
                                  + tp_pd P * V ! Suc r ! Suc c) - Pmat ! r ! c < 0
                 then 1 else 0)"
        using IH [OF rc] old by simp
      also have "\<dots> = (if tp_dfact P * (tp_pu P * W ! (r - 1) ! Suc c + tp_pm P * W ! r ! Suc c
                                  + tp_pd P * W ! Suc r ! Suc c) - Pmat ! r ! c < 0
                 then 1 else 0)"
        unfolding keep [OF r1 ct(2,3)] keep [OF rc(1) ct(2,3)] keep [OF r2 ct(2,3)] ..
      finally show ?thesis using cond by auto
    next
      case rest
      then have cond: "\<not> (N - Suc m \<le> c \<and> c < N \<and> N - c \<le> r \<and> r \<le> N + c)" using t m by auto
      have "F ! r ! c = E ! r ! c" using entry [OF rc] rest by simp
      also have "\<dots> = E0 ! r ! c" using IH [OF rc] rest by simp
      finally show ?thesis using cond by auto
    qed
  qed
  then show ?case using shF unfolding F W_def by blast
qed

subsection \<open>Exercise flags\<close>

lemma aTM_payoff_entry:
  assumes "optype_branch optype = Inr f" and "r \<le> 2 * N" and "c \<le> N"
  shows "map (map f) (aTM_Pmat S0 K dx N) ! r ! c =
           (if N - c \<le> r \<and> r \<le> N + c
            then intrinsic optype K (S0 * exp (dx * real_of_int (int N - int r))) else 0)"
proof -
  have "map (map f) (aTM_Pmat S0 K dx N) ! r ! c = f (aTM_Pmat S0 K dx N ! r ! c)"
    using assms(2,3) nth_map_map [OF shape_aTM_Pmat, of r N c] by simp
  then show ?thesis
    using assms(2,3)
    by (simp add: nth_aTM_Pmat optype_branch_zero [OF assms(1)] optype_branch_intrinsic [OF assms(1)])
qed

lemma aTM_Amer_ok:
  assumes "0 < N" and "0 < r" and "0 < sigma" and "optype_branch optype = Inr f"
  shows "aTM_Amer S0 K r sigma divy T N optype exmat =
            Inr (if exmat then
                   (fst (aTM_Amer_loop_ex (aTM_params r sigma divy (T / real N)) N
                          (map (map f) (aTM_Pmat S0 K (tp_dx (aTM_params r sigma divy (T / real N))) N)) N
                          (set_col_from (zeros (Suc (2 * N)) (Suc N)) 0 N
                             (col_from (map (map f)
                                (aTM_Pmat S0 K (tp_dx (aTM_params r sigma divy (T / real N))) N)) 0 N),
                           zeros (Suc (2 * N)) (Suc N))),
                    Some (snd (aTM_Amer_loop_ex (aTM_params r sigma divy (T / real N)) N
                          (map (map f) (aTM_Pmat S0 K (tp_dx (aTM_params r sigma divy (T / real N))) N)) N
                          (set_col_from (zeros (Suc (2 * N)) (Suc N)) 0 N
                             (col_from (map (map f)
                                (aTM_Pmat S0 K (tp_dx (aTM_params r sigma divy (T / real N))) N)) 0 N),
                           zeros (Suc (2 * N)) (Suc N)))))
                 else
                   (aTM_Amer_loop (aTM_params r sigma divy (T / real N)) N
                      (map (map f) (aTM_Pmat S0 K (tp_dx (aTM_params r sigma divy (T / real N))) N)) N
                      (set_col_from (zeros (Suc (2 * N)) (Suc N)) 0 N
                         (col_from (map (map f)
                            (aTM_Pmat S0 K (tp_dx (aTM_params r sigma divy (T / real N))) N)) 0 N)),
                    None))"
  using assms
  by (simp add: aTM_Amer_def Let_def case_prod_unfold
      del: aTM_Amer_loop.simps aTM_Amer_loop_ex.simps)

lemma aTM_Euro_ok:
  assumes "0 < N" and "0 < r" and "0 < sigma" and "optype_branch optype = Inr f"
  shows "aTM_Euro S0 K r sigma divy T N optype =
            Inr (aTM_Euro_loop (aTM_params r sigma divy (T / real N)) N N
                   (set_col_from (zeros (Suc (2 * N)) (Suc N)) 0 N
                      (col_from (map (map f)
                         (aTM_Pmat S0 K (tp_dx (aTM_params r sigma divy (T / real N))) N)) 0 N)))"
  using assms by (simp add: aTM_Euro_def Let_def del: aTM_Euro_loop.simps)

lemma BM_Amer_flags:
  assumes "0 < N" and "0 < d" and "d < exp (r * (T / real N))" and "exp (r * (T / real N)) < u"
    and valid: "optype = ''call'' \<or> optype = ''put''"
  shows "\<exists>V E. BM_Amer S0 K r u d T N optype True = Inr (V, Some E) \<and>
           (\<forall>i<N. \<forall>j\<le>i. BM_node E N i j =
              (if exp (- r * (T / real N)) *
                    ((exp (r * (T / real N)) - d) / (u - d) * BM_node V N (i + 1) (j + 1)
                     + (1 - (exp (r * (T / real N)) - d) / (u - d)) * BM_node V N (i + 1) j)
                  < intrinsic optype K (S0 * u ^ j * d ^ (i - j))
               then 1 else 0))"
proof -
  from valid obtain f where f: "optype_branch optype = Inr f"
    using optype_branch_valid by blast
  define dfact where "dfact = exp (- r * (T / real N))"
  define p where "p = (exp (r * (T / real N)) - d) / (u - d)"
  define Pmat where "Pmat = map (map f) (BM_Pmat S0 K u d N)"
  define V0 where "V0 = set_col_from (zeros (Suc N) (Suc N)) 0 N (col_from Pmat 0 N)"
  define V where "V = BM_Amer_loop dfact p N Pmat N V0"
  define E where "E = snd (BM_Amer_loop_ex dfact p N Pmat N (V0, zeros (Suc N) (Suc N)))"
  have ret: "BM_Amer S0 K r u d T N optype True = Inr (V, Some E)"
    unfolding BM_Amer_ok [OF assms(1,2,3,4) f] BM_Amer_loop_ex_fst
      V_def E_def V0_def Pmat_def dfact_def p_def
    by simp
  have shP: "shape (Suc N) (Suc N) Pmat"
    unfolding Pmat_def by (rule shape_map_map [OF shape_BM_Pmat])
  have shV0: "shape (Suc N) (Suc N) V0"
    unfolding V0_def by (rule terminal_column(1) [OF shP])
  note flags = BM_Amer_loop_ex_flags [OF shP shV0 shape_zeros le_refl, of dfact p,
      folded V_def E_def, THEN conjunct2, rule_format]
  have "BM_node E N i j =
          (if dfact * (p * BM_node V N (i + 1) (j + 1) + (1 - p) * BM_node V N (i + 1) j)
                < intrinsic optype K (S0 * u ^ j * d ^ (i - j))
           then 1 else 0)"
    if ij: "i < N" "j \<le> i" for i j
  proof -
    have le: "N - j \<le> N" "i \<le> N" and cond: "N - N \<le> i \<and> i < N \<and> N \<le> N - j + i"
      and cond': "N \<le> N - j + i"
      and e: "N - j - 1 = N - (j + 1)" "N - (N - j) = j" "N - j + i - N = i - j"
      using ij by simp_all
    have P: "Pmat ! (N - j) ! i = intrinsic optype K (S0 * u ^ j * d ^ (i - j))"
      unfolding Pmat_def BM_payoff_entry [OF f le] if_P [OF cond'] e ..
    show ?thesis
      unfolding BM_node_def using flags [OF le, unfolded if_P [OF cond] P] e(1) by simp
  qed
  then show ?thesis using ret unfolding dfact_def p_def by blast
qed

lemma aTM_Amer_flags:
  assumes "0 < N" and "0 < r" and "0 < sigma"
    and valid: "optype = ''call'' \<or> optype = ''put''"
  shows "\<exists>V E. aTM_Amer S0 K r sigma divy T N optype True = Inr (V, Some E) \<and>
           (\<forall>i<N. \<forall>j. - int i \<le> j \<and> j \<le> int i \<longrightarrow> aTM_node E N i j =
              (if tp_dfact (aTM_params r sigma divy (T / real N)) *
                    (tp_pu (aTM_params r sigma divy (T / real N)) * aTM_node V N (i + 1) (j + 1)
                     + tp_pm (aTM_params r sigma divy (T / real N)) * aTM_node V N (i + 1) j
                     + tp_pd (aTM_params r sigma divy (T / real N)) * aTM_node V N (i + 1) (j - 1))
                  < intrinsic optype K
                      (S0 * exp (tp_dx (aTM_params r sigma divy (T / real N)) * real_of_int j))
               then 1 else 0))"
proof -
  from valid obtain f where f: "optype_branch optype = Inr f"
    using optype_branch_valid by blast
  define P where "P = aTM_params r sigma divy (T / real N)"
  define Pmat where "Pmat = map (map f) (aTM_Pmat S0 K (tp_dx P) N)"
  define V0 where "V0 = set_col_from (zeros (Suc (2 * N)) (Suc N)) 0 N (col_from Pmat 0 N)"
  define V where "V = aTM_Amer_loop P N Pmat N V0"
  define E where "E = snd (aTM_Amer_loop_ex P N Pmat N (V0, zeros (Suc (2 * N)) (Suc N)))"
  have ret: "aTM_Amer S0 K r sigma divy T N optype True = Inr (V, Some E)"
    unfolding aTM_Amer_ok [OF assms(1,2,3) f] aTM_Amer_loop_ex_fst
      V_def E_def V0_def Pmat_def P_def
    by simp
  have shP: "shape (Suc (2 * N)) (Suc N) Pmat"
    unfolding Pmat_def by (rule shape_map_map [OF shape_aTM_Pmat])
  have shV0: "shape (Suc (2 * N)) (Suc N) V0"
    unfolding V0_def by (rule terminal_column(1) [OF shP])
  note flags = aTM_Amer_loop_ex_flags [OF shV0 shape_zeros le_refl, of P Pmat,
      folded V_def E_def, THEN conjunct2, rule_format]
  have "aTM_node E N i j =
          (if tp_dfact P * (tp_pu P * aTM_node V N (i + 1) (j + 1) + tp_pm P * aTM_node V N (i + 1) j
                            + tp_pd P * aTM_node V N (i + 1) (j - 1))
                < intrinsic optype K (S0 * exp (tp_dx P * real_of_int j))
           then 1 else 0)"
    if ij: "i < N" "- int i \<le> j" "j \<le> int i" for i j
  proof -
    define row where "row = nat (int N - j)"
    have le: "row \<le> 2 * N" "i \<le> N"
      and cond: "N - N \<le> i \<and> i < N \<and> N - i \<le> row \<and> row \<le> N + i"
      and cond': "N - i \<le> row \<and> row \<le> N + i"
      and e: "nat (int N - (j + 1)) = row - 1" "nat (int N - (j - 1)) = Suc row"
        "int N - int row = j"
      using ij unfolding row_def by auto
    have Pe: "Pmat ! row ! i = intrinsic optype K (S0 * exp (tp_dx P * real_of_int j))"
      unfolding Pmat_def aTM_payoff_entry [OF f le] if_P [OF cond'] e ..
    show ?thesis
      unfolding aTM_node_def e row_def [symmetric]
      using flags [OF le, unfolded if_P [OF cond] Pe] by simp
  qed
  then show ?thesis using ret unfolding P_def by blast
qed


text \<open>
  Claim C3. \<open>BM_Amer\<close> and \<open>aTM_Amer\<close> called with \<open>exmat = True\<close>, valid
  parameters and an option kind among call and put, record at every interior node
  (\<open>i < N\<close>) the flag 1 exactly when the discounted expectation of the values of the
  next column of the returned lattice is strictly less than the intrinsic payoff at the
  node, and 0 otherwise. The recorded matrix is the one handed to the plot.
\<close>

theorem exercise_flags_strict:
  assumes "1 \<le> N" and "optype = ''call'' \<or> optype = ''put''"
  shows "(0 < d \<and> d < exp (r * (T / real N)) \<and> exp (r * (T / real N)) < u \<longrightarrow>
            (\<exists>V E. BM_Amer S0 K r u d T N optype True = Inr (V, Some E) \<and>
               (\<forall>i<N. \<forall>j\<le>i. BM_node E N i j =
                  (if exp (- r * (T / real N)) *
                        ((exp (r * (T / real N)) - d) / (u - d) * BM_node V N (i + 1) (j + 1)
                         + (1 - (exp (r * (T / real N)) - d) / (u - d)) * BM_node V N (i + 1) j)
                      < intrinsic optype K (S0 * u ^ j * d ^ (i - j))
                   then 1 else 0)))) \<and>
         (0 < r \<and> 0 < sigma \<and> 0 < T \<longrightarrow>
            (\<exists>V E. aTM_Amer S0 K r sigma divy T N optype True = Inr (V, Some E) \<and>
               (\<forall>i<N. \<forall>j. - int i \<le> j \<and> j \<le> int i \<longrightarrow> aTM_node E N i j =
                  (if tp_dfact (aTM_params r sigma divy (T / real N)) *
                        (tp_pu (aTM_params r sigma divy (T / real N)) * aTM_node V N (i + 1) (j + 1)
                         + tp_pm (aTM_params r sigma divy (T / real N)) * aTM_node V N (i + 1) j
                         + tp_pd (aTM_params r sigma divy (T / real N)) * aTM_node V N (i + 1) (j - 1))
                      < intrinsic optype K
                          (S0 * exp (tp_dx (aTM_params r sigma divy (T / real N)) * real_of_int j))
                   then 1 else 0))))"
proof -
  have N: "0 < N" using assms(1) by simp
  show ?thesis
    using BM_Amer_flags [OF N _ _ _ assms(2), of d r T u S0 K]
      aTM_Amer_flags [OF N _ _ assms(2), of r sigma S0 K divy T]
    by blast
qed

theorem exercise_flags_strict_witness:
  "BM_node (the (snd (projr (BM_Amer 100 100 (6/100) 3 (1/2) 1 3 ''put'' True)))) 3 2 1 =
     (if exp (- (6/100) * (1 / real (3::nat))) *
           ((exp (6/100 * (1 / real (3::nat))) - 1/2) / (3 - 1/2)
              * BM_node (fst (projr (BM_Amer 100 100 (6/100) 3 (1/2) 1 3 ''put'' True))) 3 (2 + 1) (1 + 1)
            + (1 - (exp (6/100 * (1 / real (3::nat))) - 1/2) / (3 - 1/2))
              * BM_node (fst (projr (BM_Amer 100 100 (6/100) 3 (1/2) 1 3 ''put'' True))) 3 (2 + 1) 1)
         < intrinsic ''put'' 100 (100 * 3 ^ 1 * (1/2) ^ (2 - 1))
      then 1 else 0) \<and>
   aTM_node (the (snd (projr (aTM_Amer 100 100 (6/100) (2/10) (3/100) 1 3 ''put'' True)))) 3 2 (- 1) =
     (if tp_dfact (aTM_params (6/100) (2/10) (3/100) (1 / real (3::nat))) *
           (tp_pu (aTM_params (6/100) (2/10) (3/100) (1 / real (3::nat)))
              * aTM_node (fst (projr (aTM_Amer 100 100 (6/100) (2/10) (3/100) 1 3 ''put'' True))) 3 (2 + 1) (- 1 + 1)
            + tp_pm (aTM_params (6/100) (2/10) (3/100) (1 / real (3::nat)))
              * aTM_node (fst (projr (aTM_Amer 100 100 (6/100) (2/10) (3/100) 1 3 ''put'' True))) 3 (2 + 1) (- 1)
            + tp_pd (aTM_params (6/100) (2/10) (3/100) (1 / real (3::nat)))
              * aTM_node (fst (projr (aTM_Amer 100 100 (6/100) (2/10) (3/100) 1 3 ''put'' True))) 3 (2 + 1) (- 1 - 1))
         < intrinsic ''put'' 100
             (100 * exp (tp_dx (aTM_params (6/100) (2/10) (3/100) (1 / real (3::nat))) * real_of_int (- 1)))
      then 1 else 0)"
proof -
  have N: "(1::nat) \<le> 3" and o: "''put'' = ''call'' \<or> ''put'' = ''put''" by simp_all
  note inst = exercise_flags_strict [OF N o, of "1/2" "6/100" 1 3 100 100 "2/10" "3/100"]
  have up: "exp (6/100 * (1 / real (3::nat))) < exp 1" by simp
  have one_lt: "1 < exp (6/100 * (1 / real (3::nat)))" by simp
  have lo: "1/2 < exp (6/100 * (1 / real (3::nat)))" using one_lt by linarith
  have hi: "exp (6/100 * (1 / real (3::nat))) < 3" using up exp_le by linarith
  have b: "(0::real) < 1/2 \<and> 1/2 < exp (6/100 * (1 / real (3::nat)))
      \<and> exp (6/100 * (1 / real (3::nat))) < 3"
  proof (intro conjI)
    show "(0::real) < 1/2" by simp
  qed (rule lo, rule hi)
  have t: "(0::real) < 6/100 \<and> (0::real) < 2/10 \<and> (0::real) < 1" by simp
  from inst [THEN conjunct1, rule_format, OF b] obtain V E
    where "BM_Amer 100 100 (6/100) 3 (1/2) 1 3 ''put'' True = Inr (V, Some E)"
      and "\<And>i j. i < 3 \<Longrightarrow> j \<le> i \<Longrightarrow> BM_node E 3 i j =
                  (if exp (- (6/100) * (1 / real (3::nat))) *
                        ((exp (6/100 * (1 / real (3::nat))) - 1/2) / (3 - 1/2) * BM_node V 3 (i + 1) (j + 1)
                         + (1 - (exp (6/100 * (1 / real (3::nat))) - 1/2) / (3 - 1/2)) * BM_node V 3 (i + 1) j)
                      < intrinsic ''put'' 100 (100 * 3 ^ j * (1/2) ^ (i - j))
                   then 1 else 0)"
    by blast
  then have one: "BM_node (the (snd (projr (BM_Amer 100 100 (6/100) 3 (1/2) 1 3 ''put'' True)))) 3 2 1 =
     (if exp (- (6/100) * (1 / real (3::nat))) *
           ((exp (6/100 * (1 / real (3::nat))) - 1/2) / (3 - 1/2)
              * BM_node (fst (projr (BM_Amer 100 100 (6/100) 3 (1/2) 1 3 ''put'' True))) 3 (2 + 1) (1 + 1)
            + (1 - (exp (6/100 * (1 / real (3::nat))) - 1/2) / (3 - 1/2))
              * BM_node (fst (projr (BM_Amer 100 100 (6/100) 3 (1/2) 1 3 ''put'' True))) 3 (2 + 1) 1)
         < intrinsic ''put'' 100 (100 * 3 ^ 1 * (1/2) ^ (2 - 1))
      then 1 else 0)"
    by simp
  from inst [THEN conjunct2, rule_format, OF t] obtain V E
    where "aTM_Amer 100 100 (6/100) (2/10) (3/100) 1 3 ''put'' True = Inr (V, Some E)"
      and "\<And>i j. i < 3 \<Longrightarrow> - int i \<le> j \<and> j \<le> int i \<Longrightarrow> aTM_node E 3 i j =
                  (if tp_dfact (aTM_params (6/100) (2/10) (3/100) (1 / real (3::nat))) *
                        (tp_pu (aTM_params (6/100) (2/10) (3/100) (1 / real (3::nat))) * aTM_node V 3 (i + 1) (j + 1)
                         + tp_pm (aTM_params (6/100) (2/10) (3/100) (1 / real (3::nat))) * aTM_node V 3 (i + 1) j
                         + tp_pd (aTM_params (6/100) (2/10) (3/100) (1 / real (3::nat))) * aTM_node V 3 (i + 1) (j - 1))
                      < intrinsic ''put'' 100
                          (100 * exp (tp_dx (aTM_params (6/100) (2/10) (3/100) (1 / real (3::nat))) * real_of_int j))
                   then 1 else 0)"
    by blast
  then have two: "aTM_node (the (snd (projr (aTM_Amer 100 100 (6/100) (2/10) (3/100) 1 3 ''put'' True)))) 3 2 (- 1) =
     (if tp_dfact (aTM_params (6/100) (2/10) (3/100) (1 / real (3::nat))) *
           (tp_pu (aTM_params (6/100) (2/10) (3/100) (1 / real (3::nat)))
              * aTM_node (fst (projr (aTM_Amer 100 100 (6/100) (2/10) (3/100) 1 3 ''put'' True))) 3 (2 + 1) (- 1 + 1)
            + tp_pm (aTM_params (6/100) (2/10) (3/100) (1 / real (3::nat)))
              * aTM_node (fst (projr (aTM_Amer 100 100 (6/100) (2/10) (3/100) 1 3 ''put'' True))) 3 (2 + 1) (- 1)
            + tp_pd (aTM_params (6/100) (2/10) (3/100) (1 / real (3::nat)))
              * aTM_node (fst (projr (aTM_Amer 100 100 (6/100) (2/10) (3/100) 1 3 ''put'' True))) 3 (2 + 1) (- 1 - 1))
         < intrinsic ''put'' 100
             (100 * exp (tp_dx (aTM_params (6/100) (2/10) (3/100) (1 / real (3::nat))) * real_of_int (- 1)))
      then 1 else 0)"
    by simp
  from one two show ?thesis by (rule conjI)
qed

subsection \<open>The dividend yield is not checked by the trinomial pricers\<close>

text \<open>
  Claim C5, where the code departs from it. \<open>aTM_Euro\<close> and \<open>aTM_Amer\<close> check only
  \<open>0 < r\<close> and \<open>0 < sigma\<close>: with the dividend yield \<open>- 3/100\<close> and otherwise valid
  parameters both return a lattice, where \<open>MC_Euro\<close> raises the parameter exception.
\<close>

theorem aTM_negative_dividend_accepted:
  "\<not> isl (aTM_Euro 100 100 (6/100) (2/10) (- 3/100) 1 3 ''call'') \<and>
   \<not> isl (aTM_Amer 100 100 (6/100) (2/10) (- 3/100) 1 3 ''call'' False) \<and>
   MC_Euro 100 100 (6/100) (2/10) (- 3/100) 1 3 500 ''call'' (\<lambda>k. 0) = Inl ParametersNotAllowed"
proof -
  have f: "optype_branch ''call'' = Inr call_branch" by (simp add: optype_branch_def)
  have "\<not> isl (aTM_Euro 100 100 (6/100) (2/10) (- 3/100) 1 3 ''call'')"
    using aTM_Euro_ok [of 3 "6/100" "2/10" "''call''" call_branch 100 100 "- 3/100" 1] f
    by simp
  moreover have "\<not> isl (aTM_Amer 100 100 (6/100) (2/10) (- 3/100) 1 3 ''call'' False)"
    using aTM_Amer_ok [of 3 "6/100" "2/10" "''call''" call_branch 100 100 "- 3/100" 1 False] f
    by simp
  moreover have "MC_Euro 100 100 (6/100) (2/10) (- 3/100) 1 3 500 ''call'' (\<lambda>k. 0)
      = Inl ParametersNotAllowed"
    by (simp add: MC_Euro_def MC_Euro_run_def)
  ultimately show ?thesis by blast
qed

subsection \<open>The option type is checked after the payoff\<close>

lemmas stmt_defs = init_def true_div_def assign_def raise_unless_def if_stmt_def matshow_def
  optype_arr_def optype_vec_def BM_price_for_def aBM_price_for_def aTM_price_for_def
  backward_for_def backward_for_ex_def call_paths_def num_def vec_def arr_def local_params_def

text \<open>
  Run from the empty state, the statements of a pricer return what the pricer of the
  first sections returns, and leave the generator as \<open>MC_Euro_run\<close> does.
\<close>

lemma BM_Euro_body_refines:
  "(case exec (BM_Euro_body S0 K r u d T N optype) (init g) of
      Inl (e, s) \<Rightarrow> Inl e | Inr s \<Rightarrow> Inr (arr s ''Vmat''))
   = BM_Euro S0 K r u d T N optype"
  by (simp add: BM_Euro_body_def BM_head_def BM_Euro_def stmt_defs BM_Pmat_def Let_def
      split: sum.splits del: BM_Euro_loop.simps BM_price_loop.simps)

lemma BM_Amer_body_refines:
  "(case exec (BM_Amer_body S0 K r u d T N optype exmat) (init g) of
      Inl (e, s) \<Rightarrow> Inl e
    | Inr s \<Rightarrow> Inr (arr s ''Vmat'', if shown s = [] then None else Some (last (shown s))))
   = BM_Amer S0 K r u d T N optype exmat"
  by (simp add: BM_Amer_body_def BM_head_def BM_Amer_def stmt_defs BM_Pmat_def Let_def
      split: sum.splits prod.splits
      del: BM_Amer_loop.simps BM_Amer_loop_ex.simps BM_price_loop.simps)

lemma aTM_Euro_body_refines:
  "(case exec (aTM_Euro_body S0 K r sigma divy T N optype) (init g) of
      Inl (e, s) \<Rightarrow> Inl e | Inr s \<Rightarrow> Inr (arr s ''Vmat''))
   = aTM_Euro S0 K r sigma divy T N optype"
  by (simp add: aTM_Euro_body_def aTM_head_def aTM_Euro_def stmt_defs aTM_Pmat_def aTM_params_def
      Let_def split: sum.splits prod.splits del: aTM_Euro_loop.simps aTM_price_loop.simps)

lemma aTM_Amer_body_refines:
  "(case exec (aTM_Amer_body S0 K r sigma divy T N optype exmat) (init g) of
      Inl (e, s) \<Rightarrow> Inl e
    | Inr s \<Rightarrow> Inr (arr s ''Vmat'', if shown s = [] then None else Some (last (shown s))))
   = aTM_Amer S0 K r sigma divy T N optype exmat"
  by (simp add: aTM_Amer_body_def aTM_head_def aTM_Amer_def stmt_defs aTM_Pmat_def aTM_params_def
      Let_def split: sum.splits prod.splits
      del: aTM_Amer_loop.simps aTM_Amer_loop_ex.simps aTM_price_loop.simps)

lemma MC_Euro_body_refines:
  "(case exec (MC_Euro_body S0 K r sigma divy T Nsteps Nsim optype) (init g) of
      Inl (e, s) \<Rightarrow> (gen s, Inl e) | Inr s \<Rightarrow> (gen s, Inr (mean (vec s ''V0arr''))))
   = MC_Euro_run S0 K r sigma divy T Nsteps Nsim optype g"
  by (simp add: MC_Euro_body_def MC_Euro_run_def stmt_defs S1_GBM_def standard_normal_def
      optype_branch_def mean_def Let_def)

text \<open>
  With an option type that is neither call nor put, the statements before the option
  type branch run to their end, and the branch raises.
\<close>

lemma exec_append:
  "exec (cs @ ds) s = (case exec cs s of Inl x \<Rightarrow> Inl x | Inr s' \<Rightarrow> exec ds s')"
  by (induction cs arbitrary: s) (simp_all split: sum.splits)

lemma BM_head_invalid_optype:
  assumes "optype \<noteq> ''call''" "optype \<noteq> ''put''" "1 \<le> N"
    "0 < d" "d < exp (r * (T / real N))" "exp (r * (T / real N)) < u"
  shows "\<exists>s. exec (BM_head S0 K r u d T N optype) (init g) = Inl (OptypeNotCallOrPut, s) \<and>
             locals s ''Pmat'' = Some (Arr (BM_Pmat S0 K u d N)) \<and>
             locals s ''Vmat'' = None \<and> gen s = g"
  using assms
  by (simp add: BM_head_def stmt_defs optype_branch_def BM_Pmat_def Let_def inverse_dfact
      del: BM_price_loop.simps)

lemma aTM_head_invalid_optype:
  assumes "optype \<noteq> ''call''" "optype \<noteq> ''put''" "1 \<le> N" "0 < r" "0 < sigma"
  shows "\<exists>s. exec (aTM_head S0 K r sigma divy T N optype) (init g) = Inl (OptypeNotCallOrPut, s) \<and>
             locals s ''Pmat'' =
               Some (Arr (aTM_Pmat S0 K (tp_dx (aTM_params r sigma divy (T / real N))) N)) \<and>
             locals s ''Vmat'' = None \<and> gen s = g"
  using assms
  by (simp add: aTM_head_def stmt_defs optype_branch_def aTM_Pmat_def aTM_params_def Let_def
      split: prod.splits del: aTM_price_loop.simps)

lemma aBM_head_invalid_optype:
  assumes "optype \<noteq> ''call''" "optype \<noteq> ''put''" "mode \<noteq> Mode_other" "1 \<le> N" "0 < r" "0 < sigma"
  shows "\<exists>s. exec (aBM_head S0 K r sigma T N optype mode) (init g) = Inl (OptypeNotCallOrPut, s) \<and>
             locals s ''Pmat'' =
               Some (Arr (aBM_Pmat S0 K (ln (call_mode mode r sigma T N ! 0))
                            (ln (call_mode mode r sigma T N ! 1)) N)) \<and>
             locals s ''Vmat'' = None \<and> gen s = g"
proof -
  from assms(3) have m: "mode \<in> {Mode_CRR, Mode_JD, Mode_EQP, Mode_TRG}" by (cases mode) simp_all
  show ?thesis
    using assms(1,2,4,5,6) m
    by (simp add: aBM_head_def stmt_defs optype_branch_def aBM_Pmat_def Let_def
        del: aBM_price_loop.simps call_mode.simps)
qed

lemma S1_GBM_paths:
  assumes "1 \<le> nsteps"
  shows "\<exists>M. S1_GBM S0 mu sigma T nsteps nsim g = (\<lambda>k. g (k + nsim * nsteps), Inr M) \<and> length M = nsim"
  using assms by (simp add: S1_GBM_def standard_normal_def Let_def)

lemma S1AV_GBM_paths:
  assumes "1 \<le> nsteps"
  shows "\<exists>M. S1AV_GBM S0 mu sigma T nsteps nsim g = (\<lambda>k. g (k + nsim * nsteps), Inr M)
            \<and> length M = 2 * nsim"
  using assms by (simp add: S1AV_GBM_def standard_normal_def Let_def)

lemma MC_Euro_body_invalid_optype:
  assumes "optype \<noteq> ''call''" "optype \<noteq> ''put''" "1 \<le> Nsteps" "0 < r" "0 < sigma" "0 \<le> divy"
  shows "\<exists>s M. exec (MC_Euro_body S0 K r sigma divy T Nsteps Nsim optype) (init g)
                 = Inl (OptypeNotCallOrPut, s) \<and>
               S1_GBM S0 (r - divy) sigma T Nsteps Nsim g = (gen s, Inr M) \<and>
               locals s ''Smat'' = Some (Arr M) \<and>
               gen s = (\<lambda>k. g (k + Nsim * Nsteps)) \<and>
               locals s ''V0arr'' = None"
proof -
  from S1_GBM_paths [OF assms(3)] obtain M
    where M: "S1_GBM S0 (r - divy) sigma T Nsteps Nsim g = (\<lambda>k. g (k + Nsim * Nsteps), Inr M)"
    by blast
  show ?thesis
    using assms M
    by (simp add: MC_Euro_body_def stmt_defs optype_branch_def)
qed

lemma MCAV_Euro_body_invalid_optype:
  assumes "optype \<noteq> ''call''" "optype \<noteq> ''put''" "1 \<le> Nsteps" "0 < r" "0 < sigma" "0 \<le> divy"
  shows "\<exists>s M. exec (MCAV_Euro_body S0 K r sigma divy T Nsteps Nsim optype) (init g)
                 = Inl (OptypeNotCallOrPut, s) \<and>
               S1AV_GBM S0 (r - divy) sigma T Nsteps Nsim g = (gen s, Inr M) \<and>
               locals s ''Smat'' = Some (Arr M) \<and>
               gen s = (\<lambda>k. g (k + Nsim * Nsteps)) \<and>
               locals s ''V0arr'' = None"
proof -
  from S1AV_GBM_paths [OF assms(3)] obtain M
    where M: "S1AV_GBM S0 (r - divy) sigma T Nsteps Nsim g = (\<lambda>k. g (k + Nsim * Nsteps), Inr M)"
    by blast
  show ?thesis
    using assms M
    by (simp add: MCAV_Euro_body_def stmt_defs optype_branch_def)
qed

lemma raised_in_head:
  assumes "\<exists>s. exec cs s0 = Inl (e, s) \<and> P s"
  shows "\<exists>s. exec (cs @ ds) s0 = Inl (e, s) \<and> P s"
  using assms by (auto simp add: exec_append)

lemma BM_Pmat_one_step: "BM_Pmat 100 100 2 (1/2) 1 = [[0, 100], [0, - 50]]"
  by (simp add: BM_Pmat_def zeros_def set_entry_def set_col_from_def set_col_slice_def col_from_def
      col_slice_def BM_prices_def tri_def fliplr_def scale_def msub_def Let_def
      numeral_2_eq_2 upt_rec nth_Cons')

text \<open>
  Claim C4, as the code has it. With an option kind that is neither call nor put and
  all other arguments valid, every pricer raises the option type exception, but only
  after the parameter check and after the payoffs have been prepared: the tree pricers
  (\<open>BM_Euro\<close>, \<open>BM_Amer\<close>, \<open>aTM_Euro\<close>, \<open>aTM_Amer\<close>, \<open>aBM_Euro\<close>, \<open>aBM_Amer\<close>) have built the
  payoff lattice \<open>Pmat\<close> and have not yet created the value lattice \<open>Vmat\<close>; the Monte
  Carlo estimators (\<open>MC_Euro\<close>, \<open>MCAV_Euro\<close>) have simulated the paths \<open>Smat\<close>, taking
  \<open>Nsim * Nsteps\<close> variates from the generator, and have not yet discounted.
\<close>

theorem optype_checked_after_payoff:
  assumes "optype \<noteq> ''call''" and "optype \<noteq> ''put''"
  shows "(1 \<le> N \<and> 0 < d \<and> d < exp (r * (T / real N)) \<and> exp (r * (T / real N)) < u \<longrightarrow>
            (\<exists>s. exec (BM_Euro_body S0 K r u d T N optype) (init g) = Inl (OptypeNotCallOrPut, s) \<and>
                 locals s ''Pmat'' = Some (Arr (BM_Pmat S0 K u d N)) \<and>
                 locals s ''Vmat'' = None \<and> gen s = g) \<and>
            (\<exists>s. exec (BM_Amer_body S0 K r u d T N optype exmat) (init g)
                   = Inl (OptypeNotCallOrPut, s) \<and>
                 locals s ''Pmat'' = Some (Arr (BM_Pmat S0 K u d N)) \<and>
                 locals s ''Vmat'' = None \<and> gen s = g)) \<and>
         (1 \<le> N \<and> 0 < r \<and> 0 < sigma \<longrightarrow>
            (\<exists>s. exec (aTM_Euro_body S0 K r sigma divy T N optype) (init g)
                   = Inl (OptypeNotCallOrPut, s) \<and>
                 locals s ''Pmat'' =
                   Some (Arr (aTM_Pmat S0 K (tp_dx (aTM_params r sigma divy (T / real N))) N)) \<and>
                 locals s ''Vmat'' = None \<and> gen s = g) \<and>
            (\<exists>s. exec (aTM_Amer_body S0 K r sigma divy T N optype exmat) (init g)
                   = Inl (OptypeNotCallOrPut, s) \<and>
                 locals s ''Pmat'' =
                   Some (Arr (aTM_Pmat S0 K (tp_dx (aTM_params r sigma divy (T / real N))) N)) \<and>
                 locals s ''Vmat'' = None \<and> gen s = g)) \<and>
         (1 \<le> N \<and> 0 < r \<and> 0 < sigma \<and> mode \<noteq> Mode_other \<longrightarrow>
            (\<exists>s. exec (aBM_Euro_body S0 K r sigma T N optype mode) (init g)
                   = Inl (OptypeNotCallOrPut, s) \<and>
                 locals s ''Pmat'' =
                   Some (Arr (aBM_Pmat S0 K (ln (call_mode mode r sigma T N ! 0))
                                (ln (call_mode mode r sigma T N ! 1)) N)) \<and>
                 locals s ''Vmat'' = None \<and> gen s = g) \<and>
            (\<exists>s. exec (aBM_Amer_body S0 K r sigma T N optype mode exmat) (init g)
                   = Inl (OptypeNotCallOrPut, s) \<and>
                 locals s ''Pmat'' =
                   Some (Arr (aBM_Pmat S0 K (ln (call_mode mode r sigma T N ! 0))
                                (ln (call_mode mode r sigma T N ! 1)) N)) \<and>
                 locals s ''Vmat'' = None \<and> gen s = g)) \<and>
         (1 \<le> Nsteps \<and> 0 < r \<and> 0 < sigma \<and> 0 \<le> divy \<longrightarrow>
            (\<exists>s M. exec (MC_Euro_body S0 K r sigma divy T Nsteps Nsim optype) (init g)
                     = Inl (OptypeNotCallOrPut, s) \<and>
                   S1_GBM S0 (r - divy) sigma T Nsteps Nsim g = (gen s, Inr M) \<and>
                   locals s ''Smat'' = Some (Arr M) \<and>
                   gen s = (\<lambda>k. g (k + Nsim * Nsteps)) \<and>
                   locals s ''V0arr'' = None) \<and>
            (\<exists>s M. exec (MCAV_Euro_body S0 K r sigma divy T Nsteps Nsim optype) (init g)
                     = Inl (OptypeNotCallOrPut, s) \<and>
                   S1AV_GBM S0 (r - divy) sigma T Nsteps Nsim g = (gen s, Inr M) \<and>
                   locals s ''Smat'' = Some (Arr M) \<and>
                   gen s = (\<lambda>k. g (k + Nsim * Nsteps)) \<and>
                   locals s ''V0arr'' = None))"
proof (intro conjI impI)
  assume h: "1 \<le> N \<and> 0 < d \<and> d < exp (r * (T / real N)) \<and> exp (r * (T / real N)) < u"
  then have b: "1 \<le> N" "0 < d" "d < exp (r * (T / real N))" "exp (r * (T / real N)) < u"
    by simp_all
  show "\<exists>s. exec (BM_Euro_body S0 K r u d T N optype) (init g) = Inl (OptypeNotCallOrPut, s) \<and>
                 locals s ''Pmat'' = Some (Arr (BM_Pmat S0 K u d N)) \<and>
                 locals s ''Vmat'' = None \<and> gen s = g"
    unfolding BM_Euro_body_def by (rule raised_in_head [OF BM_head_invalid_optype [OF assms b]])
  show "\<exists>s. exec (BM_Amer_body S0 K r u d T N optype exmat) (init g)
                   = Inl (OptypeNotCallOrPut, s) \<and>
                 locals s ''Pmat'' = Some (Arr (BM_Pmat S0 K u d N)) \<and>
                 locals s ''Vmat'' = None \<and> gen s = g"
    unfolding BM_Amer_body_def by (rule raised_in_head [OF BM_head_invalid_optype [OF assms b]])
next
  assume h: "1 \<le> N \<and> 0 < r \<and> 0 < sigma"
  then have b: "1 \<le> N" "0 < r" "0 < sigma" by simp_all
  show "\<exists>s. exec (aTM_Euro_body S0 K r sigma divy T N optype) (init g)
                   = Inl (OptypeNotCallOrPut, s) \<and>
                 locals s ''Pmat'' =
                   Some (Arr (aTM_Pmat S0 K (tp_dx (aTM_params r sigma divy (T / real N))) N)) \<and>
                 locals s ''Vmat'' = None \<and> gen s = g"
    unfolding aTM_Euro_body_def by (rule raised_in_head [OF aTM_head_invalid_optype [OF assms b]])
  show "\<exists>s. exec (aTM_Amer_body S0 K r sigma divy T N optype exmat) (init g)
                   = Inl (OptypeNotCallOrPut, s) \<and>
                 locals s ''Pmat'' =
                   Some (Arr (aTM_Pmat S0 K (tp_dx (aTM_params r sigma divy (T / real N))) N)) \<and>
                 locals s ''Vmat'' = None \<and> gen s = g"
    unfolding aTM_Amer_body_def by (rule raised_in_head [OF aTM_head_invalid_optype [OF assms b]])
next
  assume h: "1 \<le> N \<and> 0 < r \<and> 0 < sigma \<and> mode \<noteq> Mode_other"
  then have b: "mode \<noteq> Mode_other" "1 \<le> N" "0 < r" "0 < sigma" by simp_all
  show "\<exists>s. exec (aBM_Euro_body S0 K r sigma T N optype mode) (init g)
                   = Inl (OptypeNotCallOrPut, s) \<and>
                 locals s ''Pmat'' =
                   Some (Arr (aBM_Pmat S0 K (ln (call_mode mode r sigma T N ! 0))
                                (ln (call_mode mode r sigma T N ! 1)) N)) \<and>
                 locals s ''Vmat'' = None \<and> gen s = g"
    unfolding aBM_Euro_body_def by (rule raised_in_head [OF aBM_head_invalid_optype [OF assms b]])
  show "\<exists>s. exec (aBM_Amer_body S0 K r sigma T N optype mode exmat) (init g)
                   = Inl (OptypeNotCallOrPut, s) \<and>
                 locals s ''Pmat'' =
                   Some (Arr (aBM_Pmat S0 K (ln (call_mode mode r sigma T N ! 0))
                                (ln (call_mode mode r sigma T N ! 1)) N)) \<and>
                 locals s ''Vmat'' = None \<and> gen s = g"
    unfolding aBM_Amer_body_def by (rule raised_in_head [OF aBM_head_invalid_optype [OF assms b]])
next
  assume h: "1 \<le> Nsteps \<and> 0 < r \<and> 0 < sigma \<and> 0 \<le> divy"
  then have b: "1 \<le> Nsteps" "0 < r" "0 < sigma" "0 \<le> divy" by simp_all
  show "\<exists>s M. exec (MC_Euro_body S0 K r sigma divy T Nsteps Nsim optype) (init g)
                     = Inl (OptypeNotCallOrPut, s) \<and>
                   S1_GBM S0 (r - divy) sigma T Nsteps Nsim g = (gen s, Inr M) \<and>
                   locals s ''Smat'' = Some (Arr M) \<and>
                   gen s = (\<lambda>k. g (k + Nsim * Nsteps)) \<and>
                   locals s ''V0arr'' = None"
    by (rule MC_Euro_body_invalid_optype [OF assms b])
  show "\<exists>s M. exec (MCAV_Euro_body S0 K r sigma divy T Nsteps Nsim optype) (init g)
                     = Inl (OptypeNotCallOrPut, s) \<and>
                   S1AV_GBM S0 (r - divy) sigma T Nsteps Nsim g = (gen s, Inr M) \<and>
                   locals s ''Smat'' = Some (Arr M) \<and>
                   gen s = (\<lambda>k. g (k + Nsim * Nsteps)) \<and>
                   locals s ''V0arr'' = None"
    by (rule MCAV_Euro_body_invalid_optype [OF assms b])
qed

theorem optype_checked_after_payoff_witness:
  "fst (projl (exec (BM_Euro_body 100 100 (6/100) 4 (1/2) 1 2 ''straddle'') (init ramp)))
     = OptypeNotCallOrPut \<and>
   fst (projl (exec (BM_Amer_body 100 100 (6/100) 4 (1/2) 1 2 ''straddle'' True) (init ramp)))
     = OptypeNotCallOrPut \<and>
   fst (projl (exec (aTM_Euro_body 100 100 (6/100) (2/10) (3/100) 1 2 ''straddle'') (init ramp)))
     = OptypeNotCallOrPut \<and>
   fst (projl (exec (aTM_Amer_body 100 100 (6/100) (2/10) (3/100) 1 2 ''straddle'' True) (init ramp)))
     = OptypeNotCallOrPut \<and>
   fst (projl (exec (aBM_Euro_body 100 100 (6/100) (2/10) 1 2 ''straddle'' Mode_TRG) (init ramp)))
     = OptypeNotCallOrPut \<and>
   fst (projl (exec (aBM_Amer_body 100 100 (6/100) (2/10) 1 2 ''straddle'' Mode_TRG True) (init ramp)))
     = OptypeNotCallOrPut \<and>
   fst (projl (exec (MC_Euro_body 100 100 (6/100) (2/10) (3/100) 1 3 2 ''straddle'') (init ramp)))
     = OptypeNotCallOrPut \<and>
   fst (projl (exec (MCAV_Euro_body 100 100 (6/100) (2/10) (3/100) 1 3 2 ''straddle'') (init ramp)))
     = OptypeNotCallOrPut \<and>
   gen (snd (projl (exec (MC_Euro_body 100 100 (6/100) (2/10) (3/100) 1 3 2 ''straddle'')
                      (init ramp)))) 0 = ramp 6"
proof -
  have o: "''straddle'' \<noteq> ''call''" "''straddle'' \<noteq> ''put''" by simp_all
  have "(1::real) < exp (6/100 * (1 / real (2::nat)))" by simp
  then have lo: "(1/2::real) < exp (6/100 * (1 / real (2::nat)))" by linarith
  have "exp (6/100 * (1 / real (2::nat))) \<le> exp (1::real)" by simp
  then have hi: "exp (6/100 * (1 / real (2::nat))) < (4::real)" using exp_le by linarith
  have bm: "(1::nat) \<le> 2 \<and> (0::real) < 1/2 \<and> 1/2 < exp (6/100 * (1 / real (2::nat)))
              \<and> exp (6/100 * (1 / real (2::nat))) < 4"
    using lo hi by simp
  have tm: "(1::nat) \<le> 2 \<and> (0::real) < 6/100 \<and> (0::real) < 2/10" by simp
  have am: "(1::nat) \<le> 2 \<and> (0::real) < 6/100 \<and> (0::real) < 2/10 \<and> Mode_TRG \<noteq> Mode_other" by simp
  have mc: "(1::nat) \<le> 3 \<and> (0::real) < 6/100 \<and> (0::real) < 2/10 \<and> (0::real) \<le> 3/100" by simp
  note t = optype_checked_after_payoff [OF o, of 2 "1/2" "6/100" 1 4 100 100 ramp True "2/10" "3/100"
      Mode_TRG 3 2]
  from t bm obtain s1 s2
    where "exec (BM_Euro_body 100 100 (6/100) 4 (1/2) 1 2 ''straddle'') (init ramp)
             = Inl (OptypeNotCallOrPut, s1)"
      and "exec (BM_Amer_body 100 100 (6/100) 4 (1/2) 1 2 ''straddle'' True) (init ramp)
             = Inl (OptypeNotCallOrPut, s2)"
    by blast
  moreover from t tm obtain s3 s4
    where "exec (aTM_Euro_body 100 100 (6/100) (2/10) (3/100) 1 2 ''straddle'') (init ramp)
             = Inl (OptypeNotCallOrPut, s3)"
      and "exec (aTM_Amer_body 100 100 (6/100) (2/10) (3/100) 1 2 ''straddle'' True) (init ramp)
             = Inl (OptypeNotCallOrPut, s4)"
    by blast
  moreover from t am obtain s5 s6
    where "exec (aBM_Euro_body 100 100 (6/100) (2/10) 1 2 ''straddle'' Mode_TRG) (init ramp)
             = Inl (OptypeNotCallOrPut, s5)"
      and "exec (aBM_Amer_body 100 100 (6/100) (2/10) 1 2 ''straddle'' Mode_TRG True) (init ramp)
             = Inl (OptypeNotCallOrPut, s6)"
    by blast
  moreover from t mc obtain s7 s8
    where "exec (MC_Euro_body 100 100 (6/100) (2/10) (3/100) 1 3 2 ''straddle'') (init ramp)
             = Inl (OptypeNotCallOrPut, s7)"
      and "gen s7 = (\<lambda>k. ramp (k + 2 * 3))"
      and "exec (MCAV_Euro_body 100 100 (6/100) (2/10) (3/100) 1 3 2 ''straddle'') (init ramp)
             = Inl (OptypeNotCallOrPut, s8)"
    by blast
  ultimately show ?thesis by simp
qed

theorem optype_checked_counterexample:
  "fst (projl (exec (BM_Euro_body 100 100 0 2 (1/2) 1 1 ''straddle'') (init ramp)))
     = OptypeNotCallOrPut \<and>
   locals (snd (projl (exec (BM_Euro_body 100 100 0 2 (1/2) 1 1 ''straddle'') (init ramp)))) ''Pmat''
     = Some (Arr [[0, 100], [0, - 50]]) \<and>
   fst (projl (exec (MC_Euro_body 100 100 (6/100) (2/10) 0 1 1 2 ''straddle'') (init ramp)))
     = OptypeNotCallOrPut \<and>
   gen (snd (projl (exec (MC_Euro_body 100 100 (6/100) (2/10) 0 1 1 2 ''straddle'') (init ramp)))) 0
     = 2 \<and>
   gen (init ramp) 0 = 0"
proof -
  have o: "''straddle'' \<noteq> ''call''" "''straddle'' \<noteq> ''put''" by simp_all
  have b: "(1::nat) \<le> 1" "(0::real) < 1/2" "(1/2::real) < exp (0 * (1 / real (1::nat)))"
    "exp (0 * (1 / real (1::nat))) < (2::real)" by simp_all
  from raised_in_head [OF BM_head_invalid_optype [OF o b, of 100 100 ramp]] obtain s
    where s: "exec (BM_Euro_body 100 100 0 2 (1/2) 1 1 ''straddle'') (init ramp)
                = Inl (OptypeNotCallOrPut, s)"
      and p: "locals s ''Pmat'' = Some (Arr (BM_Pmat 100 100 2 (1/2) 1))"
    unfolding BM_Euro_body_def by blast
  have m: "(1::nat) \<le> 1" "(0::real) < 6/100" "(0::real) < 2/10" "(0::real) \<le> 0" by simp_all
  from MC_Euro_body_invalid_optype [OF o m, of 100 100 1 2 ramp] obtain s'
    where s': "exec (MC_Euro_body 100 100 (6/100) (2/10) 0 1 1 2 ''straddle'') (init ramp)
                 = Inl (OptypeNotCallOrPut, s')"
      and g: "gen s' = (\<lambda>k. ramp (k + 2 * 1))"
    by blast
  have p': "locals s ''Pmat'' = Some (Arr [[0, 100], [0, - 50]])"
    using p unfolding BM_Pmat_one_step .
  show ?thesis
    unfolding s s' by (simp add: p' g ramp_def init_def)
qed

subsection \<open>Rounding to binary64\<close>

lemma round_half_even_error: "\<bar>of_int (round_half_even y) - y\<bar> \<le> 1/2"
  unfolding round_half_even_def Let_def by (auto; linarith)

lemma round_half_even_of_int: "round_half_even (of_int k) = k"
  by (simp add: round_half_even_def)

lemma round_half_even_near:
  assumes "\<bar>y - of_int m\<bar> < 1/2"
  shows "round_half_even y = m"
proof -
  have "\<bar>of_int (round_half_even y) - y\<bar> \<le> 1/2" by (rule round_half_even_error)
  with assms have "\<bar>(of_int (round_half_even y) :: real) - of_int m\<bar> < 1" by linarith
  then have "\<bar>round_half_even y - m\<bar> < 1"
    by (metis (no_types, opaque_lifting) of_int_1 of_int_abs of_int_diff of_int_less_iff)
  then show ?thesis by simp
qed

lemma round_half_even_tie:
  assumes "y = of_int f + 1/2"
  shows "round_half_even y = (if even f then f else f + 1)"
proof -
  have "\<lfloor>y\<rfloor> = f" using assms by (simp add: floor_unique)
  then show ?thesis using assms by (simp add: round_half_even_def)
qed

lemma fexp_ge: "- 1074 \<le> fexp x"
  by (simp add: fexp_def)

lemma fl_error_ulp: "\<bar>fl x - x\<bar> \<le> 2 powr of_int (fexp x) / 2"
proof (cases "x = 0")
  case True
  then show ?thesis by (simp add: fl_def)
next
  case False
  define p :: real where "p = 2 powr of_int (fexp x)"
  have p: "0 < p" by (simp add: p_def)
  have "fl x - x = (of_int (round_half_even (x / p)) - x / p) * p"
    using False p by (simp add: fl_def p_def algebra_simps)
  then have "\<bar>fl x - x\<bar> = \<bar>of_int (round_half_even (x / p)) - x / p\<bar> * p"
    using p by (simp add: abs_mult)
  also have "\<dots> \<le> 1/2 * p"
    using round_half_even_error [of "x / p"] p by (intro mult_right_mono) simp_all
  finally show ?thesis by (simp add: p_def)
qed

lemma pow2_int: "2 powr of_int (- int n) = 1 / (2::real) ^ n"
  by (simp add: powr_minus powr_realpow divide_inverse)

lemma fl_zero: "fl 0 = 0"
  by (simp add: fl_def)

lemma floor_log2_le:
  assumes "x \<noteq> 0"
  shows "2 powr of_int \<lfloor>log 2 \<bar>x\<bar>\<rfloor> \<le> \<bar>x\<bar>"
proof -
  have "2 powr of_int \<lfloor>log 2 \<bar>x\<bar>\<rfloor> \<le> 2 powr log 2 \<bar>x\<bar>"
    by (intro powr_mono) simp_all
  also have "\<dots> = \<bar>x\<bar>" using assms by simp
  finally show ?thesis .
qed

lemma floor_log2_gt:
  assumes "x \<noteq> 0"
  shows "\<bar>x\<bar> < 2 powr of_int (\<lfloor>log 2 \<bar>x\<bar>\<rfloor> + 1)"
proof -
  have "\<bar>x\<bar> = 2 powr log 2 \<bar>x\<bar>" using assms by simp
  also have "\<dots> < 2 powr of_int (\<lfloor>log 2 \<bar>x\<bar>\<rfloor> + 1)"
  proof (intro powr_less_mono)
    show "log 2 \<bar>x\<bar> < real_of_int (\<lfloor>log 2 \<bar>x\<bar>\<rfloor> + 1)" by linarith
  qed simp
  finally show ?thesis .
qed

lemma fl_error: "\<bar>fl x - x\<bar> \<le> \<bar>x\<bar> / 2 ^ 53 + 1 / 2 ^ 1075"
proof (cases "x = 0")
  case True
  then show ?thesis by (simp add: fl_zero)
next
  case False
  show ?thesis
  proof (cases "\<lfloor>log 2 \<bar>x\<bar>\<rfloor> - 52 \<le> - 1074")
    case True
    then have "fexp x = - int 1074" by (simp add: fexp_def)
    then have "2 powr of_int (fexp x) = 1 / (2::real) ^ 1074"
      using pow2_int [of 1074] by simp
    with fl_error_ulp [of x] have "\<bar>fl x - x\<bar> \<le> 1 / 2 ^ 1075" by simp
    moreover have "0 \<le> \<bar>x\<bar> / 2 ^ 53" by simp
    ultimately show ?thesis by linarith
  next
    case False
    then have e: "fexp x = \<lfloor>log 2 \<bar>x\<bar>\<rfloor> - 52" by (simp add: fexp_def)
    have "(2::real) powr of_int (fexp x) = 2 powr of_int \<lfloor>log 2 \<bar>x\<bar>\<rfloor> * 2 powr of_int (- int 52)"
      unfolding e by (simp add: powr_add [symmetric])
    also have "\<dots> \<le> \<bar>x\<bar> * 2 powr of_int (- int 52)"
      using floor_log2_le [OF \<open>x \<noteq> 0\<close>] by (intro mult_right_mono) simp_all
    also have "\<dots> = \<bar>x\<bar> / 2 ^ 52" unfolding pow2_int by simp
    finally have "2 powr of_int (fexp x) / 2 \<le> \<bar>x\<bar> / 2 ^ 53" by simp
    with fl_error_ulp [of x] have "\<bar>fl x - x\<bar> \<le> \<bar>x\<bar> / 2 ^ 53" by linarith
    then show ?thesis by simp
  qed
qed

lemma fexp_le:
  assumes "x = of_int m * 2 powr of_int e" "\<bar>m\<bar> < 2 ^ 53" "- 1074 \<le> e" "x \<noteq> 0"
  shows "fexp x \<le> e"
proof -
  have "\<bar>x\<bar> = \<bar>of_int m\<bar> * 2 powr of_int e" using assms(1) by (simp add: abs_mult)
  also have "\<dots> < 2 ^ 53 * 2 powr of_int e"
  proof (intro mult_strict_right_mono)
    have "(of_int \<bar>m\<bar> :: real) < of_int (2 ^ 53)" using assms(2) by (simp only: of_int_less_iff)
    then show "\<bar>of_int m :: real\<bar> < 2 ^ 53" by simp
  qed simp
  also have "\<dots> = 2 powr of_int (e + 53)"
    by (simp add: powr_add powr_realpow)
  finally have lt: "\<bar>x\<bar> < 2 powr of_int (e + 53)" .
  have "(2::real) powr of_int \<lfloor>log 2 \<bar>x\<bar>\<rfloor> < 2 powr of_int (e + 53)"
    using floor_log2_le [OF assms(4)] lt by linarith
  then have "\<lfloor>log 2 \<bar>x\<bar>\<rfloor> < e + 53" by simp
  then show ?thesis using assms(3) by (simp add: fexp_def)
qed

lemma fl_id:
  assumes "is_f64 x"
  shows "fl x = x"
proof (cases "x = 0")
  case True
  then show ?thesis by (simp add: fl_zero)
next
  case False
  from assms obtain m e where x: "x = of_int m * 2 powr of_int e"
    and m: "\<bar>m\<bar> < 2 ^ 53" and e: "- 1074 \<le> e"
    unfolding is_f64_def by blast
  have le: "fexp x \<le> e" by (rule fexp_le [OF x m e False])
  define k where "k = nat (e - fexp x)"
  define p :: real where "p = 2 powr of_int (fexp x)"
  have p: "0 < p" by (simp add: p_def)
  have "(2::real) powr of_int e = 2 powr of_int (fexp x) * 2 powr of_int (int k)"
    using le by (simp add: k_def powr_add [symmetric])
  also have "(2::real) powr of_int (int k) = (2::real) ^ k" by (simp add: powr_realpow)
  finally have pe: "2 powr of_int e = p * 2 ^ k" by (simp add: p_def)
  have "x = of_int m * (p * 2 ^ k)" unfolding pe [symmetric] by (rule x)
  then have q: "x / p = of_int (m * 2 ^ k)" using p by simp
  have "round_half_even (x / p) = m * 2 ^ k"
    unfolding q by (rule round_half_even_of_int)
  then have "fl x = of_int (m * 2 ^ k) * p"
    using False by (simp add: fl_def p_def)
  also have "\<dots> = x / p * p" unfolding q ..
  also have "\<dots> = x" using p by simp
  finally show ?thesis .
qed

lemma is_f64_zero: "is_f64 0"
  unfolding is_f64_def by (rule exI [of _ 0], rule exI [of _ 0]) simp

lemma int_abs_le_pow:
  fixes n :: int
  assumes "\<bar>real_of_int n\<bar> < 2 ^ 53 + 1/2"
  shows "\<bar>n\<bar> \<le> 2 ^ 53"
proof -
  have "real_of_int \<bar>n\<bar> < real_of_int (2 ^ 53 + 1)" using assms by simp
  then have "\<bar>n\<bar> < 2 ^ 53 + 1" by (simp only: of_int_less_iff)
  then show ?thesis by simp
qed

lemma is_f64_fl: "is_f64 (fl x)"
proof (cases "x = 0")
  case True
  then show ?thesis by (simp add: fl_zero is_f64_zero)
next
  case False
  define f where "f = fexp x"
  define p :: real where "p = 2 powr of_int f"
  define n where "n = round_half_even (x / p)"
  have p: "0 < p" by (simp add: p_def)
  have f: "- 1074 \<le> f" "\<lfloor>log 2 \<bar>x\<bar>\<rfloor> + 1 \<le> f + 53" by (simp_all add: f_def fexp_def)
  have flx: "fl x = of_int n * p" using False by (simp add: fl_def n_def p_def f_def)
  have "\<bar>x\<bar> < 2 powr of_int (\<lfloor>log 2 \<bar>x\<bar>\<rfloor> + 1)" by (rule floor_log2_gt [OF False])
  also have "\<dots> \<le> 2 powr of_int (f + 53)"
    using f(2) by (intro powr_mono) simp_all
  also have "\<dots> = p * 2 ^ 53" by (simp add: p_def powr_add powr_realpow)
  finally have "\<bar>x\<bar> / p < 2 ^ 53" using p by (simp add: field_simps)
  then have "\<bar>x / p\<bar> < 2 ^ 53" using p by simp
  moreover have "\<bar>of_int n - x / p\<bar> \<le> 1/2" unfolding n_def by (rule round_half_even_error)
  ultimately have "\<bar>real_of_int n\<bar> < 2 ^ 53 + 1/2" by linarith
  then have n: "\<bar>n\<bar> \<le> 2 ^ 53" by (rule int_abs_le_pow)
  show ?thesis
  proof (cases "\<bar>n\<bar> < 2 ^ 53")
    case True
    show ?thesis unfolding is_f64_def flx p_def
      using True f(1) by blast
  next
    case False
    with n have "\<bar>n\<bar> = 2 ^ 53" by simp
    then have "n = 2 ^ 53 \<or> n = - (2 ^ 53)" by linarith
    then have "n = 2 * (n div 2)" and h: "\<bar>n div 2\<bar> < 2 ^ 53" by auto
    then have "real_of_int n = of_int (n div 2) * 2" by (metis mult.commute of_int_mult of_int_numeral)
    then have "fl x = of_int (n div 2) * (2 * p)" using flx by simp
    also have "2 * p = 2 powr of_int (f + 1)" by (simp add: p_def powr_add)
    finally have "fl x = of_int (n div 2) * 2 powr of_int (f + 1)" .
    moreover have "- 1074 \<le> f + 1" using f(1) by simp
    ultimately show ?thesis unfolding is_f64_def using h by blast
  qed
qed

lemma fl_fl: "fl (fl x) = fl x"
  by (rule fl_id [OF is_f64_fl])

lemma fl_half:
  assumes "is_f64 h"
  shows "\<bar>fl (h / 2) - h / 2\<bar> \<le> 1 / 2 ^ 1075"
proof -
  from assms obtain m e where h: "h = of_int m * 2 powr of_int e"
    and m: "\<bar>m\<bar> < 2 ^ 53" and e: "- 1074 \<le> e"
    unfolding is_f64_def by blast
  show ?thesis
  proof (cases "- 1073 \<le> e")
    case True
    have "h / 2 = of_int m * 2 powr of_int (e - 1)"
      using h by (simp add: powr_diff)
    moreover have "- 1074 \<le> e - 1" using True by simp
    ultimately have "is_f64 (h / 2)" unfolding is_f64_def using m by blast
    then have "fl (h / 2) = h / 2" by (rule fl_id)
    then show ?thesis by simp
  next
    case False
    with e have e': "e = - int 1074" by simp
    show ?thesis
    proof (cases "h = 0")
      case True
      then show ?thesis by (simp add: fl_zero)
    next
      case False
      have "(of_int \<bar>m\<bar> :: real) < of_int (2 ^ 53)" using m by (simp only: of_int_less_iff)
      then have am: "\<bar>of_int m :: real\<bar> < 2 ^ 53" by simp
      have "\<bar>h / 2\<bar> = \<bar>of_int m\<bar> / 2 ^ 1075"
        unfolding h e' pow2_int by (simp add: abs_mult)
      also have "\<dots> < 2 ^ 53 / 2 ^ 1075" using am by (simp add: divide_strict_right_mono)
      also have "\<dots> = 2 powr of_int (- int 1022)" unfolding pow2_int by simp
      finally have lt: "\<bar>h / 2\<bar> < 2 powr of_int (- int 1022)" .
      have nz: "h / 2 \<noteq> 0" using False by simp
      have "(2::real) powr of_int \<lfloor>log 2 \<bar>h / 2\<bar>\<rfloor> < 2 powr of_int (- int 1022)"
        using floor_log2_le [OF nz] lt by linarith
      then have "real_of_int \<lfloor>log 2 \<bar>h / 2\<bar>\<rfloor> < real_of_int (- int 1022)"
        by (subst (asm) powr_less_cancel_iff) simp_all
      then have "\<lfloor>log 2 \<bar>h / 2\<bar>\<rfloor> < - int 1022" by (simp only: of_int_less_iff)
      then have "fexp (h / 2) = - int 1074" unfolding fexp_def by linarith
      then have "2 powr of_int (fexp (h / 2)) = 1 / (2::real) ^ 1074"
        using pow2_int [of 1074] by simp
      with fl_error_ulp [of "h / 2"] show ?thesis by simp
    qed
  qed
qed

lemma fl_eval:
  assumes "2 ^ 52 \<le> \<bar>x\<bar> * 2 ^ n" and "\<bar>x\<bar> * 2 ^ n < 2 ^ 53" and "n \<le> 1074"
  shows "fl x = of_int (round_half_even (x * 2 ^ n)) / 2 ^ n"
proof -
  have nz: "x \<noteq> 0" using assms(1) by auto
  have pos: "0 < \<bar>x\<bar>" using nz by simp
  have p1: "2 powr of_int (52 - int n) = (2::real) ^ 52 / 2 ^ n"
    using pow2_int [of n] by (simp add: powr_diff powr_realpow [symmetric] del: powr_realpow)
  have "(2::real) powr of_int (52 - int n + 1) = 2 powr of_int (52 - int n) * 2 powr 1"
    unfolding powr_add [symmetric] by simp
  then have p2: "2 powr of_int (52 - int n + 1) = (2::real) ^ 53 / 2 ^ n"
    unfolding p1 by simp
  have "2 powr of_int (52 - int n) \<le> \<bar>x\<bar>" unfolding p1 using assms(1) by (simp add: field_simps)
  moreover have "\<bar>x\<bar> < 2 powr of_int (52 - int n + 1)" unfolding p2 using assms(2) by (simp add: field_simps)
  ultimately have "\<lfloor>log 2 \<bar>x\<bar>\<rfloor> = 52 - int n"
    using floor_log_eq_powr_iff [of "\<bar>x\<bar>" 2 "52 - int n"] pos by simp
  then have "fexp x = - int n" using assms(3) by (simp add: fexp_def)
  then have pw: "2 powr of_int (fexp x) = 1 / (2::real) ^ n" by (simp only: pow2_int)
  show ?thesis unfolding fl_def pw if_not_P [OF nz] by simp
qed

lemma rnd_Fin: "rnd x = Fin z \<Longrightarrow> z = fl x"
  by (simp add: rnd_def split: if_splits)

lemma fadd_Fin:
  assumes "fadd x y = Fin z"
  obtains a b where "x = Fin a" "y = Fin b" "z = fl (a + b)"
  using assms by (cases x; cases y) (auto dest: rnd_Fin)

lemma fsub_Fin:
  assumes "fsub x y = Fin z"
  obtains a b where "x = Fin a" "y = Fin b" "z = fl (a - b)"
  using assms unfolding fsub_def by (cases x; cases y) (auto dest: rnd_Fin)

lemma fmul_half_Fin:
  assumes "fmul (Fin (1/2)) x = Fin z"
  obtains h where "x = Fin h" "z = fl (h / 2)"
  using assms by (cases x) (auto dest: rnd_Fin)

lemma aTM_params_f64_probs:
  assumes "aTM_params_f64 pw r sigma divy T N = Inr P"
  shows "fp_pu P = fmul (Fin (1/2)) (fadd (fp_sf P) (fp_af P))"
    and "fp_pm P = fsub (Fin 1) (fp_sf P)"
    and "fp_pd P = fmul (Fin (1/2)) (fsub (fp_sf P) (fp_af P))"
  using assms
  by (auto simp add: aTM_params_f64_def Let_def split: if_splits sum.splits)

lemma sum_rounded:
  fixes s a :: real
  assumes pu: "pu = fl (fl (s + a) / 2)" and pm: "pm = fl (1 - s)" and pd: "pd = fl (fl (s - a) / 2)"
  shows "\<bar>pu + pm + pd - 1\<bar> \<le> (\<bar>s + a\<bar> / 2 + \<bar>1 - s\<bar> + \<bar>s - a\<bar> / 2) / 2 ^ 53 + 1 / 2 ^ 1073"
proof -
  have e1: "\<bar>fl (s + a) - (s + a)\<bar> \<le> \<bar>s + a\<bar> / 2 ^ 53 + 1 / 2 ^ 1075" by (rule fl_error)
  have e2: "\<bar>fl (s - a) - (s - a)\<bar> \<le> \<bar>s - a\<bar> / 2 ^ 53 + 1 / 2 ^ 1075" by (rule fl_error)
  have e3: "\<bar>pm - (1 - s)\<bar> \<le> \<bar>1 - s\<bar> / 2 ^ 53 + 1 / 2 ^ 1075" unfolding pm by (rule fl_error)
  have e4: "\<bar>pu - fl (s + a) / 2\<bar> \<le> 1 / 2 ^ 1075" unfolding pu by (rule fl_half [OF is_f64_fl])
  have e5: "\<bar>pd - fl (s - a) / 2\<bar> \<le> 1 / 2 ^ 1075" unfolding pd by (rule fl_half [OF is_f64_fl])
  define c :: real where "c = 1 / 2 ^ 1075"
  define A where "A = \<bar>s + a\<bar> / 2 ^ 53"
  define B where "B = \<bar>s - a\<bar> / 2 ^ 53"
  define C where "C = \<bar>1 - s\<bar> / 2 ^ 53"
  have c4: "1 / (2::real) ^ 1073 = 4 * c" by (simp add: c_def)
  have split: "(\<bar>s + a\<bar> / 2 + \<bar>1 - s\<bar> + \<bar>s - a\<bar> / 2) / 2 ^ 53 = A / 2 + C + B / 2"
    by (simp add: A_def B_def C_def add_divide_distrib)
  from e1 e2 e3 e4 e5 have "\<bar>pu + pm + pd - 1\<bar> \<le> A / 2 + C + B / 2 + 4 * c"
    unfolding c_def [symmetric] A_def [symmetric] B_def [symmetric] C_def [symmetric] by linarith
  then show ?thesis unfolding split c4 .
qed

lemma rnd_eval: "fl x = z \<Longrightarrow> \<bar>z\<bar> < 2 ^ 1024 \<Longrightarrow> rnd x = Fin z"
  by (simp add: rnd_def)

subsection \<open>The trinomial parameters at \<open>r = 0.06\<close>, \<open>sigma = 0.2\<close>, \<open>div = 0.03\<close>, \<open>T = 1\<close>, \<open>Ntree = 5\<close>\<close>

text \<open>
  The floats \<open>0.06\<close>, \<open>0.2\<close> and \<open>0.03\<close> are \<open>8646911284551352 / 2^57\<close>,
  \<open>7205759403792794 / 2^55\<close> and \<open>8646911284551352 / 2^58\<close>. Each lemma below rounds
  one intermediate result of the parameter block.
\<close>

lemma sample_fl_N: "fl (5) = 5"
proof -
  define x :: real where "x = 5"
  have "\<bar>x * 2 ^ 50 - of_int 5629499534213120\<bar> < 1/2" by (simp add: x_def abs_less_iff)
  then have r: "round_half_even (x * 2 ^ 50) = 5629499534213120"
    by (rule round_half_even_near)
  have "fl x = of_int (round_half_even (x * 2 ^ 50)) / 2 ^ 50"
    by (intro fl_eval) (simp_all add: x_def)
  then have "fl x = 5" unfolding r by simp
  then show ?thesis unfolding x_def .
qed

lemma sample_fl_dt: "fl (1 / 5) = 7205759403792794 / 2 ^ 55"
proof -
  define x :: real where "x = 1 / 5"
  have "\<bar>x * 2 ^ 55 - of_int 7205759403792794\<bar> < 1/2" by (simp add: x_def abs_less_iff)
  then have r: "round_half_even (x * 2 ^ 55) = 7205759403792794"
    by (rule round_half_even_near)
  have "fl x = of_int (round_half_even (x * 2 ^ 55)) / 2 ^ 55"
    by (intro fl_eval) (simp_all add: x_def)
  then have "fl x = 7205759403792794 / 2 ^ 55" unfolding r by simp
  then show ?thesis unfolding x_def .
qed

lemma sample_fl_sdt: "fl (sqrt (7205759403792794 / 2 ^ 55)) = 8056283928194521 / 2 ^ 54"
proof -
  have lo: "(8056283928194521 - 1/2) / 2 ^ 54 < sqrt (7205759403792794 / 2 ^ 55)"
    by (rule real_less_rsqrt) (simp add: power2_eq_square)
  have hi: "sqrt (7205759403792794 / 2 ^ 55) < (8056283928194521 + 1/2) / 2 ^ 54"
    by (rule real_less_lsqrt) (simp_all add: power2_eq_square)
  define y :: real where "y = sqrt (7205759403792794 / 2 ^ 55) * 2 ^ 54"
  have ylo: "8056283928194521 - 1/2 < y" using lo by (simp add: y_def field_simps)
  have yhi: "y < 8056283928194521 + 1/2" using hi by (simp add: y_def field_simps)
  from ylo yhi have "\<bar>y - 8056283928194521\<bar> < 1/2" by linarith
  then have "\<bar>y - of_int 8056283928194521\<bar> < 1/2" by simp
  then have r: "round_half_even y = 8056283928194521" by (rule round_half_even_near)
  have nn: "\<bar>sqrt (7205759403792794 / 2 ^ 55)\<bar> * 2 ^ 54 = y" by (simp add: y_def)
  have "fl (sqrt (7205759403792794 / 2 ^ 55)) = of_int (round_half_even (sqrt (7205759403792794 / 2 ^ 55) * 2 ^ 54)) / 2 ^ 54"
  proof (rule fl_eval)
    show "2 ^ 52 \<le> \<bar>sqrt (7205759403792794 / 2 ^ 55)\<bar> * 2 ^ 54" unfolding nn using ylo by simp
    show "\<bar>sqrt (7205759403792794 / 2 ^ 55)\<bar> * 2 ^ 54 < 2 ^ 53" unfolding nn using yhi by simp
  qed simp
  then have "fl (sqrt (7205759403792794 / 2 ^ 55)) = of_int (round_half_even y) / 2 ^ 54" unfolding y_def .
  then show ?thesis unfolding r by simp
qed

lemma sample_fl_c3: "fl (sqrt 3) = 7800463371553962 / 2 ^ 52"
proof -
  have lo: "(7800463371553962 - 1/2) / 2 ^ 52 < sqrt 3"
    by (rule real_less_rsqrt) (simp add: power2_eq_square)
  have hi: "sqrt 3 < (7800463371553962 + 1/2) / 2 ^ 52"
    by (rule real_less_lsqrt) (simp_all add: power2_eq_square)
  define y :: real where "y = sqrt 3 * 2 ^ 52"
  have ylo: "7800463371553962 - 1/2 < y" using lo by (simp add: y_def field_simps)
  have yhi: "y < 7800463371553962 + 1/2" using hi by (simp add: y_def field_simps)
  from ylo yhi have "\<bar>y - 7800463371553962\<bar> < 1/2" by linarith
  then have "\<bar>y - of_int 7800463371553962\<bar> < 1/2" by simp
  then have r: "round_half_even y = 7800463371553962" by (rule round_half_even_near)
  have nn: "\<bar>sqrt 3\<bar> * 2 ^ 52 = y" by (simp add: y_def)
  have "fl (sqrt 3) = of_int (round_half_even (sqrt 3 * 2 ^ 52)) / 2 ^ 52"
  proof (rule fl_eval)
    show "2 ^ 52 \<le> \<bar>sqrt 3\<bar> * 2 ^ 52" unfolding nn using ylo by simp
    show "\<bar>sqrt 3\<bar> * 2 ^ 52 < 2 ^ 53" unfolding nn using yhi by simp
  qed simp
  then have "fl (sqrt 3) = of_int (round_half_even y) / 2 ^ 52" unfolding y_def .
  then show ?thesis unfolding r by simp
qed

lemma sample_fl_t1:
  "fl ((7800463371553962 / 2 ^ 52) * (7205759403792794 / 2 ^ 55))
     = 6240370697243170 / 2 ^ 54"
proof -
  define x :: real where "x = (7800463371553962 / 2 ^ 52) * (7205759403792794 / 2 ^ 55)"
  have "\<bar>x * 2 ^ 54 - of_int 6240370697243170\<bar> < 1/2" by (simp add: x_def abs_less_iff)
  then have r: "round_half_even (x * 2 ^ 54) = 6240370697243170"
    by (rule round_half_even_near)
  have "fl x = of_int (round_half_even (x * 2 ^ 54)) / 2 ^ 54"
    by (intro fl_eval) (simp_all add: x_def)
  then have "fl x = 6240370697243170 / 2 ^ 54" unfolding r by simp
  then show ?thesis unfolding x_def .
qed

lemma sample_fl_dx:
  "fl ((6240370697243170 / 2 ^ 54) * (8056283928194521 / 2 ^ 54))
     = 5581557233533395 / 2 ^ 55"
proof -
  define x :: real where "x = (6240370697243170 / 2 ^ 54) * (8056283928194521 / 2 ^ 54)"
  have "\<bar>x * 2 ^ 55 - of_int 5581557233533395\<bar> < 1/2" by (simp add: x_def abs_less_iff)
  then have r: "round_half_even (x * 2 ^ 55) = 5581557233533395"
    by (rule round_half_even_near)
  have "fl x = of_int (round_half_even (x * 2 ^ 55)) / 2 ^ 55"
    by (intro fl_eval) (simp_all add: x_def)
  then have "fl x = 5581557233533395 / 2 ^ 55" unfolding r by simp
  then show ?thesis unfolding x_def .
qed

lemma sample_fl_s2:
  "fl ((7205759403792794 / 2 ^ 55) * (7205759403792794 / 2 ^ 55))
     = 5764607523034236 / 2 ^ 57"
proof -
  define x :: real where "x = (7205759403792794 / 2 ^ 55) * (7205759403792794 / 2 ^ 55)"
  have "\<bar>x * 2 ^ 57 - of_int 5764607523034236\<bar> < 1/2" by (simp add: x_def abs_less_iff)
  then have r: "round_half_even (x * 2 ^ 57) = 5764607523034236"
    by (rule round_half_even_near)
  have "fl x = of_int (round_half_even (x * 2 ^ 57)) / 2 ^ 57"
    by (intro fl_eval) (simp_all add: x_def)
  then have "fl x = 5764607523034236 / 2 ^ 57" unfolding r by simp
  then show ?thesis unfolding x_def .
qed

lemma sample_fl_rd:
  "fl ((8646911284551352 / 2 ^ 57) + - (8646911284551352 / 2 ^ 58))
     = 8646911284551352 / 2 ^ 58"
proof -
  define x :: real where "x = (8646911284551352 / 2 ^ 57) + - (8646911284551352 / 2 ^ 58)"
  have "\<bar>x * 2 ^ 58 - of_int 8646911284551352\<bar> < 1/2" by (simp add: x_def abs_less_iff)
  then have r: "round_half_even (x * 2 ^ 58) = 8646911284551352"
    by (rule round_half_even_near)
  have "fl x = of_int (round_half_even (x * 2 ^ 58)) / 2 ^ 58"
    by (intro fl_eval) (simp_all add: x_def)
  then have "fl x = 8646911284551352 / 2 ^ 58" unfolding r by simp
  then show ?thesis unfolding x_def .
qed

lemma sample_fl_hs: "fl ((1/2) * (5764607523034236 / 2 ^ 57)) = 5764607523034236 / 2 ^ 58"
proof -
  define x :: real where "x = (1/2) * (5764607523034236 / 2 ^ 57)"
  have "\<bar>x * 2 ^ 58 - of_int 5764607523034236\<bar> < 1/2" by (simp add: x_def abs_less_iff)
  then have r: "round_half_even (x * 2 ^ 58) = 5764607523034236"
    by (rule round_half_even_near)
  have "fl x = of_int (round_half_even (x * 2 ^ 58)) / 2 ^ 58"
    by (intro fl_eval) (simp_all add: x_def)
  then have "fl x = 5764607523034236 / 2 ^ 58" unfolding r by simp
  then show ?thesis unfolding x_def .
qed

lemma sample_fl_nu:
  "fl ((8646911284551352 / 2 ^ 58) + - (5764607523034236 / 2 ^ 58))
     = 5764607523034232 / 2 ^ 59"
proof -
  define x :: real where "x = (8646911284551352 / 2 ^ 58) + - (5764607523034236 / 2 ^ 58)"
  have "\<bar>x * 2 ^ 59 - of_int 5764607523034232\<bar> < 1/2" by (simp add: x_def abs_less_iff)
  then have r: "round_half_even (x * 2 ^ 59) = 5764607523034232"
    by (rule round_half_even_near)
  have "fl x = of_int (round_half_even (x * 2 ^ 59)) / 2 ^ 59"
    by (intro fl_eval) (simp_all add: x_def)
  then have "fl x = 5764607523034232 / 2 ^ 59" unfolding r by simp
  then show ?thesis unfolding x_def .
qed

lemma sample_fl_nd:
  "fl ((5764607523034232 / 2 ^ 59) * (7205759403792794 / 2 ^ 55))
     = 4611686018427386 / 2 ^ 61"
proof -
  define x :: real where "x = (5764607523034232 / 2 ^ 59) * (7205759403792794 / 2 ^ 55)"
  have "\<bar>x * 2 ^ 61 - of_int 4611686018427386\<bar> < 1/2" by (simp add: x_def abs_less_iff)
  then have r: "round_half_even (x * 2 ^ 61) = 4611686018427386"
    by (rule round_half_even_near)
  have "fl x = of_int (round_half_even (x * 2 ^ 61)) / 2 ^ 61"
    by (intro fl_eval) (simp_all add: x_def)
  then have "fl x = 4611686018427386 / 2 ^ 61" unfolding r by simp
  then show ?thesis unfolding x_def .
qed

lemma sample_fl_nd2:
  "fl ((4611686018427386 / 2 ^ 61) * (4611686018427386 / 2 ^ 61))
     = 4722366482869641 / 2 ^ 70"
proof -
  define x :: real where "x = (4611686018427386 / 2 ^ 61) * (4611686018427386 / 2 ^ 61)"
  have "\<bar>x * 2 ^ 70 - of_int 4722366482869641\<bar> < 1/2" by (simp add: x_def abs_less_iff)
  then have r: "round_half_even (x * 2 ^ 70) = 4722366482869641"
    by (rule round_half_even_near)
  have "fl x = of_int (round_half_even (x * 2 ^ 70)) / 2 ^ 70"
    by (intro fl_eval) (simp_all add: x_def)
  then have "fl x = 4722366482869641 / 2 ^ 70" unfolding r by simp
  then show ?thesis unfolding x_def .
qed

lemma sample_fl_sd:
  "fl ((5764607523034236 / 2 ^ 57) * (7205759403792794 / 2 ^ 55))
     = 4611686018427389 / 2 ^ 59"
proof -
  define x :: real where "x = (5764607523034236 / 2 ^ 57) * (7205759403792794 / 2 ^ 55)"
  have "\<bar>x * 2 ^ 59 - of_int 4611686018427389\<bar> < 1/2" by (simp add: x_def abs_less_iff)
  then have r: "round_half_even (x * 2 ^ 59) = 4611686018427389"
    by (rule round_half_even_near)
  have "fl x = of_int (round_half_even (x * 2 ^ 59)) / 2 ^ 59"
    by (intro fl_eval) (simp_all add: x_def)
  then have "fl x = 4611686018427389 / 2 ^ 59" unfolding r by simp
  then show ?thesis unfolding x_def .
qed

lemma sample_fl_num:
  "fl ((4611686018427389 / 2 ^ 59) + (4722366482869641 / 2 ^ 70))
     = 4613991861436603 / 2 ^ 59"
proof -
  define x :: real where "x = (4611686018427389 / 2 ^ 59) + (4722366482869641 / 2 ^ 70)"
  have "\<bar>x * 2 ^ 59 - of_int 4613991861436603\<bar> < 1/2" by (simp add: x_def abs_less_iff)
  then have r: "round_half_even (x * 2 ^ 59) = 4613991861436603"
    by (rule round_half_even_near)
  have "fl x = of_int (round_half_even (x * 2 ^ 59)) / 2 ^ 59"
    by (intro fl_eval) (simp_all add: x_def)
  then have "fl x = 4613991861436603 / 2 ^ 59" unfolding r by simp
  then show ?thesis unfolding x_def .
qed

lemma sample_fl_dx2:
  "fl ((5581557233533395 / 2 ^ 55) * (5581557233533395 / 2 ^ 55))
     = 6917529027641082 / 2 ^ 58"
proof -
  define x :: real where "x = (5581557233533395 / 2 ^ 55) * (5581557233533395 / 2 ^ 55)"
  have "\<bar>x * 2 ^ 58 - of_int 6917529027641082\<bar> < 1/2" by (simp add: x_def abs_less_iff)
  then have r: "round_half_even (x * 2 ^ 58) = 6917529027641082"
    by (rule round_half_even_near)
  have "fl x = of_int (round_half_even (x * 2 ^ 58)) / 2 ^ 58"
    by (intro fl_eval) (simp_all add: x_def)
  then have "fl x = 6917529027641082 / 2 ^ 58" unfolding r by simp
  then show ?thesis unfolding x_def .
qed

lemma sample_fl_sf:
  "fl ((4613991861436603 / 2 ^ 59) / (6917529027641082 / 2 ^ 58))
     = 6007801902912243 / 2 ^ 54"
proof -
  define x :: real where "x = (4613991861436603 / 2 ^ 59) / (6917529027641082 / 2 ^ 58)"
  have "\<bar>x * 2 ^ 54 - of_int 6007801902912243\<bar> < 1/2" by (simp add: x_def abs_less_iff)
  then have r: "round_half_even (x * 2 ^ 54) = 6007801902912243"
    by (rule round_half_even_near)
  have "fl x = of_int (round_half_even (x * 2 ^ 54)) / 2 ^ 54"
    by (intro fl_eval) (simp_all add: x_def)
  then have "fl x = 6007801902912243 / 2 ^ 54" unfolding r by simp
  then show ?thesis unfolding x_def .
qed

lemma sample_fl_af:
  "fl ((4611686018427386 / 2 ^ 61) / (5581557233533395 / 2 ^ 55))
     = 7442076311377857 / 2 ^ 59"
proof -
  define x :: real where "x = (4611686018427386 / 2 ^ 61) / (5581557233533395 / 2 ^ 55)"
  have "\<bar>x * 2 ^ 59 - of_int 7442076311377857\<bar> < 1/2" by (simp add: x_def abs_less_iff)
  then have r: "round_half_even (x * 2 ^ 59) = 7442076311377857"
    by (rule round_half_even_near)
  have "fl x = of_int (round_half_even (x * 2 ^ 59)) / 2 ^ 59"
    by (intro fl_eval) (simp_all add: x_def)
  then have "fl x = 7442076311377857 / 2 ^ 59" unfolding r by simp
  then show ?thesis unfolding x_def .
qed

lemma sample_fl_h1:
  "fl ((6007801902912243 / 2 ^ 54) + (7442076311377857 / 2 ^ 59))
     = 6240366787642801 / 2 ^ 54"
proof -
  define x :: real where "x = (6007801902912243 / 2 ^ 54) + (7442076311377857 / 2 ^ 59)"
  have "\<bar>x * 2 ^ 54 - of_int 6240366787642801\<bar> < 1/2" by (simp add: x_def abs_less_iff)
  then have r: "round_half_even (x * 2 ^ 54) = 6240366787642801"
    by (rule round_half_even_near)
  have "fl x = of_int (round_half_even (x * 2 ^ 54)) / 2 ^ 54"
    by (intro fl_eval) (simp_all add: x_def)
  then have "fl x = 6240366787642801 / 2 ^ 54" unfolding r by simp
  then show ?thesis unfolding x_def .
qed

lemma sample_fl_pu: "fl ((1/2) * (6240366787642801 / 2 ^ 54)) = 6240366787642801 / 2 ^ 55"
proof -
  define x :: real where "x = (1/2) * (6240366787642801 / 2 ^ 54)"
  have "\<bar>x * 2 ^ 55 - of_int 6240366787642801\<bar> < 1/2" by (simp add: x_def abs_less_iff)
  then have r: "round_half_even (x * 2 ^ 55) = 6240366787642801"
    by (rule round_half_even_near)
  have "fl x = of_int (round_half_even (x * 2 ^ 55)) / 2 ^ 55"
    by (intro fl_eval) (simp_all add: x_def)
  then have "fl x = 6240366787642801 / 2 ^ 55" unfolding r by simp
  then show ?thesis unfolding x_def .
qed

lemma sample_fl_pm: "fl (1 + - (6007801902912243 / 2 ^ 54)) = 6003298303284870 / 2 ^ 53"
proof -
  define x :: real where "x = 1 + - (6007801902912243 / 2 ^ 54)"
  have "x * 2 ^ 53 = of_int 6003298303284870 + 1/2" by (simp add: x_def)
  then have "round_half_even (x * 2 ^ 53) =
      (if even (6003298303284870::int) then 6003298303284870 else 6003298303284870 + 1)"
    by (rule round_half_even_tie)
  then have r: "round_half_even (x * 2 ^ 53) = 6003298303284870" by simp
  have "fl x = of_int (round_half_even (x * 2 ^ 53)) / 2 ^ 53"
    by (intro fl_eval) (simp_all add: x_def)
  then have "fl x = 6003298303284870 / 2 ^ 53" unfolding r by simp
  then show ?thesis unfolding x_def .
qed

lemma sample_fl_h2:
  "fl ((6007801902912243 / 2 ^ 54) + - (7442076311377857 / 2 ^ 59))
     = 5775237018181685 / 2 ^ 54"
proof -
  define x :: real where "x = (6007801902912243 / 2 ^ 54) + - (7442076311377857 / 2 ^ 59)"
  have "\<bar>x * 2 ^ 54 - of_int 5775237018181685\<bar> < 1/2" by (simp add: x_def abs_less_iff)
  then have r: "round_half_even (x * 2 ^ 54) = 5775237018181685"
    by (rule round_half_even_near)
  have "fl x = of_int (round_half_even (x * 2 ^ 54)) / 2 ^ 54"
    by (intro fl_eval) (simp_all add: x_def)
  then have "fl x = 5775237018181685 / 2 ^ 54" unfolding r by simp
  then show ?thesis unfolding x_def .
qed

lemma sample_fl_pd: "fl ((1/2) * (5775237018181685 / 2 ^ 54)) = 5775237018181685 / 2 ^ 55"
proof -
  define x :: real where "x = (1/2) * (5775237018181685 / 2 ^ 54)"
  have "\<bar>x * 2 ^ 55 - of_int 5775237018181685\<bar> < 1/2" by (simp add: x_def abs_less_iff)
  then have r: "round_half_even (x * 2 ^ 55) = 5775237018181685"
    by (rule round_half_even_near)
  have "fl x = of_int (round_half_even (x * 2 ^ 55)) / 2 ^ 55"
    by (intro fl_eval) (simp_all add: x_def)
  then have "fl x = 5775237018181685 / 2 ^ 55" unfolding r by simp
  then show ?thesis unfolding x_def .
qed

lemma sample_params:
  "aTM_params_f64 square_rounded
     (8646911284551352 / 2 ^ 57) (7205759403792794 / 2 ^ 55) (8646911284551352 / 2 ^ 58) 1 5 =
     Inr \<lparr>fp_dx = Fin (5581557233533395 / 2 ^ 55),
          fp_sf = Fin (6007801902912243 / 2 ^ 54),
          fp_af = Fin (7442076311377857 / 2 ^ 59),
          fp_pu = Fin (6240366787642801 / 2 ^ 55),
          fp_pm = Fin (6003298303284870 / 2 ^ 53),
          fp_pd = Fin (5775237018181685 / 2 ^ 55)\<rparr>"
proof -
  have n0: "((5::nat) = 0) = False"
    by simp
  have flN: "fl (real (5::nat)) = 5"
    using sample_fl_N by simp
  have n1: "(2 ^ 1024 \<le> fl (real (5::nat))) = False"
    unfolding flN by simp
  have dt: "fdiv (Fin 1) (Fin (fl (real (5::nat)))) = Fin (7205759403792794 / 2 ^ 55)"
  proof -
    have nz: "5 \<noteq> (0::real)" by simp
    show ?thesis
      unfolding flN fdiv.simps if_not_P [OF nz] by (rule rnd_eval [OF sample_fl_dt]) simp
  qed
  have sdt: "fsqrt (Fin (7205759403792794 / 2 ^ 55)) = Fin (8056283928194521 / 2 ^ 54)"
  proof -
    have nn: "\<not> (7205759403792794 / 2 ^ 55) < (0::real)" by simp
    show ?thesis
      unfolding fsqrt.simps if_not_P [OF nn] by (rule rnd_eval [OF sample_fl_sdt]) simp
  qed
  have c3: "fsqrt (Fin 3) = Fin (7800463371553962 / 2 ^ 52)"
  proof -
    have nn: "\<not> 3 < (0::real)" by simp
    show ?thesis
      unfolding fsqrt.simps if_not_P [OF nn] by (rule rnd_eval [OF sample_fl_c3]) simp
  qed
  have t1: "fmul (Fin (7800463371553962 / 2 ^ 52)) (Fin (7205759403792794 / 2 ^ 55))
      = Fin (6240370697243170 / 2 ^ 54)"
    unfolding fmul.simps by (rule rnd_eval [OF sample_fl_t1]) simp
  have dx: "fmul (Fin (6240370697243170 / 2 ^ 54)) (Fin (8056283928194521 / 2 ^ 54))
      = Fin (5581557233533395 / 2 ^ 55)"
    unfolding fmul.simps by (rule rnd_eval [OF sample_fl_dx]) simp
  have s2: "py_square square_rounded (Fin (7205759403792794 / 2 ^ 55))
      = Inr (Fin (5764607523034236 / 2 ^ 57))"
    unfolding py_square.simps square_rounded_def sample_fl_s2 by simp
  have rd: "fsub (Fin (8646911284551352 / 2 ^ 57)) (Fin (8646911284551352 / 2 ^ 58))
      = Fin (8646911284551352 / 2 ^ 58)"
    unfolding fsub_def fneg.simps fadd.simps by (rule rnd_eval [OF sample_fl_rd]) simp
  have hs: "fmul (Fin (1/2)) (Fin (5764607523034236 / 2 ^ 57))
      = Fin (5764607523034236 / 2 ^ 58)"
    unfolding fmul.simps by (rule rnd_eval [OF sample_fl_hs]) simp
  have nu: "fsub (Fin (8646911284551352 / 2 ^ 58)) (Fin (5764607523034236 / 2 ^ 58))
      = Fin (5764607523034232 / 2 ^ 59)"
    unfolding fsub_def fneg.simps fadd.simps by (rule rnd_eval [OF sample_fl_nu]) simp
  have nd: "fmul (Fin (5764607523034232 / 2 ^ 59)) (Fin (7205759403792794 / 2 ^ 55))
      = Fin (4611686018427386 / 2 ^ 61)"
    unfolding fmul.simps by (rule rnd_eval [OF sample_fl_nd]) simp
  have nd2: "py_square square_rounded (Fin (4611686018427386 / 2 ^ 61))
      = Inr (Fin (4722366482869641 / 2 ^ 70))"
    unfolding py_square.simps square_rounded_def sample_fl_nd2 by simp
  have sd: "fmul (Fin (5764607523034236 / 2 ^ 57)) (Fin (7205759403792794 / 2 ^ 55))
      = Fin (4611686018427389 / 2 ^ 59)"
    unfolding fmul.simps by (rule rnd_eval [OF sample_fl_sd]) simp
  have num: "fadd (Fin (4611686018427389 / 2 ^ 59)) (Fin (4722366482869641 / 2 ^ 70))
      = Fin (4613991861436603 / 2 ^ 59)"
    unfolding fadd.simps by (rule rnd_eval [OF sample_fl_num]) simp
  have dx2: "np_square square_rounded (Fin (5581557233533395 / 2 ^ 55))
      = Fin (6917529027641082 / 2 ^ 58)"
    unfolding np_square.simps square_rounded_def sample_fl_dx2 by simp
  have sf: "fdiv (Fin (4613991861436603 / 2 ^ 59)) (Fin (6917529027641082 / 2 ^ 58))
      = Fin (6007801902912243 / 2 ^ 54)"
  proof -
    have nz: "(6917529027641082 / 2 ^ 58) \<noteq> (0::real)" by simp
    show ?thesis
      unfolding fdiv.simps if_not_P [OF nz] by (rule rnd_eval [OF sample_fl_sf]) simp
  qed
  have af: "fdiv (Fin (4611686018427386 / 2 ^ 61)) (Fin (5581557233533395 / 2 ^ 55))
      = Fin (7442076311377857 / 2 ^ 59)"
  proof -
    have nz: "(5581557233533395 / 2 ^ 55) \<noteq> (0::real)" by simp
    show ?thesis
      unfolding fdiv.simps if_not_P [OF nz] by (rule rnd_eval [OF sample_fl_af]) simp
  qed
  have h1: "fadd (Fin (6007801902912243 / 2 ^ 54)) (Fin (7442076311377857 / 2 ^ 59))
      = Fin (6240366787642801 / 2 ^ 54)"
    unfolding fadd.simps by (rule rnd_eval [OF sample_fl_h1]) simp
  have pu: "fmul (Fin (1/2)) (Fin (6240366787642801 / 2 ^ 54))
      = Fin (6240366787642801 / 2 ^ 55)"
    unfolding fmul.simps by (rule rnd_eval [OF sample_fl_pu]) simp
  have pm: "fsub (Fin 1) (Fin (6007801902912243 / 2 ^ 54)) = Fin (6003298303284870 / 2 ^ 53)"
    unfolding fsub_def fneg.simps fadd.simps by (rule rnd_eval [OF sample_fl_pm]) simp
  have h2: "fsub (Fin (6007801902912243 / 2 ^ 54)) (Fin (7442076311377857 / 2 ^ 59))
      = Fin (5775237018181685 / 2 ^ 54)"
    unfolding fsub_def fneg.simps fadd.simps by (rule rnd_eval [OF sample_fl_h2]) simp
  have pd: "fmul (Fin (1/2)) (Fin (5775237018181685 / 2 ^ 54))
      = Fin (5775237018181685 / 2 ^ 55)"
    unfolding fmul.simps by (rule rnd_eval [OF sample_fl_pd]) simp
  show ?thesis
    unfolding aTM_params_f64_def
    by (simp only: n0 n1 if_False Let_def sum.case
        dt sdt c3 t1 dx s2 rd hs nu nd nd2 sd num dx2 sf af h1 pu pm h2 pd)
qed

lemma sample_fl_sum1:
  "fl ((6240366787642801 / 2 ^ 55) + (6003298303284870 / 2 ^ 53))
     = 7563390000195570 / 2 ^ 53"
proof -
  define x :: real where "x = (6240366787642801 / 2 ^ 55) + (6003298303284870 / 2 ^ 53)"
  have "\<bar>x * 2 ^ 53 - of_int 7563390000195570\<bar> < 1/2" by (simp add: x_def abs_less_iff)
  then have r: "round_half_even (x * 2 ^ 53) = 7563390000195570"
    by (rule round_half_even_near)
  have "fl x = of_int (round_half_even (x * 2 ^ 53)) / 2 ^ 53"
    by (intro fl_eval) (simp_all add: x_def)
  then have "fl x = 7563390000195570 / 2 ^ 53" unfolding r by simp
  then show ?thesis unfolding x_def .
qed

lemma sample_fl_sum2:
  "fl ((7563390000195570 / 2 ^ 53) + (5775237018181685 / 2 ^ 55))
     = 9007199254740991 / 2 ^ 53"
proof -
  define x :: real where "x = (7563390000195570 / 2 ^ 53) + (5775237018181685 / 2 ^ 55)"
  have "\<bar>x * 2 ^ 53 - of_int 9007199254740991\<bar> < 1/2" by (simp add: x_def abs_less_iff)
  then have r: "round_half_even (x * 2 ^ 53) = 9007199254740991"
    by (rule round_half_even_near)
  have "fl x = of_int (round_half_even (x * 2 ^ 53)) / 2 ^ 53"
    by (intro fl_eval) (simp_all add: x_def)
  then have "fl x = 9007199254740991 / 2 ^ 53" unfolding r by simp
  then show ?thesis unfolding x_def .
qed

subsection \<open>Trinomial probabilities\<close>

text \<open>
  With \<open>sigma = 0\<close> the step \<open>dx\<close> is zero or NaN, and the block computes no finite
  \<open>sf\<close> and no finite \<open>pm\<close>.
\<close>

lemma fmul_zero_left: "fmul (Fin 0) x = Fin 0 \<or> fmul (Fin 0) x = NaN"
  by (cases x) (simp_all add: rnd_def fl_zero)

lemma fdiv_by_zero: "fdiv x (Fin 0) \<noteq> Fin z"
  by (cases x) simp_all

lemma fdiv_by_NaN: "fdiv x NaN \<noteq> Fin z"
  by (cases x) simp_all

lemma aTM_params_f64_sf:
  assumes "aTM_params_f64 pw r sigma divy T N = Inr P"
  shows "\<exists>x sdt. fp_sf P = fdiv x (np_square pw (fmul (fmul (fsqrt (Fin 3)) (Fin sigma)) sdt))"
proof -
  from assms obtain s2 nd2 dt nu
    where "P = \<lparr>fp_dx = fmul (fmul (fsqrt (Fin 3)) (Fin sigma)) (fsqrt dt),
             fp_sf = fdiv (fadd (fmul s2 dt) nd2)
                       (np_square pw (fmul (fmul (fsqrt (Fin 3)) (Fin sigma)) (fsqrt dt))),
             fp_af = fdiv (fmul nu dt) (fmul (fmul (fsqrt (Fin 3)) (Fin sigma)) (fsqrt dt)),
             fp_pu = fmul (Fin (1/2))
                       (fadd (fdiv (fadd (fmul s2 dt) nd2)
                                (np_square pw (fmul (fmul (fsqrt (Fin 3)) (Fin sigma)) (fsqrt dt))))
                             (fdiv (fmul nu dt) (fmul (fmul (fsqrt (Fin 3)) (Fin sigma)) (fsqrt dt)))),
             fp_pm = fsub (Fin 1)
                       (fdiv (fadd (fmul s2 dt) nd2)
                          (np_square pw (fmul (fmul (fsqrt (Fin 3)) (Fin sigma)) (fsqrt dt)))),
             fp_pd = fmul (Fin (1/2))
                       (fsub (fdiv (fadd (fmul s2 dt) nd2)
                                (np_square pw (fmul (fmul (fsqrt (Fin 3)) (Fin sigma)) (fsqrt dt))))
                             (fdiv (fmul nu dt) (fmul (fmul (fsqrt (Fin 3)) (Fin sigma)) (fsqrt dt))))\<rparr>"
    unfolding aTM_params_f64_def Let_def
    by (auto split: if_splits sum.splits
        simp del: fdiv.simps fmul.simps fsqrt.simps fadd.simps np_square.simps py_square.simps)
  then have "fp_sf P = fdiv (fadd (fmul s2 dt) nd2)
                       (np_square pw (fmul (fmul (fsqrt (Fin 3)) (Fin sigma)) (fsqrt dt)))"
    by simp
  then show ?thesis by blast
qed

lemma aTM_params_f64_zero_sigma:
  assumes "aTM_params_f64 square_rounded r 0 divy T N = Inr P"
  shows "fp_sf P \<noteq> Fin s" and "fp_pm P \<noteq> Fin pm"
proof -
  have c3: "fsqrt (Fin 3) = Fin (7800463371553962 / 2 ^ 52)"
    by (simp add: rnd_eval [OF sample_fl_c3])
  have z: "fmul (Fin (7800463371553962 / 2 ^ 52)) (Fin 0) = Fin 0"
    by (simp add: rnd_def fl_zero)
  from aTM_params_f64_sf [OF assms] obtain x sdt
    where sf0: "fp_sf P = fdiv x (np_square square_rounded
                   (fmul (fmul (fsqrt (Fin 3)) (Fin 0)) sdt))"
    by blast
  define dx where "dx = fmul (Fin 0) sdt"
  have dx: "dx = Fin 0 \<or> dx = NaN" unfolding dx_def by (rule fmul_zero_left)
  have sq: "np_square square_rounded dx = Fin 0 \<or> np_square square_rounded dx = NaN"
    using dx by (auto simp add: square_rounded_def fl_zero)
  have nf: "fdiv x (np_square square_rounded dx) \<noteq> Fin s" for x s
    using sq fdiv_by_zero fdiv_by_NaN by metis
  have sf: "fp_sf P = fdiv x (np_square square_rounded dx)"
    unfolding sf0 c3 z dx_def ..
  show "fp_sf P \<noteq> Fin s" unfolding sf by (rule nf)
  show "fp_pm P \<noteq> Fin pm"
  proof
    assume "fp_pm P = Fin pm"
    with aTM_params_f64_probs(2) [OF assms] have "fsub (Fin 1) (fp_sf P) = Fin pm" by simp
    then obtain a b where "fp_sf P = Fin b" by (rule fsub_Fin)
    with sf nf show False by metis
  qed
qed

text \<open>
  Claim C8, as the code has it. Whenever the parameter block of \<open>aTM_Euro\<close> and
  \<open>aTM_Amer\<close> computes finite \<open>pu\<close>, \<open>pm\<close>, \<open>pd\<close>, whatever \<open>pow\<close> returns for the
  squares: the computed \<open>sf\<close> and \<open>af\<close> are finite, \<open>pu\<close>, \<open>pm\<close>, \<open>pd\<close> are the rounded
  \<open>(sf + af) / 2\<close>, \<open>1 - sf\<close>, \<open>(sf - af) / 2\<close>, and their sum differs from 1 by at most
  \<open>(|sf + af| / 2 + |1 - sf| + |sf - af| / 2) / 2^53 + 1 / 2^1073\<close>, which is
  \<open>1 / 2^53 + 1 / 2^1073\<close> when \<open>|af| \<le> sf \<le> 1\<close>. The sum need not be 1.
\<close>

theorem aTM_probabilities_sum_rounded:
  assumes "aTM_params_f64 pw r sigma divy T N = Inr P"
    and "fp_pu P = Fin pu" and "fp_pm P = Fin pm" and "fp_pd P = Fin pd"
  shows "\<exists>s a. fp_sf P = Fin s \<and> fp_af P = Fin a \<and>
           pu = fl (fl (s + a) / 2) \<and> pm = fl (1 - s) \<and> pd = fl (fl (s - a) / 2) \<and>
           \<bar>pu + pm + pd - 1\<bar>
             \<le> (\<bar>s + a\<bar> / 2 + \<bar>1 - s\<bar> + \<bar>s - a\<bar> / 2) / 2 ^ 53 + 1 / 2 ^ 1073 \<and>
           (\<bar>a\<bar> \<le> s \<and> s \<le> 1 \<longrightarrow> \<bar>pu + pm + pd - 1\<bar> \<le> 1 / 2 ^ 53 + 1 / 2 ^ 1073)"
proof -
  note eqs = aTM_params_f64_probs [OF assms(1)]
  from assms(3) eqs(2) obtain one s where one: "Fin 1 = Fin one" and s: "fp_sf P = Fin s"
    and pm: "pm = fl (one - s)"
    by (metis fsub_Fin)
  from one have pm': "pm = fl (1 - s)" using pm by simp
  from assms(2) eqs(1) obtain h where h: "fadd (fp_sf P) (fp_af P) = Fin h" and pu: "pu = fl (h / 2)"
    by (metis fmul_half_Fin)
  from h s obtain a where a: "fp_af P = Fin a" and h': "h = fl (s + a)"
    by (metis fadd_Fin f64.inject)
  from assms(4) eqs(3) obtain k where k: "fsub (fp_sf P) (fp_af P) = Fin k" and pd: "pd = fl (k / 2)"
    by (metis fmul_half_Fin)
  from k s a have k': "k = fl (s - a)"
    by (metis fsub_Fin f64.inject)
  have pu': "pu = fl (fl (s + a) / 2)" using pu h' by simp
  have pd': "pd = fl (fl (s - a) / 2)" using pd k' by simp
  have bound: "\<bar>pu + pm + pd - 1\<bar>
      \<le> (\<bar>s + a\<bar> / 2 + \<bar>1 - s\<bar> + \<bar>s - a\<bar> / 2) / 2 ^ 53 + 1 / 2 ^ 1073"
    by (rule sum_rounded [OF pu' pm' pd'])
  have unit: "\<bar>pu + pm + pd - 1\<bar> \<le> 1 / 2 ^ 53 + 1 / 2 ^ 1073" if "\<bar>a\<bar> \<le> s \<and> s \<le> 1"
  proof -
    from that have "\<bar>s + a\<bar> = s + a" "\<bar>1 - s\<bar> = 1 - s" "\<bar>s - a\<bar> = s - a" by linarith+
    then have "\<bar>s + a\<bar> / 2 + \<bar>1 - s\<bar> + \<bar>s - a\<bar> / 2 = 1" by (simp add: field_simps)
    with bound show ?thesis by simp
  qed
  from s a pu' pm' pd' bound unit show ?thesis by blast
qed

theorem aTM_probabilities_sum_rounded_witness:
  "aTM_params_f64 square_rounded
     (8646911284551352 / 2 ^ 57) (7205759403792794 / 2 ^ 55) (8646911284551352 / 2 ^ 58) 1 5 =
     Inr \<lparr>fp_dx = Fin (5581557233533395 / 2 ^ 55),
          fp_sf = Fin (6007801902912243 / 2 ^ 54),
          fp_af = Fin (7442076311377857 / 2 ^ 59),
          fp_pu = Fin (6240366787642801 / 2 ^ 55),
          fp_pm = Fin (6003298303284870 / 2 ^ 53),
          fp_pd = Fin (5775237018181685 / 2 ^ 55)\<rparr> \<and>
   \<bar>6240366787642801 / 2 ^ 55 + 6003298303284870 / 2 ^ 53
      + 5775237018181685 / 2 ^ 55 - (1::real)\<bar>
     \<le> 1 / 2 ^ 53 + 1 / 2 ^ 1073"
proof -
  let ?P = "\<lparr>fp_dx = Fin (5581557233533395 / 2 ^ 55),
          fp_sf = Fin (6007801902912243 / 2 ^ 54),
          fp_af = Fin (7442076311377857 / 2 ^ 59),
          fp_pu = Fin (6240366787642801 / 2 ^ 55),
          fp_pm = Fin (6003298303284870 / 2 ^ 53),
          fp_pd = Fin (5775237018181685 / 2 ^ 55)\<rparr>"
  have pu: "fp_pu ?P = Fin (6240366787642801 / 2 ^ 55)"
    and pm: "fp_pm ?P = Fin (6003298303284870 / 2 ^ 53)"
    and pd: "fp_pd ?P = Fin (5775237018181685 / 2 ^ 55)" by simp_all
  from aTM_probabilities_sum_rounded [OF sample_params pu pm pd]
  obtain s a where s: "fp_sf ?P = Fin s" and a: "fp_af ?P = Fin a"
    and u: "\<bar>a\<bar> \<le> s \<and> s \<le> 1 \<longrightarrow>
      \<bar>6240366787642801 / 2 ^ 55 + 6003298303284870 / 2 ^ 53
      + 5775237018181685 / 2 ^ 55 - (1::real)\<bar>
        \<le> 1 / 2 ^ 53 + 1 / 2 ^ 1073"
    by blast
  from s have "s = 6007801902912243 / 2 ^ 54" by simp
  moreover from a have "a = 7442076311377857 / 2 ^ 59" by simp
  ultimately have "\<bar>a\<bar> \<le> s \<and> s \<le> 1" by simp
  with u have "\<bar>6240366787642801 / 2 ^ 55 + 6003298303284870 / 2 ^ 53
      + 5775237018181685 / 2 ^ 55 - (1::real)\<bar>
        \<le> 1 / 2 ^ 53 + 1 / 2 ^ 1073"
    by blast
  with sample_params show ?thesis by blast
qed

theorem aTM_probabilities_sum_counterexample:
  "aTM_params_f64 square_rounded
     (8646911284551352 / 2 ^ 57) (7205759403792794 / 2 ^ 55) (8646911284551352 / 2 ^ 58) 1 5 =
     Inr \<lparr>fp_dx = Fin (5581557233533395 / 2 ^ 55),
          fp_sf = Fin (6007801902912243 / 2 ^ 54),
          fp_af = Fin (7442076311377857 / 2 ^ 59),
          fp_pu = Fin (6240366787642801 / 2 ^ 55),
          fp_pm = Fin (6003298303284870 / 2 ^ 53),
          fp_pd = Fin (5775237018181685 / 2 ^ 55)\<rparr> \<and>
   6240366787642801 / 2 ^ 55 + 6003298303284870 / 2 ^ 53
      + 5775237018181685 / 2 ^ 55 \<noteq> (1::real) \<and>
   fadd (fadd (Fin (6240366787642801 / 2 ^ 55)) (Fin (6003298303284870 / 2 ^ 53)))
     (Fin (5775237018181685 / 2 ^ 55)) \<noteq> Fin 1"
proof -
  have s1: "fadd (Fin (6240366787642801 / 2 ^ 55)) (Fin (6003298303284870 / 2 ^ 53))
              = Fin (7563390000195570 / 2 ^ 53)"
    unfolding fadd.simps by (rule rnd_eval [OF sample_fl_sum1]) simp
  have s2: "fadd (Fin (7563390000195570 / 2 ^ 53)) (Fin (5775237018181685 / 2 ^ 55))
              = Fin (9007199254740991 / 2 ^ 53)"
    unfolding fadd.simps by (rule rnd_eval [OF sample_fl_sum2]) simp
  have "fadd (fadd (Fin (6240366787642801 / 2 ^ 55)) (Fin (6003298303284870 / 2 ^ 53)))
          (Fin (5775237018181685 / 2 ^ 55)) \<noteq> Fin 1"
    unfolding s1 s2 by simp
  moreover have "6240366787642801 / 2 ^ 55 + 6003298303284870 / 2 ^ 53
      + 5775237018181685 / 2 ^ 55 \<noteq> (1::real)"
    by simp
  ultimately show ?thesis using sample_params by blast
qed

end
